(* ===== verification/Prelude.thy ===== *)
theory Prelude
  imports Main "HOL-Library.AList"
begin

text \<open>
  Shared vocabulary of the development: the JavaScript primitives the sources rely on,
  written as executable HOL functions on \<open>string\<close> (a list of \<open>char\<close>).
  \<^item> \<open>js_record\<close>: a plain object \<open>Record<string, string>\<close> as an association list;
    the spread update \<open>{...o, [k]: v}\<close> is \<open>AList.update\<close>, which keeps the position of
    an existing key and appends a new one, as JavaScript key order does.
  \<^item> \<open>nat_to_string\<close>: \<open>Number.prototype.toString()\<close> on the non-negative integers that
    \<open>Date.now()\<close> returns, with its inverse \<open>string_to_nat\<close>.
  \<^item> \<open>js_truthy\<close>, \<open>js_or\<close>: the truthiness of an optional string and the \<open>||\<close> default.
  \<^item> \<open>js_substring\<close>, \<open>js_trim\<close>, \<open>js_indexOf\<close>, \<open>js_lastIndexOf\<close>: the string methods.
  The collection \<open>js_simps\<close> gathers the rules that evaluate these helpers.
\<close>

named_theorems js_simps "evaluation rules of the JavaScript helpers"
named_theorems reducer_simps "equations of the reducer used by component proofs"

type_synonym js_record = "(string \<times> string) list"

abbreviation js_record_get :: "js_record \<Rightarrow> string \<Rightarrow> string option" where
  "js_record_get r k \<equiv> map_of r k"

abbreviation js_record_set :: "js_record \<Rightarrow> string \<Rightarrow> string \<Rightarrow> js_record" where
  "js_record_set r k v \<equiv> AList.update k v r"

definition nl :: string where
  "nl = [CHR 0x0A]"

subsection \<open>Decimal rendering of timestamps\<close>

definition digit_char :: "nat \<Rightarrow> char" where
  "digit_char d = char_of (48 + d)"

definition digit_value :: "char \<Rightarrow> nat" where
  "digit_value c = of_char c - 48"

function nat_to_string :: "nat \<Rightarrow> string" where
  "nat_to_string n =
     (if n < 10 then [digit_char n] else nat_to_string (n div 10) @ [digit_char (n mod 10)])"
  by pat_completeness auto
termination
  by (relation "measure id") auto

declare nat_to_string.simps [simp del]

definition string_to_nat :: "string \<Rightarrow> nat" where
  "string_to_nat s = foldl (\<lambda>acc c. 10 * acc + digit_value c) 0 s"

subsection \<open>Truthiness and defaults\<close>

text \<open>\<open>!!x\<close> for \<open>x : string | null\<close>: \<open>null\<close> and the empty string are falsy.\<close>

definition js_truthy :: "string option \<Rightarrow> bool" where
  "js_truthy x = (case x of None \<Rightarrow> False | Some s \<Rightarrow> s \<noteq> [])"

text \<open>\<open>x || d\<close> for an optional string.\<close>

definition js_or :: "string option \<Rightarrow> string \<Rightarrow> string" where
  "js_or x d = (case x of Some s \<Rightarrow> (if s \<noteq> [] then s else d) | None \<Rightarrow> d)"

subsection \<open>String methods\<close>

text \<open>\<open>s.substring(a, b)\<close>: both ends clamped to the length, swapped when \<open>a > b\<close>.\<close>

definition js_substring :: "string \<Rightarrow> nat \<Rightarrow> nat \<Rightarrow> string" where
  "js_substring s a b =
     (let a' = min a (length s); b' = min b (length s)
      in take (max a' b' - min a' b') (drop (min a' b') s))"

text \<open>The white space that \<open>String.prototype.trim\<close> removes, on the ASCII range.\<close>

definition is_js_space :: "char \<Rightarrow> bool" where
  "is_js_space c = (c = CHR 0x20 \<or> c = CHR 0x09 \<or> c = CHR 0x0A \<or> c = CHR 0x0B \<or>
                    c = CHR 0x0C \<or> c = CHR 0x0D)"

definition js_trim :: "string \<Rightarrow> string" where
  "js_trim s = rev (dropWhile is_js_space (rev (dropWhile is_js_space s)))"

text \<open>First position at which \<open>pat\<close> occurs in a string.\<close>

fun str_index :: "string \<Rightarrow> string \<Rightarrow> nat option" where
  "str_index pat [] = (if pat = [] then Some 0 else None)"
| "str_index pat (c # cs) =
     (if take (length pat) (c # cs) = pat then Some 0 else map_option Suc (str_index pat cs))"

text \<open>\<open>xs.findIndex(p)\<close>, with \<open>None\<close> for \<open>-1\<close>.\<close>

fun findIndex :: "('a \<Rightarrow> bool) \<Rightarrow> 'a list \<Rightarrow> nat option" where
  "findIndex P [] = None"
| "findIndex P (x # xs) = (if P x then Some 0 else map_option Suc (findIndex P xs))"

text \<open>\<open>s.indexOf(pat)\<close> and \<open>s.lastIndexOf(c)\<close>: \<open>-1\<close> when absent.\<close>

definition js_indexOf :: "string \<Rightarrow> string \<Rightarrow> int" where
  "js_indexOf s pat = (case str_index pat s of None \<Rightarrow> -1 | Some i \<Rightarrow> int i)"

definition js_lastIndexOf :: "string \<Rightarrow> char \<Rightarrow> int" where
  "js_lastIndexOf s c =
     (case str_index [c] (rev s) of None \<Rightarrow> -1 | Some i \<Rightarrow> int (length s - Suc i))"

subsection \<open>Lemmas\<close>

lemma digit_value_char [js_simps]: "d < 10 \<Longrightarrow> digit_value (digit_char d) = d"
  by (simp add: digit_value_def digit_char_def)

lemma string_to_nat_nat_to_string [js_simps]: "string_to_nat (nat_to_string n) = n"
proof (induction n rule: nat_to_string.induct)
  case (1 n)
  show ?case
  proof (cases "n < 10")
    case True
    then show ?thesis
      by (simp add: nat_to_string.simps [of n] string_to_nat_def digit_value_char)
  next
    case False
    with "1.IH" have "string_to_nat (nat_to_string (n div 10)) = n div 10" by simp
    with False show ?thesis
      by (simp add: nat_to_string.simps [of n] string_to_nat_def digit_value_char)
  qed
qed

lemma nat_to_string_inj: "inj nat_to_string"
  by (rule inj_on_inverseI [where g = string_to_nat]) (rule string_to_nat_nat_to_string)

lemma nat_to_string_eq_iff [js_simps]: "nat_to_string m = nat_to_string n \<longleftrightarrow> m = n"
  using nat_to_string_inj by (auto dest: injD)

lemma nat_to_string_nonempty [js_simps]: "nat_to_string n \<noteq> []"
  by (simp add: nat_to_string.simps [of n])

lemma js_substring_0 [js_simps]: "js_substring s 0 n = take n s"
  by (cases "n \<le> length s") (simp_all add: js_substring_def min_def)

lemma js_truthy_iff [js_simps]: "js_truthy x \<longleftrightarrow> (\<exists>s. x = Some s \<and> s \<noteq> [])"
  by (auto simp: js_truthy_def split: option.splits)

lemma find_Some_in_set: "List.find P xs = Some x \<Longrightarrow> x \<in> set xs \<and> P x"
  by (induction xs) (auto split: if_splits)

lemma findIndex_Some:
  "findIndex P xs = Some i \<Longrightarrow> i < length xs \<and> P (xs ! i) \<and> (\<forall>j<i. \<not> P (xs ! j))"
proof (induction xs arbitrary: i)
  case (Cons x xs)
  then show ?case by (auto simp: nth_Cons' split: if_splits)
qed simp

lemma findIndex_Some_mem: "findIndex P xs = Some i \<Longrightarrow> \<exists>x\<in>set xs. P x"
  by (induction xs arbitrary: i) (auto split: if_splits)

lemma findIndex_None: "findIndex P xs = None \<longleftrightarrow> (\<forall>x\<in>set xs. \<not> P x)"
  by (induction xs) auto

lemma str_index_single: "str_index [c] s = findIndex (\<lambda>x. x = c) s"
  by (induction s) (auto simp: take_Cons')

lemma rev_trim_split:
  "rev (dropWhile P (rev xs)) @ rev (takeWhile P (rev xs)) = xs"
  by (metis rev_append rev_rev_ident takeWhile_dropWhile_id)

lemma rev_trim_hd:
  "rev (dropWhile P (rev xs)) \<noteq> [] \<Longrightarrow> hd (rev (dropWhile P (rev xs))) = hd xs"
  by (metis hd_append2 rev_trim_split)

lemma rev_trim_set: "set (rev (dropWhile P (rev xs))) \<subseteq> set xs"
  by (metis Un_upper1 rev_trim_split set_append)

lemma rev_trim_nonempty:
  "xs \<noteq> [] \<Longrightarrow> \<not> P (hd xs) \<Longrightarrow> rev (dropWhile P (rev xs)) \<noteq> []"
  by (metis append_Nil hd_rev rev_trim_split dropWhile_eq_Nil_conv hd_in_set set_rev
      rev_is_Nil_conv set_takeWhileD)

lemma js_trim_eq:
  "js_trim s = rev (dropWhile is_js_space (rev (drop (length (takeWhile is_js_space s)) s)))"
  by (simp add: js_trim_def dropWhile_eq_drop)

lemma js_trim_nonempty: "s \<noteq> [] \<Longrightarrow> \<not> is_js_space (hd s) \<Longrightarrow> js_trim s \<noteq> []"
  by (cases s) (simp_all add: js_trim_def rev_trim_nonempty)

lemma js_trim_hd:
  assumes "js_trim s \<noteq> []"
  shows "length (takeWhile is_js_space s) < length s \<and>
         hd (js_trim s) = s ! length (takeWhile is_js_space s) \<and>
         set (js_trim s) \<subseteq> set (drop (length (takeWhile is_js_space s)) s)"
proof -
  let ?k = "length (takeWhile is_js_space s)"
  have d: "dropWhile is_js_space s = drop ?k s" by (simp add: dropWhile_eq_drop)
  from assms have ne: "drop ?k s \<noteq> []" by (auto simp: js_trim_def d)
  then have k: "?k < length s" by simp
  moreover from assms have "hd (js_trim s) = hd (drop ?k s)"
    by (simp add: js_trim_def d rev_trim_hd)
  moreover have "hd (drop ?k s) = s ! ?k" using k by (simp add: hd_drop_conv_nth)
  moreover have "set (js_trim s) \<subseteq> set (drop ?k s)"
    using rev_trim_set [of is_js_space "drop ?k s"] by (simp only: js_trim_def d)
  ultimately show ?thesis by simp
qed

lemma takeWhile_prefix_nth:
  "j < length (takeWhile P s) \<Longrightarrow> P (s ! j)"
  by (metis nth_mem set_takeWhileD takeWhile_nth)


lemma findIndex_SomeI:
  "k < length xs \<Longrightarrow> P (xs ! k) \<Longrightarrow> (\<forall>j<k. \<not> P (xs ! j)) \<Longrightarrow> findIndex P xs = Some k"
proof (induction xs arbitrary: k)
  case (Cons x xs)
  show ?case
  proof (cases k)
    case 0
    with Cons.prems show ?thesis by simp
  next
    case (Suc k')
    with Cons.prems have "\<not> P x" by (metis nth_Cons_0 zero_less_Suc)
    moreover from Cons.prems Suc have "findIndex P xs = Some k'"
      by (intro Cons.IH) auto
    ultimately show ?thesis using Suc by simp
  qed
qed simp

lemma dropWhile_hd: "dropWhile P xs \<noteq> [] \<Longrightarrow> \<not> P (hd (dropWhile P xs))"
  by (induction xs) auto

lemma dropWhile_id: "xs = [] \<or> \<not> P (hd xs) \<Longrightarrow> dropWhile P xs = xs"
  by (cases xs) auto

lemma js_trim_idem [js_simps]: "js_trim (js_trim s) = js_trim s"
proof (cases "js_trim s = []")
  case True
  then show ?thesis by (simp only: True) (simp add: js_trim_def)
next
  case False
  define u where "u = dropWhile is_js_space s"
  define v where "v = rev (dropWhile is_js_space (rev u))"
  have tv: "js_trim s = v" by (simp add: js_trim_def u_def v_def)
  with False have vne: "v \<noteq> []" by simp
  then have une: "u \<noteq> []" by (auto simp: v_def)
  have "hd v = hd u" using vne by (simp add: v_def rev_trim_hd)
  with une have "\<not> is_js_space (hd v)" by (simp add: u_def dropWhile_hd)
  then have d1: "dropWhile is_js_space v = v" by (simp add: dropWhile_id)
  have "rev v = dropWhile is_js_space (rev u)" by (simp add: v_def)
  with vne have "\<not> is_js_space (hd (rev v))" by (metis dropWhile_hd rev_is_Nil_conv)
  then have "dropWhile is_js_space (rev v) = rev v" by (simp add: dropWhile_id)
  with d1 tv show ?thesis by (simp add: js_trim_def)
qed

lemma js_trim_id:
  "s \<noteq> [] \<Longrightarrow> \<not> is_js_space (hd s) \<Longrightarrow> \<not> is_js_space (last s) \<Longrightarrow> js_trim s = s"
  by (simp add: js_trim_def dropWhile_id hd_rev)


lemma str_index_first:
  "pat \<noteq> [] \<Longrightarrow> hd pat \<notin> set xs \<Longrightarrow> str_index pat (xs @ pat @ ys) = Some (length xs)"
proof (induction xs)
  case Nil
  then show ?case by (cases pat) simp_all
next
  case (Cons x xs)
  then have "take (length pat) (x # xs @ pat @ ys) \<noteq> pat" by (cases pat) auto
  with Cons show ?case by simp
qed

lemma str_index_None_iff:
  "pat \<noteq> [] \<Longrightarrow> str_index pat s = None \<longleftrightarrow> (\<forall>i. take (length pat) (drop i s) \<noteq> pat)"
proof (induction s)
  case (Cons c cs)
  have "(\<forall>i. take (length pat) (drop i (c # cs)) \<noteq> pat) \<longleftrightarrow>
        take (length pat) (c # cs) \<noteq> pat \<and> (\<forall>i. take (length pat) (drop i cs) \<noteq> pat)"
    by (metis drop0 drop_Suc_Cons not0_implies_Suc)
  with Cons show ?case by simp
qed simp

lemma str_index_split_None:
  assumes "pat \<noteq> []" "c \<notin> set pat" "str_index pat xs = None" "str_index pat ys = None"
  shows "str_index pat (xs @ c # ys) = None"
proof -
  have "take (length pat) (drop i (xs @ c # ys)) \<noteq> pat" for i
  proof
    assume eq: "take (length pat) (drop i (xs @ c # ys)) = pat"
    consider (left) "i + length pat \<le> length xs" | (right) "length xs < i"
      | (mid) "i \<le> length xs" "length xs < i + length pat" by linarith
    then show False
    proof cases
      case left
      then have "take (length pat) (drop i xs) = pat" using eq by simp
      with assms(1,3) show False by (simp add: str_index_None_iff)
    next
      case right
      then obtain k where "i - length xs = Suc k" by (metis Suc_diff_Suc)
      then have "take (length pat) (drop k ys) = pat" using eq right by simp
      with assms(1,4) show False by (simp add: str_index_None_iff)
    next
      case mid
      define k where "k = length xs - i"
      have k: "k < length pat" "i + k = length xs" using mid by (simp_all add: k_def)
      have "pat ! k = take (length pat) (drop i (xs @ c # ys)) ! k" using eq by simp
      also have "\<dots> = drop i (xs @ c # ys) ! k" using k(1) by (rule nth_take)
      also have "\<dots> = (xs @ c # ys) ! (i + k)" using mid by (intro nth_drop) simp
      also have "\<dots> = c" using k by simp
      finally show False using k assms(2) by (metis nth_mem)
    qed
  qed
  then show ?thesis using assms(1) by (simp add: str_index_None_iff)
qed

end
