(* ===== verification/Types.thy ===== *)
theory Types
  imports Prelude
begin

text \<open>
  The data model of \<^verbatim>\<open>src/types.ts\<close>. Every interface is a record, the string
  literal union of \<open>Toast.type\<close> is a datatype. JavaScript's \<open>null\<close> is \<open>None\<close>.
  Field names that clash between interfaces (\<open>id\<close>, \<open>history\<close>, \<dots>) carry a prefix
  naming their interface; all other names are the source's.
  A \<open>Chat\<close> handle of the model service is opaque: it is a number, the serial of the
  conversation the service created.
\<close>

record DesignOutput =
  htmlCode :: string

record HistoryItem =
  item_id :: string
  prompt :: string
  designOutput :: DesignOutput

datatype ToastType = Success | Error | Warning | Info

record Toast =
  toast_id :: string
  message :: string
  toast_type :: ToastType

record ExampleItem =
  ex_prompt :: string
  ex_htmlCode :: string

record Project =
  proj_id :: string
  title :: string
  proj_history :: "HistoryItem list"
  proj_activeDesign :: "DesignOutput option"
  proj_isComponentMode :: bool
  lastModified :: nat
  proj_convertedCodeCache :: js_record

type_synonym Chat = nat

text \<open>
  Well-formedness of a project: the active design is absent exactly when the history is
  empty, and otherwise it is the design of one of the history's items.
\<close>

definition design_in_history :: "DesignOutput option \<Rightarrow> HistoryItem list \<Rightarrow> bool" where
  "design_in_history d h =
     (case d of None \<Rightarrow> h = [] | Some x \<Rightarrow> x \<in> designOutput ` set h)"

definition wf_project :: "Project \<Rightarrow> bool" where
  "wf_project p = design_in_history (proj_activeDesign p) (proj_history p)"

lemma design_in_history_simps [simp]:
  "design_in_history None h \<longleftrightarrow> h = []"
  "design_in_history (Some x) h \<longleftrightarrow> x \<in> designOutput ` set h"
  by (simp_all add: design_in_history_def)

lemma design_in_history_append:
  "design_in_history d h \<Longrightarrow> d \<noteq> None \<Longrightarrow> design_in_history d (h @ h')"
  by (cases d) auto

end
