(* ===== verification/Reducer.thy ===== *)
theory Reducer
  imports Types
begin

text \<open>
  The session state machine of \<^verbatim>\<open>src/App.tsx\<close>: the state \<open>AppState\<close>, the action
  union \<open>AppAction\<close> (one constructor per \<open>type\<close> tag, its payload as arguments),
  \<open>initialState\<close> and \<open>appReducer\<close>, one equation per \<open>case\<close> of the switch.
  The reducer reads the clock (\<open>Date.now()\<close>) in two cases; the clock value is its first
  argument \<open>now\<close>. \<open>reduceAll\<close> runs the reducer over a list of timed actions, as React's
  \<open>useReducer\<close> does for a sequence of dispatches.
  The lemmas show the session invariant (the active design is one of the history's designs,
  and absent exactly for an empty history), the behaviour of generation, restore,
  project and example loading and of the conversion cache.
\<close>

record AppState =
  apiKey :: "string option"
  isSettingsOpen :: bool
  isLoading :: bool
  isSidebarOpen :: bool
  toasts :: "Toast list"
  chatSession :: "Chat option"
  history :: "HistoryItem list"
  activeDesign :: "DesignOutput option"
  chatTitle :: string
  isComponentMode :: bool
  currentProjectId :: "string option"
  isConvertingCode :: bool
  convertedCodeCache :: js_record

datatype AppAction =
    SET_API_KEY "string option"
  | SET_IS_SETTINGS_OPEN bool
  | SET_IS_SIDEBAR_OPEN bool
  | ADD_TOAST Toast
  | REMOVE_TOAST string
  | START_GENERATION
  | GENERATION_SUCCESS DesignOutput string
  | GENERATION_FAILURE
  | SET_CHAT_SESSION "Chat option"
  | RESTORE_VERSION string
  | NEW_PROJECT string
  | SET_CHAT_TITLE string
  | SET_IS_COMPONENT_MODE bool
  | LOAD_EXAMPLE ExampleItem string
  | START_CODE_CONVERSION
  | CODE_CONVERSION_SUCCESS string string
  | CODE_CONVERSION_FAILURE string string
  | LOAD_PROJECT Project
  | START_NEW_DESIGN_FROM_PROMPT string

definition defaultChatTitle :: string where
  "defaultChatTitle = ''New AI Design Session''"

definition initialState :: AppState where
  "initialState =
     \<lparr>apiKey = None, isSettingsOpen = False, isLoading = False, isSidebarOpen = False,
      toasts = [], chatSession = None, history = [], activeDesign = None,
      chatTitle = defaultChatTitle, isComponentMode = False, currentProjectId = None,
      isConvertingCode = False, convertedCodeCache = []\<rparr>"

text \<open>The history item a success commits; its id is the clock rendered in decimal.\<close>

definition newHistoryItem :: "nat \<Rightarrow> string \<Rightarrow> DesignOutput \<Rightarrow> HistoryItem" where
  "newHistoryItem now p d = \<lparr>item_id = nat_to_string now, prompt = p, designOutput = d\<rparr>"

text \<open>\<open>prompt.substring(0, 40) + (prompt.length > 40 ? '...' : '')\<close>\<close>

definition titleFromPrompt :: "string \<Rightarrow> string" where
  "titleFromPrompt p = js_substring p 0 40 @ (if length p > 40 then ''...'' else [])"

text \<open>The commented error block stored for a failed conversion.\<close>

definition conversionErrorComment :: "string \<Rightarrow> string \<Rightarrow> string" where
  "conversionErrorComment framework err =
     ''/*'' @ nl @ ''  Code conversion to '' @ framework @ '' failed.'' @ nl @
     ''  Error: '' @ err @ nl @ ''  Please try again.'' @ nl @ ''*/''"

fun appReducer :: "nat \<Rightarrow> AppState \<Rightarrow> AppAction \<Rightarrow> AppState" where
  "appReducer now s (LOAD_PROJECT p) =
     s\<lparr>history := proj_history p, activeDesign := proj_activeDesign p, chatTitle := title p,
       isComponentMode := proj_isComponentMode p,
       convertedCodeCache := proj_convertedCodeCache p, currentProjectId := Some (proj_id p),
       chatSession := None, isLoading := False, isSidebarOpen := False\<rparr>"
| "appReducer now s (SET_API_KEY k) = s\<lparr>apiKey := k\<rparr>"
| "appReducer now s (SET_IS_SETTINGS_OPEN b) = s\<lparr>isSettingsOpen := b\<rparr>"
| "appReducer now s (SET_IS_SIDEBAR_OPEN b) = s\<lparr>isSidebarOpen := b\<rparr>"
| "appReducer now s (ADD_TOAST t) = s\<lparr>toasts := toasts s @ [t]\<rparr>"
| "appReducer now s (REMOVE_TOAST i) = s\<lparr>toasts := filter (\<lambda>t. toast_id t \<noteq> i) (toasts s)\<rparr>"
| "appReducer now s START_GENERATION = s\<lparr>isLoading := True, isSidebarOpen := False\<rparr>"
| "appReducer now s (GENERATION_SUCCESS d p) =
     s\<lparr>isLoading := False, activeDesign := Some d,
       history := history s @ [newHistoryItem now p d],
       chatTitle := (if length (history s) = 0 then titleFromPrompt p else chatTitle s),
       convertedCodeCache := []\<rparr>"
| "appReducer now s GENERATION_FAILURE = s\<lparr>isLoading := False\<rparr>"
| "appReducer now s (SET_CHAT_SESSION c) = s\<lparr>chatSession := c\<rparr>"
| "appReducer now s (RESTORE_VERSION hid) =
     (case List.find (\<lambda>it. item_id it = hid) (history s) of
        Some it \<Rightarrow> s\<lparr>activeDesign := Some (designOutput it), convertedCodeCache := [],
                     isSidebarOpen := False\<rparr>
      | None \<Rightarrow> s)"
| "appReducer now s (NEW_PROJECT newId) =
     initialState\<lparr>apiKey := apiKey s, isSettingsOpen := isSettingsOpen s,
                  currentProjectId := Some newId\<rparr>"
| "appReducer now s (SET_CHAT_TITLE t) = s\<lparr>chatTitle := t\<rparr>"
| "appReducer now s (SET_IS_COMPONENT_MODE b) = s\<lparr>isComponentMode := b\<rparr>"
| "appReducer now s (LOAD_EXAMPLE ex newId) =
     (let d = \<lparr>htmlCode = ex_htmlCode ex\<rparr>
      in initialState\<lparr>apiKey := apiKey s, history := [newHistoryItem now (ex_prompt ex) d],
                      activeDesign := Some d,
                      chatTitle := js_substring (ex_prompt ex) 0 40 @ ''...'',
                      chatSession := None, currentProjectId := Some newId\<rparr>)"
| "appReducer now s START_CODE_CONVERSION = s\<lparr>isConvertingCode := True\<rparr>"
| "appReducer now s (CODE_CONVERSION_SUCCESS framework code) =
     s\<lparr>isConvertingCode := False,
       convertedCodeCache := js_record_set (convertedCodeCache s) framework code\<rparr>"
| "appReducer now s (CODE_CONVERSION_FAILURE framework err) =
     s\<lparr>isConvertingCode := False,
       convertedCodeCache := js_record_set (convertedCodeCache s) framework
                               (conversionErrorComment framework err)\<rparr>"
| "appReducer now s (START_NEW_DESIGN_FROM_PROMPT newId) =
     initialState\<lparr>apiKey := apiKey s, isSettingsOpen := isSettingsOpen s,
                  currentProjectId := Some newId, isLoading := True, isSidebarOpen := False\<rparr>"

declare appReducer.simps [reducer_simps]

text \<open>A sequence of dispatches, each with the clock value at which it is reduced.\<close>

fun reduceAll :: "AppState \<Rightarrow> (nat \<times> AppAction) list \<Rightarrow> AppState" where
  "reduceAll s [] = s"
| "reduceAll s ((now, a) # rest) = reduceAll (appReducer now s a) rest"

subsection \<open>The session invariant\<close>

definition wf_session :: "AppState \<Rightarrow> bool" where
  "wf_session s = design_in_history (activeDesign s) (history s)"

text \<open>The payload of an action is well formed: a loaded project satisfies \<open>wf_project\<close>.\<close>

fun action_wf :: "AppAction \<Rightarrow> bool" where
  "action_wf (LOAD_PROJECT p) = wf_project p"
| "action_wf _ = True"


text \<open>The actions a generation round dispatches (\<open>handleSendMessage\<close>).\<close>

fun is_generation_action :: "AppAction \<Rightarrow> bool" where
  "is_generation_action START_GENERATION = True"
| "is_generation_action (GENERATION_SUCCESS d p) = True"
| "is_generation_action GENERATION_FAILURE = True"
| "is_generation_action (SET_CHAT_SESSION c) = True"
| "is_generation_action _ = False"

text \<open>The history items and prompts a run of actions commits, in order.\<close>

fun committedItems :: "(nat \<times> AppAction) list \<Rightarrow> HistoryItem list" where
  "committedItems [] = []"
| "committedItems ((now, GENERATION_SUCCESS d p) # rest) = newHistoryItem now p d # committedItems rest"
| "committedItems (_ # rest) = committedItems rest"

fun successPrompts :: "(nat \<times> AppAction) list \<Rightarrow> string list" where
  "successPrompts [] = []"
| "successPrompts ((now, GENERATION_SUCCESS d p) # rest) = p # successPrompts rest"
| "successPrompts (_ # rest) = successPrompts rest"

subsection \<open>Lemmas on single steps and runs\<close>

lemma appReducer_preserves_wf:
  "wf_session s \<Longrightarrow> action_wf a \<Longrightarrow> wf_session (appReducer now s a)"
proof (cases a)
  case (RESTORE_VERSION hid)
  assume "wf_session s"
  then show ?thesis using RESTORE_VERSION
    by (auto simp: wf_session_def split: option.splits dest!: find_Some_in_set)
qed (auto simp: wf_session_def wf_project_def initialState_def newHistoryItem_def Let_def
                design_in_history_append)

lemma reduceAll_generation_history:
  "list_all (is_generation_action \<circ> snd) acts \<Longrightarrow>
   history (reduceAll s acts) = history s @ committedItems acts"
proof (induction acts arbitrary: s)
  case Nil
  then show ?case by simp
next
  case (Cons x acts)
  obtain now a where x: "x = (now, a)" by (cases x)
  with Cons show ?case by (cases a) auto
qed

lemma committedItems_prompts: "map prompt (committedItems acts) = successPrompts acts"
  by (induction acts rule: committedItems.induct) (auto simp: newHistoryItem_def)

lemma committedItems_ids:
  "distinct (map fst acts) \<Longrightarrow>
   distinct (map item_id (committedItems acts)) \<and>
   item_id ` set (committedItems acts) \<subseteq> nat_to_string ` fst ` set acts"
proof (induction acts rule: committedItems.induct)
  case (2 now d p rest)
  then have IH: "distinct (map item_id (committedItems rest))"
    and sub: "item_id ` set (committedItems rest) \<subseteq> nat_to_string ` fst ` set rest"
    and fresh: "now \<notin> fst ` set rest"
    by auto
  from fresh have "nat_to_string now \<notin> nat_to_string ` fst ` set rest"
    by (auto simp: nat_to_string_eq_iff image_iff)
  with sub have "nat_to_string now \<notin> item_id ` set (committedItems rest)"
    by blast
  with IH sub show ?case by (auto simp: newHistoryItem_def)
qed auto

lemma restore_not_found:
  "hid \<notin> item_id ` set (history s) \<Longrightarrow> List.find (\<lambda>it. item_id it = hid) (history s) = None"
  by (auto simp: find_None_iff)

subsection \<open>Properties of the session state machine\<close>

text \<open>
  C1. Every run of the reducer keeps the session invariant: from a state whose active
  design is one of its history's designs (and absent exactly when the history is empty),
  any sequence of actions whose loaded projects are well formed ends in such a state.
\<close>

theorem reduceAll_wf:
  "wf_session s \<Longrightarrow> list_all (action_wf \<circ> snd) acts \<Longrightarrow> wf_session (reduceAll s acts)"
  by (induction acts arbitrary: s) (auto simp: appReducer_preserves_wf)

theorem reduceAll_wf_witness:
  "wf_session initialState \<and>
   list_all (action_wf \<circ> snd)
     [(1::nat, GENERATION_SUCCESS \<lparr>htmlCode = ''<p>''\<rparr> ''a''), (2, RESTORE_VERSION ''1'')] \<and>
   wf_session (reduceAll initialState
     [(1, GENERATION_SUCCESS \<lparr>htmlCode = ''<p>''\<rparr> ''a''), (2, RESTORE_VERSION ''1'')])"
  using reduceAll_wf [of initialState
      "[(1, GENERATION_SUCCESS \<lparr>htmlCode = ''<p>''\<rparr> ''a''), (2, RESTORE_VERSION ''1'')]"]
  by (simp add: wf_session_def initialState_def)

text \<open>
  C2. A generation round appends exactly one history item per successful generation, in
  dispatch order, each keeping its prompt verbatim; starts, failures and chat-session
  changes add nothing.
\<close>

theorem generation_history_prompts:
  "list_all (is_generation_action \<circ> snd) acts \<Longrightarrow>
   map prompt (history (reduceAll s acts)) = map prompt (history s) @ successPrompts acts"
  by (simp add: reduceAll_generation_history committedItems_prompts)

theorem generation_history_prompts_witness:
  "list_all (is_generation_action \<circ> snd)
     [(1::nat, START_GENERATION), (2, GENERATION_SUCCESS \<lparr>htmlCode = ''<p>''\<rparr> ''a''),
      (3, START_GENERATION), (4, GENERATION_FAILURE)] \<and>
   map prompt (history (reduceAll initialState
     [(1, START_GENERATION), (2, GENERATION_SUCCESS \<lparr>htmlCode = ''<p>''\<rparr> ''a''),
      (3, START_GENERATION), (4, GENERATION_FAILURE)])) = [''a'']"
  using generation_history_prompts [of
      "[(1, START_GENERATION), (2, GENERATION_SUCCESS \<lparr>htmlCode = ''<p>''\<rparr> ''a''),
        (3, START_GENERATION), (4, GENERATION_FAILURE)]" initialState]
  by (simp add: initialState_def)

text \<open>
  C3. Every action other than loading a project that changes the active design leaves
  the conversion cache empty.
\<close>

theorem cache_cleared_on_design_change:
  "\<not> (\<exists>p. a = LOAD_PROJECT p) \<Longrightarrow> activeDesign (appReducer now s a) \<noteq> activeDesign s \<Longrightarrow>
   convertedCodeCache (appReducer now s a) = []"
  by (cases a) (auto simp: initialState_def Let_def split: option.splits)

theorem cache_cleared_on_design_change_witness:
  "\<not> (\<exists>p. GENERATION_SUCCESS \<lparr>htmlCode = ''<p>''\<rparr> ''a'' = LOAD_PROJECT p) \<and>
   activeDesign (appReducer 1 (initialState\<lparr>convertedCodeCache := [(''React'', ''x'')]\<rparr>)
       (GENERATION_SUCCESS \<lparr>htmlCode = ''<p>''\<rparr> ''a''))
     \<noteq> activeDesign (initialState\<lparr>convertedCodeCache := [(''React'', ''x'')]\<rparr>) \<and>
   convertedCodeCache (appReducer 1 (initialState\<lparr>convertedCodeCache := [(''React'', ''x'')]\<rparr>)
       (GENERATION_SUCCESS \<lparr>htmlCode = ''<p>''\<rparr> ''a'')) = []"
  using cache_cleared_on_design_change [of "GENERATION_SUCCESS \<lparr>htmlCode = ''<p>''\<rparr> ''a''" 1
      "initialState\<lparr>convertedCodeCache := [(''React'', ''x'')]\<rparr>"]
  by (simp add: initialState_def)

text \<open>
  C4. Restoring a version whose id is in the history makes the design of the first item
  with that id active, clears the conversion cache, closes the side panel and keeps the
  history.
\<close>

theorem restore_version_found:
  "List.find (\<lambda>it. item_id it = hid) (history s) = Some it \<Longrightarrow>
   activeDesign (appReducer now s (RESTORE_VERSION hid)) = Some (designOutput it) \<and>
   convertedCodeCache (appReducer now s (RESTORE_VERSION hid)) = [] \<and>
   \<not> isSidebarOpen (appReducer now s (RESTORE_VERSION hid)) \<and>
   history (appReducer now s (RESTORE_VERSION hid)) = history s"
  by simp

theorem restore_version_found_witness:
  "List.find (\<lambda>it. item_id it = ''1'')
     (history (initialState\<lparr>history := [\<lparr>item_id = ''1'', prompt = ''a'', designOutput = \<lparr>htmlCode = ''<p>''\<rparr>\<rparr>]\<rparr>))
     = Some \<lparr>item_id = ''1'', prompt = ''a'', designOutput = \<lparr>htmlCode = ''<p>''\<rparr>\<rparr> \<and>
   activeDesign (appReducer 5
       (initialState\<lparr>history := [\<lparr>item_id = ''1'', prompt = ''a'', designOutput = \<lparr>htmlCode = ''<p>''\<rparr>\<rparr>]\<rparr>)
       (RESTORE_VERSION ''1'')) = Some \<lparr>htmlCode = ''<p>''\<rparr>"
  using restore_version_found [of "''1''"
      "initialState\<lparr>history := [\<lparr>item_id = ''1'', prompt = ''a'', designOutput = \<lparr>htmlCode = ''<p>''\<rparr>\<rparr>]\<rparr>"
      "\<lparr>item_id = ''1'', prompt = ''a'', designOutput = \<lparr>htmlCode = ''<p>''\<rparr>\<rparr>" 5]
  by (simp add: initialState_def)

text \<open>
  Restoring an id that is not in the history leaves the whole state unchanged.
\<close>

theorem restore_version_absent:
  "hid \<notin> item_id ` set (history s) \<Longrightarrow> appReducer now s (RESTORE_VERSION hid) = s"
  by (simp add: restore_not_found)

theorem restore_version_absent_witness:
  "''9'' \<notin> item_id ` set (history (initialState\<lparr>history := [\<lparr>item_id = ''1'', prompt = ''a'', designOutput = \<lparr>htmlCode = ''<p>''\<rparr>\<rparr>]\<rparr>)) \<and>
   appReducer 5 (initialState\<lparr>history := [\<lparr>item_id = ''1'', prompt = ''a'', designOutput = \<lparr>htmlCode = ''<p>''\<rparr>\<rparr>]\<rparr>)
     (RESTORE_VERSION ''9'')
   = initialState\<lparr>history := [\<lparr>item_id = ''1'', prompt = ''a'', designOutput = \<lparr>htmlCode = ''<p>''\<rparr>\<rparr>]\<rparr>"
  using restore_version_absent [of "''9''"
      "initialState\<lparr>history := [\<lparr>item_id = ''1'', prompt = ''a'', designOutput = \<lparr>htmlCode = ''<p>''\<rparr>\<rparr>]\<rparr>" 5]
  by (simp add: initialState_def)

text \<open>
  C6. A new project keeps nothing of the previous session but the credential and the
  settings panel: two states that agree on those give the same state after \<open>NEW_PROJECT\<close>,
  and that state has an empty history, no design and no chat session.
\<close>

theorem new_project_forgets:
  "apiKey s = apiKey s' \<Longrightarrow> isSettingsOpen s = isSettingsOpen s' \<Longrightarrow>
   appReducer now s (NEW_PROJECT i) = appReducer now' s' (NEW_PROJECT i) \<and>
   history (appReducer now s (NEW_PROJECT i)) = [] \<and>
   activeDesign (appReducer now s (NEW_PROJECT i)) = None \<and>
   chatSession (appReducer now s (NEW_PROJECT i)) = None \<and>
   currentProjectId (appReducer now s (NEW_PROJECT i)) = Some i"
  by (simp add: initialState_def)

theorem new_project_forgets_witness:
  "apiKey initialState = apiKey (initialState\<lparr>chatSession := Some 3, chatTitle := ''x''\<rparr>) \<and>
   isSettingsOpen initialState = isSettingsOpen (initialState\<lparr>chatSession := Some 3, chatTitle := ''x''\<rparr>) \<and>
   appReducer 1 initialState (NEW_PROJECT ''p'') =
   appReducer 2 (initialState\<lparr>chatSession := Some 3, chatTitle := ''x''\<rparr>) (NEW_PROJECT ''p'')"
  using new_project_forgets [of initialState "initialState\<lparr>chatSession := Some 3, chatTitle := ''x''\<rparr>" 1 "''p''" 2]
  by (simp add: initialState_def)

text \<open>
  C7. Loading an example is a new project followed by a successful generation of the
  example, except in two respects: the settings panel is closed, and the title is the
  prompt's first 40 characters followed by an ellipsis even when the prompt is shorter.
\<close>

theorem load_example_vs_new_project:
  "appReducer now s (LOAD_EXAMPLE ex i) =
   (appReducer now (appReducer now s (NEW_PROJECT i))
       (GENERATION_SUCCESS \<lparr>htmlCode = ex_htmlCode ex\<rparr> (ex_prompt ex)))
     \<lparr>isSettingsOpen := False, chatTitle := take 40 (ex_prompt ex) @ ''...''\<rparr>"
  by (simp add: initialState_def js_substring_0 Let_def)

text \<open>
  The title derived from a first prompt is the prompt itself when it has at most 40
  characters, and its first 40 characters followed by an ellipsis otherwise.
\<close>

theorem titleFromPrompt_eq:
  "titleFromPrompt p = (if length p \<le> 40 then p else take 40 p @ ''...'')"
  by (simp add: titleFromPrompt_def js_substring_0)

text \<open>
  C9. Within a project started empty, successful generations reduced at pairwise distinct
  clock values get pairwise distinct history ids.
\<close>

theorem history_ids_distinct:
  "history s = [] \<Longrightarrow> list_all (is_generation_action \<circ> snd) acts \<Longrightarrow> distinct (map fst acts) \<Longrightarrow>
   distinct (map item_id (history (reduceAll s acts)))"
  by (simp add: reduceAll_generation_history committedItems_ids)

theorem history_ids_distinct_witness:
  "history initialState = [] \<and>
   list_all (is_generation_action \<circ> snd)
     [(1::nat, GENERATION_SUCCESS \<lparr>htmlCode = ''<p>''\<rparr> ''a''), (2, GENERATION_SUCCESS \<lparr>htmlCode = ''<b>''\<rparr> ''b'')] \<and>
   distinct (map fst
     [(1::nat, GENERATION_SUCCESS \<lparr>htmlCode = ''<p>''\<rparr> ''a''), (2, GENERATION_SUCCESS \<lparr>htmlCode = ''<b>''\<rparr> ''b'')]) \<and>
   distinct (map item_id (history (reduceAll initialState
     [(1, GENERATION_SUCCESS \<lparr>htmlCode = ''<p>''\<rparr> ''a''), (2, GENERATION_SUCCESS \<lparr>htmlCode = ''<b>''\<rparr> ''b'')])))"
  using history_ids_distinct [of initialState
      "[(1, GENERATION_SUCCESS \<lparr>htmlCode = ''<p>''\<rparr> ''a''), (2, GENERATION_SUCCESS \<lparr>htmlCode = ''<b>''\<rparr> ''b'')]"]
  by (simp add: initialState_def)

text \<open>
  C10. Two successes reduced in the same millisecond get the same history id, and the
  restore action of the second item (the one the side panel dispatches with that item's
  id) restores the design of the first.
\<close>

theorem same_tick_ids_collide:
  "let s = reduceAll initialState [(t, GENERATION_SUCCESS d1 p1), (t, GENERATION_SUCCESS d2 p2)];
       h = history s
   in item_id (h ! 0) = item_id (h ! 1) \<and> designOutput (h ! 1) = d2 \<and>
      activeDesign (appReducer now s (RESTORE_VERSION (item_id (h ! 1)))) = Some d1"
  by (simp add: initialState_def newHistoryItem_def)

text \<open>
  C11. A failed conversion stores the commented error block under the framework's key and
  keeps every other cached conversion; a successful one stores the code the same way.
\<close>

theorem conversion_cache_entries:
  "js_record_get (convertedCodeCache (appReducer now s (CODE_CONVERSION_FAILURE f e))) k =
     (if k = f then Some (conversionErrorComment f e) else js_record_get (convertedCodeCache s) k) \<and>
   js_record_get (convertedCodeCache (appReducer now s (CODE_CONVERSION_SUCCESS f c))) k =
     (if k = f then Some c else js_record_get (convertedCodeCache s) k) \<and>
   \<not> isConvertingCode (appReducer now s (CODE_CONVERSION_FAILURE f e))"
  by (simp add: update_conv')

end
