(* ===== verification/Markup.thy ===== *)
theory Markup
  imports Prelude
begin

text \<open>
  The markup pipeline of \<^verbatim>\<open>src/services/geminiService.ts\<close>: \<open>isValidHtml\<close>,
  \<open>sanitizeHtml\<close> and the two fallback extractors of \<open>extractCode\<close>.
  A global \<open>String.prototype.replace(re, '')\<close> is \<open>js_replace_all m\<close>, where \<open>m s\<close> is
  the length of the match of \<open>re\<close> at the start of \<open>s\<close> (\<open>None\<close> when it does not match
  there): the string is scanned from the left, a match is dropped and scanning resumes
  after it, an unmatched character is kept. Each regular expression is a matcher written
  out from its syntax; where a greedy or lazy quantifier could backtrack, the text says why
  the first choice is the only one that can succeed. Case-insensitive matching (flag
  \<open>i\<close>) compares ASCII lower case; white space is the ASCII part of \<open>\s\<close>.
\<close>

definition js_lower :: "char \<Rightarrow> char" where
  "js_lower c = (let n = of_char c :: nat in if 65 \<le> n \<and> n \<le> 90 then char_of (n + 32) else c)"

text \<open>\<open>\w\<close>: \<open>[A-Za-z0-9_]\<close>.\<close>

definition is_word_char :: "char \<Rightarrow> bool" where
  "is_word_char c =
     (let n = of_char c :: nat in
        (48 \<le> n \<and> n \<le> 57) \<or> (65 \<le> n \<and> n \<le> 90) \<or> (97 \<le> n \<and> n \<le> 122) \<or> n = 95)"

definition is_quote :: "char \<Rightarrow> bool" where
  "is_quote c = (c = CHR 0x22 \<or> c = CHR 0x27)"

text \<open>\<open>s\<close> starts with the lower-case pattern \<open>pat\<close>, ignoring ASCII case.\<close>

definition ci_prefix :: "string \<Rightarrow> string \<Rightarrow> bool" where
  "ci_prefix pat s = (map js_lower (take (length pat) s) = pat)"

function js_replace_all :: "(string \<Rightarrow> nat option) \<Rightarrow> string \<Rightarrow> string" where
  "js_replace_all m [] = []"
| "js_replace_all m (c # cs) =
     (case m (c # cs) of
        Some n \<Rightarrow> (if n > 0 then js_replace_all m (drop n (c # cs)) else c # js_replace_all m cs)
      | None \<Rightarrow> c # js_replace_all m cs)"
  by pat_completeness auto
termination
  by (relation "measure (\<lambda>(m, s). length s)") auto

text \<open>
  \<open>/<script\b[^<]*(?:(?!<\/script>)<[^<]*)*<\/script>/gi\<close>: after \<open><script\<close> and a
  word boundary, the body may contain any character but cannot run across a
  \<open></script>\<close>, so the match ends at the first \<open></script>\<close> after the opening.
\<close>

definition match_script_block :: "string \<Rightarrow> nat option" where
  "match_script_block s =
     (if ci_prefix ''<script'' s \<and> (case drop 7 s of [] \<Rightarrow> True | c # _ \<Rightarrow> \<not> is_word_char c)
      then map_option (\<lambda>j. 7 + j + 9) (str_index ''</script>'' (map js_lower (drop 7 s)))
      else None)"

text \<open>
  \<open>/\s*on\w+\s*=\s*["'][^"']*["']/gi\<close>: every quantifier is followed by a token its
  class cannot match, so the greedy choice is the only one.
\<close>

definition match_event_handler :: "string \<Rightarrow> nat option" where
  "match_event_handler s =
     (let ws1 = length (takeWhile is_js_space s); r = drop ws1 s
      in if \<not> ci_prefix ''on'' r then None
         else
           (let w = length (takeWhile is_word_char (drop 2 r)); r2 = drop (2 + w) r;
                ws2 = length (takeWhile is_js_space r2); r3 = drop ws2 r2
            in if w = 0 \<or> take 1 r3 \<noteq> ''='' then None
               else
                 (let r4 = drop 1 r3; ws3 = length (takeWhile is_js_space r4); r5 = drop ws3 r4
                  in if \<not> (r5 \<noteq> [] \<and> is_quote (hd r5)) then None
                     else
                       (let b = length (takeWhile (\<lambda>c. \<not> is_quote c) (drop 1 r5))
                        in if drop (1 + b) r5 = [] then None
                           else Some (ws1 + 2 + w + ws2 + 1 + ws3 + 1 + b + 1)))))"

text \<open>\<open>/javascript:\s*[^"'\s]*/gi\<close>.\<close>

definition match_js_url :: "string \<Rightarrow> nat option" where
  "match_js_url s =
     (if ci_prefix ''javascript:'' s
      then (let r = drop 11 s; ws = length (takeWhile is_js_space r);
                b = length (takeWhile (\<lambda>c. \<not> is_quote c \<and> \<not> is_js_space c) (drop ws r))
            in Some (11 + ws + b))
      else None)"

definition sanitizeHtml :: "string \<Rightarrow> string" where
  "sanitizeHtml h =
     js_replace_all match_js_url
       (js_replace_all match_event_handler (js_replace_all match_script_block h))"

text \<open>\<open>isValidHtml\<close>: non-empty, and after trimming it starts with \<open><\<close> and contains \<open>>\<close>.\<close>

definition isValidHtml :: "string \<Rightarrow> bool" where
  "isValidHtml h =
     (h \<noteq> [] \<and> (let t = js_trim h in take 1 t = ''<'' \<and> CHR ''>'' \<in> set t))"

text \<open>
  The group of \<open>/```(?:html)?\s*([\s\S]*?)\s*```/\<close> at its first match: after the first
  \<open>```\<close>, an optional \<open>html\<close> and white space, the lazy group ends where only white
  space separates it from the next \<open>```\<close>. Without a second \<open>```\<close> there is no match
  at any later start either.
\<close>

definition code_block_content :: "string \<Rightarrow> string option" where
  "code_block_content raw =
     (case str_index ''```'' raw of
        None \<Rightarrow> None
      | Some p \<Rightarrow>
          (let r0 = drop (p + 3) raw;
               r1 = (if take 4 r0 = ''html'' then drop 4 r0 else r0);
               r2 = dropWhile is_js_space r1
           in map_option (\<lambda>q. rev (dropWhile is_js_space (rev (take q r2)))) (str_index ''```'' r2)))"

text \<open>The last resort: from the first \<open><\<close> to the last \<open>>\<close>.\<close>

definition lastResortSpan :: "string \<Rightarrow> string option" where
  "lastResortSpan raw =
     (let f = js_indexOf raw ''<''; l = js_lastIndexOf raw (CHR ''>'')
      in if f \<noteq> -1 \<and> l \<noteq> -1 \<and> l > f then Some (js_substring raw (nat f) (nat l + 1)) else None)"

subsection \<open>Lemmas\<close>

lemma ci_prefix_blocked:
  assumes "ci_prefix pat (x @ rest)" "length x < length pat"
    and "rest = [] \<or> js_lower (hd rest) \<notin> set pat"
  shows False
proof (cases rest)
  case Nil
  with assms(1,2) show False by (auto simp: ci_prefix_def dest: arg_cong [where f = length])
next
  case (Cons y ys)
  from assms(1) have "map js_lower (take (length pat) (x @ y # ys)) ! length x = pat ! length x"
    using Cons by (simp add: ci_prefix_def)
  with assms(2) have "js_lower y = pat ! length x"
    by (simp add: nth_append)
  with assms(2,3) Cons show False by auto
qed

lemma ci_prefix_cong:
  "take (length pat) s = take (length pat) s' \<Longrightarrow> ci_prefix pat s = ci_prefix pat s'"
  by (simp add: ci_prefix_def)

lemma length_js_pat: "length ''javascript:'' = 11"
  by simp

lemma js_lower_quote_space:
  "is_quote c \<or> is_js_space c \<Longrightarrow> js_lower c = c"
  by (auto simp: is_quote_def is_js_space_def js_lower_def)

lemma quote_space_not_in_js_pat:
  "is_quote c \<or> is_js_space c \<Longrightarrow> c \<notin> set ''javascript:''"
  by (auto simp: is_quote_def is_js_space_def)

lemma match_js_url_head:
  "is_quote c \<or> is_js_space c \<Longrightarrow> match_js_url (c # cs) = None"
  by (auto simp: match_js_url_def ci_prefix_def js_lower_quote_space is_quote_def is_js_space_def)

lemma match_js_url_stop:
  assumes "match_js_url s = Some n"
  shows "n > 0 \<and> (drop n s = [] \<or> is_quote (hd (drop n s)) \<or> is_js_space (hd (drop n s)))"
proof -
  from assms have pre: "ci_prefix ''javascript:'' s" by (simp add: match_js_url_def split: if_splits)
  define r where "r = drop 11 s"
  define ws where "ws = length (takeWhile is_js_space r)"
  define b where "b = length (takeWhile (\<lambda>c. \<not> is_quote c \<and> \<not> is_js_space c) (drop ws r))"
  have n: "n = 11 + ws + b" using assms pre by (simp add: match_js_url_def r_def ws_def b_def Let_def)
  have "drop n s = drop b (drop ws r)" by (simp add: n r_def add.commute)
  moreover have "drop b (drop ws r) = dropWhile (\<lambda>c. \<not> is_quote c \<and> \<not> is_js_space c) (drop ws r)"
    by (simp add: b_def dropWhile_eq_drop)
  moreover have "dropWhile P xs = [] \<or> \<not> P (hd (dropWhile P xs))" for P and xs :: string
    by (induction xs) auto
  ultimately show ?thesis using n by (auto simp del: dropWhile_eq_Nil_conv)
qed

lemma js_url_scan_shape:
  "\<exists>j rest. js_replace_all match_js_url t = take j t @ rest \<and>
            (rest = [] \<or> is_quote (hd rest) \<or> is_js_space (hd rest))"
proof (induction match_js_url t rule: js_replace_all.induct)
  case 1
  then show ?case by (intro exI [of _ 0] exI [of _ "[]"]) simp
next
  case (2 c cs)
  show ?case
  proof (cases "match_js_url (c # cs)")
    case None
    with "2.hyps"(1) obtain j rest where
      "js_replace_all match_js_url cs = take j cs @ rest" and r: "rest = [] \<or> is_quote (hd rest) \<or> is_js_space (hd rest)"
      by blast
    with None show ?thesis by (intro exI [of _ "Suc j"] exI [of _ rest]) simp
  next
    case (Some n)
    with match_js_url_stop have n: "n > 0" and stop:
      "drop n (c # cs) = [] \<or> is_quote (hd (drop n (c # cs))) \<or> is_js_space (hd (drop n (c # cs)))"
      by blast+
    have "js_replace_all match_js_url (c # cs) = js_replace_all match_js_url (drop n (c # cs))"
      using Some n by simp
    moreover have "js_replace_all match_js_url (drop n (c # cs)) = [] \<or>
                   is_quote (hd (js_replace_all match_js_url (drop n (c # cs)))) \<or>
                   is_js_space (hd (js_replace_all match_js_url (drop n (c # cs))))"
      using stop by (cases "drop n (c # cs)") (auto simp: match_js_url_head)
    ultimately show ?thesis by (intro exI [of _ 0]) auto
  qed
qed

lemma js_url_removed:
  "\<not> ci_prefix ''javascript:'' (drop i (js_replace_all match_js_url s))"
proof (induction match_js_url s arbitrary: i rule: js_replace_all.induct)
  case 1
  then show ?case by (simp add: ci_prefix_def)
next
  case (2 c cs)
  show ?case
  proof (cases "match_js_url (c # cs)")
    case (Some n)
    show ?thesis
    proof (cases "n > 0")
      case True
      with Some "2.hyps"(2) show ?thesis by simp
    next
      case False
      with Some match_js_url_stop show ?thesis by blast
    qed
  next
    case None
    show ?thesis
    proof (cases i)
      case (Suc k)
      with None "2.hyps"(1) show ?thesis by simp
    next
      case 0
      obtain j rest where sh: "js_replace_all match_js_url cs = take j cs @ rest"
        and r: "rest = [] \<or> is_quote (hd rest) \<or> is_js_space (hd rest)"
        using js_url_scan_shape by blast
      show ?thesis
      proof
        assume "ci_prefix ''javascript:'' (drop i (js_replace_all match_js_url (c # cs)))"
        with None 0 sh have pre: "ci_prefix ''javascript:'' ((c # take j cs) @ rest)" by simp
        show False
        proof (cases "length (c # take j cs) < 11")
          case True
          from r have blk: "rest = [] \<or> js_lower (hd rest) \<notin> set ''javascript:''"
            using js_lower_quote_space quote_space_not_in_js_pat by metis
          show False
            by (rule ci_prefix_blocked [OF pre _ blk]) (use True in simp)
        next
          case False
          then have "take 11 ((c # take j cs) @ rest) = take 11 (c # cs)"
            by (auto simp: take_Cons' min_def take_take split: if_splits)
          then have "ci_prefix ''javascript:'' ((c # take j cs) @ rest) = ci_prefix ''javascript:'' (c # cs)"
            by (metis ci_prefix_cong length_js_pat)
          with pre have "ci_prefix ''javascript:'' (c # cs)" by simp
          with None show False by (simp add: match_js_url_def Let_def split: if_splits)
        qed
      qed
    qed
  qed
qed

subsection \<open>Scans that leave text alone\<close>

lemma js_replace_all_prefix:
  "(\<forall>i<length x. m (drop i (x @ y)) = None) \<Longrightarrow> js_replace_all m (x @ y) = x @ js_replace_all m y"
proof (induction x)
  case (Cons c cs)
  from Cons.prems have "m (c # cs @ y) = None" by (metis append_Cons drop0 length_Cons zero_less_Suc)
  moreover from Cons.prems have "\<forall>i<length cs. m (drop i (cs @ y)) = None" by fastforce
  ultimately show ?case using Cons.IH by simp
qed simp

lemma js_replace_all_skip:
  "m s = Some n \<Longrightarrow> 0 < n \<Longrightarrow> js_replace_all m s = js_replace_all m (drop n s)"
  by (cases s) simp_all

lemma js_lower_cases:
  assumes "js_lower c = d"
  shows "c = d \<or> (65 \<le> (of_char c :: nat) \<and> (of_char c :: nat) \<le> 90 \<and> (of_char c :: nat) + 32 = of_char d)"
proof (cases "65 \<le> (of_char c :: nat) \<and> (of_char c :: nat) \<le> 90")
  case True
  then have "d = char_of (of_char c + 32 :: nat)" using assms by (simp add: js_lower_def Let_def)
  then have "(of_char d :: nat) = (of_char c + 32) mod 256" by (simp only: of_char_of)
  with True show ?thesis by simp
qed (use assms in \<open>auto simp: js_lower_def Let_def\<close>)

lemma js_lower_lt: "js_lower c = CHR ''<'' \<longleftrightarrow> c = CHR ''<''"
  using js_lower_cases [of c "CHR ''<''"] by (auto simp: js_lower_def)

lemma js_lower_colon: "js_lower c = CHR '':'' \<longleftrightarrow> c = CHR '':''"
  using js_lower_cases [of c "CHR '':''"] by (auto simp: js_lower_def)

lemma match_script_block_head:
  "c \<noteq> CHR ''<'' \<Longrightarrow> match_script_block (c # s) = None"
  by (simp add: match_script_block_def ci_prefix_def js_lower_lt)

lemma match_event_handler_head:
  "\<not> is_js_space c \<Longrightarrow> c \<noteq> CHR ''o'' \<Longrightarrow> (of_char c :: nat) \<noteq> 79 \<Longrightarrow> match_event_handler (c # s) = None"
  using js_lower_cases [of c "CHR ''o''"]
  by (auto simp: match_event_handler_def ci_prefix_def Let_def)

lemma match_js_url_head_j:
  "c \<noteq> CHR ''j'' \<Longrightarrow> (of_char c :: nat) \<noteq> 74 \<Longrightarrow> match_js_url (c # s) = None"
  using js_lower_cases [of c "CHR ''j''"]
  by (auto simp: match_js_url_def ci_prefix_def Let_def)

lemma match_script_block_second:
  "d \<noteq> CHR ''s'' \<Longrightarrow> (of_char d :: nat) \<noteq> 83 \<Longrightarrow> match_script_block (c # d # s) = None"
  using js_lower_cases [of d "CHR ''s''"]
  by (auto simp: match_script_block_def ci_prefix_def)

lemma script_scan_no_lt:
  "\<forall>c\<in>set x. c \<noteq> CHR ''<'' \<Longrightarrow>
   js_replace_all match_script_block (x @ y) = x @ js_replace_all match_script_block y"
  by (rule js_replace_all_prefix) (auto simp: Cons_nth_drop_Suc [symmetric] match_script_block_head)

lemma match_event_handler_no_quote:
  assumes "\<forall>c\<in>set s. \<not> is_quote c"
  shows "match_event_handler s = None"
proof -
  have "drop k s \<noteq> [] \<Longrightarrow> \<not> is_quote (hd (drop k s))" for k
    using assms by (metis hd_in_set in_set_dropD)
  then show ?thesis by (simp add: match_event_handler_def Let_def)
qed

lemma match_js_url_no_colon:
  assumes "CHR '':'' \<notin> set s"
  shows "match_js_url s = None"
proof (rule ccontr)
  assume "match_js_url s \<noteq> None"
  then have "ci_prefix ''javascript:'' s" by (simp add: match_js_url_def split: if_splits)
  then have pre: "map js_lower (take 11 s) = ''javascript:''" unfolding ci_prefix_def length_js_pat .
  then have "length (take 11 s) = 11" by (metis length_js_pat length_map)
  then have l: "10 < length s" by simp
  from pre have "map js_lower (take 11 s) ! 10 = CHR '':''" by simp
  with l have "js_lower (s ! 10) = CHR '':''" by simp
  with l assms show False by (metis nth_mem js_lower_colon)
qed

lemma js_replace_all_id:
  "(\<forall>i<length s. m (drop i s) = None) \<Longrightarrow> js_replace_all m s = s"
  using js_replace_all_prefix [of s m "[]"] by simp

lemma event_handler_scan_no_quote:
  "\<forall>c\<in>set s. \<not> is_quote c \<Longrightarrow> js_replace_all match_event_handler s = s"
  by (rule js_replace_all_id) (auto intro: match_event_handler_no_quote dest: in_set_dropD)

lemma js_url_scan_no_colon:
  "CHR '':'' \<notin> set s \<Longrightarrow> js_replace_all match_js_url s = s"
  by (rule js_replace_all_id) (auto intro: match_js_url_no_colon dest: in_set_dropD)

lemma script_block_match:
  assumes "CHR ''<'' \<notin> set b"
  shows "match_script_block (''<script>'' @ b @ ''</script>'' @ r) = Some (length b + 17)"
proof -
  have "\<forall>x\<in>set b. js_lower x \<noteq> CHR ''<''" using assms js_lower_lt by metis
  then have "CHR ''<'' \<notin> set (CHR ''>'' # map js_lower b)" by auto
  then have "str_index ''</script>'' ((CHR ''>'' # map js_lower b) @ ''</script>'' @ map js_lower r) =
             Some (Suc (length b))"
    using str_index_first [of "''</script>''"] by simp
  then show ?thesis
    by (simp add: match_script_block_def ci_prefix_def is_word_char_def js_lower_def)
qed

lemma script_scan_end: "js_replace_all match_script_block ''</script>'' = ''</script>''"
  by (simp add: match_script_block_def ci_prefix_def js_lower_def)

text \<open>
  C19. After \<open>sanitizeHtml\<close>, no position of the result starts a \<open>javascript:\<close> URL
  (in any letter case): the last pass removes every occurrence, including those its own
  removals bring together.
\<close>

theorem sanitize_removes_js_urls:
  "\<not> ci_prefix ''javascript:'' (drop i (sanitizeHtml h))"
  unfolding sanitizeHtml_def by (rule js_url_removed)

lemma sanitize_removes_js_urls_witness:
  "\<not> ci_prefix ''javascript:'' (drop 9 (sanitizeHtml ''<a href=JavaScript:alert(1)>x</a>''))"
  by (rule sanitize_removes_js_urls)

text \<open>
  C20. The script pass is a single left-to-right scan, so removing a match can join the
  text around it into a new match that is not removed: for every inner body \<open>b\<close> and
  payload \<open>p\<close> without \<open><\<close> (and, so that the later passes leave it alone, without
  quotes or colons in \<open>p\<close>), a \<open><script>\<close> block nested inside the letters of another
  \<open><script>\<close> tag comes out of \<open>sanitizeHtml\<close> as the live element
  \<open><script>p</script>\<close>.
\<close>

theorem sanitize_nested_script:
  assumes "CHR ''<'' \<notin> set b" "CHR ''<'' \<notin> set p" "\<forall>c\<in>set p. \<not> is_quote c" "CHR '':'' \<notin> set p"
  shows "sanitizeHtml (''<scr<script>'' @ b @ ''</script>ipt>'' @ p @ ''</script>'') =
         ''<script>'' @ p @ ''</script>''"
proof -
  have pos: "\<forall>i<length ''<scr''. match_script_block (drop i (''<scr'' @ ''<script>'' @ s')) = None" for s'
  proof (intro allI impI)
    fix i :: nat assume "i < length ''<scr''"
    then have "i = 0 \<or> i = 1 \<or> i = 2 \<or> i = 3" by auto
    then show "match_script_block (drop i (''<scr'' @ ''<script>'' @ s')) = None"
      by (elim disjE) (simp_all add: match_script_block_def ci_prefix_def js_lower_def)
  qed
  define rest where "rest = ''ipt>'' @ p @ ''</script>''"
  have "js_replace_all match_script_block (''<scr'' @ ''<script>'' @ b @ ''</script>'' @ rest) =
        ''<scr'' @ js_replace_all match_script_block (''<script>'' @ b @ ''</script>'' @ rest)"
    by (rule js_replace_all_prefix [OF pos [of "b @ ''</script>'' @ rest"]])
  also have "js_replace_all match_script_block (''<script>'' @ b @ ''</script>'' @ rest) =
             js_replace_all match_script_block rest"
  proof -
    have d: "drop (length b + 17) (''<script>'' @ b @ ''</script>'' @ rest) = rest"
      using drop_append [of "length b + 17" "''<script>'' @ b @ ''</script>''" rest] by simp
    have "js_replace_all match_script_block (''<script>'' @ b @ ''</script>'' @ rest) =
          js_replace_all match_script_block (drop (length b + 17) (''<script>'' @ b @ ''</script>'' @ rest))"
      by (rule js_replace_all_skip [of match_script_block, OF script_block_match [OF assms(1)]]) simp
    then show ?thesis by (simp only: d)
  qed
  also have "''<scr'' @ js_replace_all match_script_block rest = ''<script>'' @ p @ ''</script>''"
  proof -
    have "\<forall>c\<in>set (''ipt>'' @ p). c \<noteq> CHR ''<''" using assms(2) by auto
    from script_scan_no_lt [OF this, of "''</script>''"] show ?thesis
      by (simp add: script_scan_end rest_def del: js_replace_all.simps)
  qed
  finally have s1: "js_replace_all match_script_block (''<scr<script>'' @ b @ ''</script>ipt>'' @ p @ ''</script>'') =
                    ''<script>'' @ p @ ''</script>''" by (simp add: rest_def del: js_replace_all.simps)
  have q: "\<forall>c\<in>set (''<script>'' @ p @ ''</script>''). \<not> is_quote c"
    using assms(3) by (auto simp: is_quote_def)
  have c: "CHR '':'' \<notin> set (''<script>'' @ p @ ''</script>'')" using assms(4) by simp
  show ?thesis unfolding sanitizeHtml_def s1
    by (simp only: event_handler_scan_no_quote [OF q] js_url_scan_no_colon [OF c])
qed


lemma sanitize_nested_script_witness:
  "sanitizeHtml (''<scr<script>'' @ ''x'' @ ''</script>ipt>'' @ ''alert(document.cookie)'' @ ''</script>'') =
   ''<script>'' @ ''alert(document.cookie)'' @ ''</script>''"
  by (rule sanitize_nested_script) (simp_all add: is_quote_def)

end
