(* ===== verification/Service.thy ===== *)
theory Service
  imports Markup Types
begin

text \<open>
  The client module of \<^verbatim>\<open>src/services/geminiService.ts\<close>. The module-level variable
  \<open>ai\<close> holds the client; the model keeps of it the trimmed key it was built with
  (\<open>string option\<close>, \<open>None\<close> for \<open>null\<close>). The network calls of the client are not
  modelled: their outcomes are inputs of the handlers that await them.
\<close>

datatype ServiceError =
    APIKeyError
  | ClientNotInitializedError
  | GeminiServiceError string string

text \<open>
  \<open>initializeAiClient(apiKey)\<close>: an empty or blank key sets \<open>ai\<close> to \<open>null\<close> and throws;
  otherwise the client is built with the trimmed key. The SDK constructor does not
  validate the key, so its catch branch is not reachable in the model.
\<close>

definition initializeAiClient :: "string \<Rightarrow> ServiceError + string" where
  "initializeAiClient apiKey =
     (if apiKey = [] \<or> length (js_trim apiKey) = 0 then Inl APIKeyError
      else Inr (js_trim apiKey))"

text \<open>The new value of \<open>ai\<close> after a call of \<open>initializeAiClient\<close>.\<close>

definition aiAfterInit :: "string \<Rightarrow> string option" where
  "aiAfterInit apiKey = (case initializeAiClient apiKey of Inl _ \<Rightarrow> None | Inr k \<Rightarrow> Some k)"

text \<open>\<open>getAiClient()\<close>: the client, or \<open>ClientNotInitializedError\<close>.\<close>

definition getAiClient :: "string option \<Rightarrow> ServiceError + string" where
  "getAiClient ai = (case ai of None \<Rightarrow> Inl ClientNotInitializedError | Some c \<Rightarrow> Inr c)"


definition errorMessage :: "ServiceError \<Rightarrow> string" where
  "errorMessage e =
     (case e of
        APIKeyError \<Rightarrow> ''[Gemini API] API Key is not provided or is invalid.''
      | ClientNotInitializedError \<Rightarrow>
          ''[Gemini Client] Gemini AI Client is not initialized. Please set your API key in the settings.''
      | GeminiServiceError m svc \<Rightarrow> ''['' @ svc @ ''] '' @ m)"

text \<open>The outcome of an SDK request: the response text (empty when absent) or a thrown error's message.\<close>

datatype Reply = Reply string | Failure string

definition startTag :: string where
  "startTag = ''<DAssigner-Start>''"

definition endTag :: string where
  "endTag = ''<DAssigner-End>''"

text \<open>
  The system instruction sent with \<open>client.chats.create\<close>, a template literal of 204
  lines. One line contains the three UTF-16 code units \<open>U+00E2 U+20AC U+201C\<close> (an en
  dash decoded with the wrong encoding), which \<open>char\<close> cannot hold, so the instruction
  is a list of UTF-16 code units; the other lines are ASCII strings.
\<close>

definition instructionLinesBefore :: "string list" where
  "instructionLinesBefore =
     [''You are DAssigner, an autonomous, evolving AI web designer specializing in creating world-class, production-ready HTML interfaces. Your core mission is to transform user visions into stunning, functional web experiences that meet the highest modern design and accessibility standards, rivaling top-tier web development agencies in quality and innovation. Your performance is continually evaluated and optimized based on user feedback and evolving web development best practices.'',
      [],
      ''I. Core Operational Principles:'',
      [],
      ''Initial Generation & Refinement Cycle (IGRC):'',
      [],
      ''Initiation: Every user prompt begins an IGRC. Your initial response is a fully-formed HTML structure intended for immediate deployment (within a <body> tag).'',
      [],
      ''Iteration: Subsequent user messages within the same conversation are treated as refinement requests directly related to the immediately preceding HTML output. Focus on additive changes, preserving existing design unless explicitly modified. Interpret vague requests with informed assumptions based on UX best practices, current design trends, and the existing context.'',
      [],
      ''Regeneration (Not Replacement): Always respond with the entire updated HTML <body> content. Never provide fragments, diffs, or code snippets outside the designated tags.'',
      [],
      ''Contextual Persistence & Adaptation: Maintain a detailed internal model of the evolving design, tracking all user-specified requirements, implicit design decisions, and ongoing stylistic themes. Use this model to ensure consistency and coherence across iterations. Actively adapt your design choices as new information emerges from the user.'',
      [],
      ''Output Protocol (Strict & Unwavering):'',
      [],
      ''<DAssigner-Start>'',
      ''[Complete HTML code only - no explanations, apologies, markdown]'',
      ''</DAssigner-End>'',
      [],
      ''Zero Tolerance for Extraneous Text: Absolutely no text, commentary, disclaimers, or markdown outside the designated tags. This is crucial for automated integration.'',
      [],
      ''Raw, Unadulterated HTML: Produce pure, executable HTML without any surrounding code fences, explanations, or commentary.'',
      [],
      ''Copy-Paste Ready: The output must be immediately usable in a web development environment.'',
      [],
      ''Styling Paradigm (Tailwind CSS Mastery):'',
      [],
      ''Tailwind CSS Exclusive: Use only Tailwind utility classes for all styling. No exceptions.'',
      [],
      ''Eliminate Inline Styles & Style Blocks: Never use style attributes or <style> blocks. All styling must be achieved through Tailwind classes.'',
      [],
      ''Utility-First Purity: Embrace Tailwind'' @ [CHR 0x27] @ ''s utility-first methodology to its fullest extent. Prioritize composability and maintainability.'',
      [],
      ''Asset Handling Strategy (Inline & Semantic):'',
      [],
      ''Inline SVGs for Vector Graphics: Embed all icons, logos, and illustrations as optimized inline SVG elements.'',
      [],
      ''Optimization Imperative: Use clean, minimal SVG code. Remove unnecessary attributes and cruft.'',
      [],
      ''Accessibility Integration: Incorporate appropriate viewBox, aria-label, role, and other accessibility attributes within the SVG.'',
      [],
      ''Visual Harmony: Ensure visual consistency across all SVG elements. Maintain a unified style and aesthetic.'',
      [],
      ''Picsum Photos for Photographic Content: Use https://picsum.photos exclusively for all photographic placeholders.'',
      [],
      ''Semantic URL Structuring: Structure URLs with descriptive seeds: https://picsum.photos/seed/[descriptive-keyword]/[width]/[height]. The seed must be descriptive of the image'' @ [CHR 0x27] @ ''s content.'',
      [],
      ''Contextual Sizing: Choose dimensions that are appropriate for the context and device performance. Prioritize responsive image techniques.'',
      [],
      ''Image Optimization: Use the ?grayscale parameter when appropriate to match design aesthetics.'',
      [],
      ''Technical Excellence Framework (The Foundation of Quality):'',
      [],
      ''Responsive Design Architect:'',
      [],
      ''Mobile-First Zenith: Design for the smallest screens first, and progressively enhance the experience for larger screens.'',
      [],
      ''Breakpoint Precision: Utilize Tailwind'' @ [CHR 0x27] @ ''s responsive modifiers (sm:, md:, lg:, xl:, 2xl:) to create adaptive layouts. Avoid excessive or unnecessary breakpoint usage.'',
      [],
      ''Fluidity & Flexibility: Design interfaces that adapt gracefully to all device sizes and orientations.'',
      [],
      ''Accessibility Champion (WCAG 2.1 AA Compliance is the Baseline):'',
      [],
      ''ARIA Ubiquity: Incorporate comprehensive ARIA attributes (aria-label, role, aria-describedby, aria-live, etc.) to provide semantic context for assistive technologies.'',
      [],
      ''Semantic HTML5 Paragon: Use proper semantic elements (<nav>, <main>, <section>, <article>, <aside>, <header>, <footer>) to structure the document logically and improve accessibility.'',
      [],
      ''Keyboard Navigation Mastery: Ensure full keyboard accessibility with proper focus management using the tabindex attribute thoughtfully and strategically. Implement skip links for improved navigation.'',
      [],
      ''Screen Reader Empathy: Provide meaningful alt text for all images and descriptive content that conveys the purpose and context of each element.'',
      [],
      ''Color Contrast Vigilance: Maintain WCAG 2.1 AA compliance for all text and interactive elements. Proactively check color contrast ratios.'',
      [],
      ''Code Quality Pantheon (Clean, Efficient, Maintainable):'',
      [],
      ''Comment-Free Purity: Produce clean, production-ready HTML devoid of comments. The code itself should be self-explanatory.'',
      [],
      ''Semantic Structure Supreme: Maintain a logical document flow and element hierarchy. Prioritize readability and maintainability.'',
      [],
      ''Performance Optimization Obsession: Minimize DOM complexity while maintaining functionality. Defer loading of non-critical resources.'',
      [],
      ''Cross-Browser Compatibility Assurance: Ensure consistent rendering and behavior across all modern browsers (Chrome, Firefox, Safari, Edge). Use polyfills sparingly and only when necessary.'',
      [],
      ''Design Philosophy (Aesthetics & User Experience):'',
      [],
      ''Modern Aesthetics Vanguard:'',
      [],
      ''Contemporary Pattern Recognition: Implement cutting-edge design trends and layouts, but avoid fleeting fads. Focus on timeless principles.'',
      [],
      ''Sophisticated Color Palette Artisan: Use harmonious, purposeful color combinations that evoke the desired emotional response. Adhere to established color theory principles.'',
      [],
      ''Typography Virtuoso: Employ proper font hierarchy and readable text sizing. Pay attention to line height, letter spacing, and kerning for optimal readability. Use a limited number of font families.'',
      [],
      ''Strategic Whitespace Maestro: Balance content density with visual breathing room. Use whitespace to guide the user'' @ [CHR 0x27] @ ''s eye and improve comprehension.'',
      [],
      ''User Experience Oracle (Empathy-Driven Design):'',
      [],
      ''Intuitive Navigation Architect: Design clear information architecture and user flows. Ensure that users can easily find what they are looking for.'',
      [],
      ''Interactive Feedback Tactician: Provide appropriate hover states, focus states, and transition effects to enhance usability and provide feedback to the user.'',
      [],
      ''Loading State Strategist: Consider the user experience during content loading. Provide visual cues to indicate progress and prevent frustration. Use skeleton loaders or spinners.'',
      [],
      ''Error Handling Guardian: Implement graceful degradation and user-friendly error states. Provide clear and actionable messages to guide the user.'',
      [],
      ''II. Self-Evaluation & Continuous Improvement (Essential for Long-Term Success):'',
      [],
      ''Automated Quality Assurance Checklist (Run Before Every Output):'',
      [],
      ''Complete HTML structure within <DAssigner-Start> tags.'',
      [],
      ''Zero external dependencies (except Tailwind CSS, implicitly).'',
      [],
      ''Full responsive design implementation across all major breakpoints.'',
      [],
      ''Comprehensive accessibility features (ARIA attributes, semantic HTML, keyboard navigation, color contrast).'',
      [],
      ''Semantic HTML5 structure.'',
      [],
      ''Inline SVGs for all icons and vector graphics (optimized and accessible).'',
      [],
      ''Picsum URLs for photographs (semantic seeds, appropriate sizing, optional grayscale).'',
      [],
      ''Clean, comment-free code.'',
      [],
      ''Modern design aesthetics.'',
      [],
      ''Cross-browser compatibility considerations.'',
      [],
      ''Performance optimization techniques employed.'',
      [],
      ''Code adheres to Tailwind CSS best practices.'',
      [],
      ''No unnecessary DOM elements.'',
      [],
      ''User input is consistently interpreted and applied.'',
      [],
      ''All elements render correctly across different screen sizes.'',
      [],
      ''User Feedback Integration Protocol:'',
      [],
      ''Active Listening: Carefully analyze user feedback to identify areas for improvement.'',
      [],
      ''Pattern Recognition: Look for recurring themes in user feedback to identify systematic issues.'',
      [],
      ''Model Adaptation: Adjust your internal design model based on user feedback.'',
      [],
      ''Prioritization: Prioritize improvements based on impact and feasibility.'',
      [],
      ''Iterative Refinement: Incorporate feedback into subsequent iterations of the design.'',
      [],
      ''Knowledge Acquisition & Adaptation:'',
      [],
      ''Constant Monitoring: Continuously monitor the latest web development trends, accessibility guidelines, and design best practices.'',
      [],
      ''Tailwind CSS Proficiency Enhancement: Stay up-to-date with the latest Tailwind CSS features and techniques.'',
      [],
      ''Competitor Analysis: Analyze the designs of top-tier web development agencies to identify areas for inspiration and improvement.'',
      [],
      ''III. Success Metrics (Quantifiable & Qualitative):'',
      [],
      ''Professional Grade Output: Code quality consistently matching or exceeding top-tier web development agencies. Evaluated by independent expert review.'',
      [],
      ''Immediate Deployability: Code ready for production environments without significant modification.'',
      [],
      ''Accessibility Compliance: Meeting or exceeding WCAG 2.1 AA standards. Verified by automated accessibility testing tools and manual review.'',
      [],
      ''Performance Optimization: Fast loading and smooth interactions. Measured by page load speed, rendering performance, and resource utilization.'',
      [],
      ''Design Excellence: Visually stunning, user-friendly interfaces that meet the user'' @ [CHR 0x27] @ ''s needs and expectations. Assessed through user surveys, A/B testing, and expert design reviews.'',
      [],
      ''Iteration Efficiency: Reduction in the number of iterations required to achieve a satisfactory design.'',
      [],
      ''User Satisfaction: Increased user satisfaction with the design and functionality of the generated interfaces.'',
      [],
      ''IV. Evolving Directive (Adaptive Learning):'',
      [],
      ''This prompt is a living document. It is intended to be refined and improved over time based on your performance, user feedback, and the evolving landscape of web development. Treat it as a guide, but also be willing to adapt and innovate.'',
      []]"

definition utf16 :: "string \<Rightarrow> nat list" where
  "utf16 s = map of_char s"

definition instructionLine265 :: "nat list" where
  "instructionLine265 = utf16 (''Your role is to be the ultimate web design partner '') @ [0xE2, 0x20AC, 0x201C] @
     utf16 ('' understanding the user'' @ [CHR 0x27] @ ''s vision, anticipating their needs, and translating them into world-class web experiences. Every line of code you generate should reflect the highest standards of modern web development, accessibility, and user-centered design.'')"

definition instructionLinesAfter :: "string list" where
  "instructionLinesAfter =
     [[],
      ''Key Improvements and Explanations:'',
      [],
      ''Emphasis on Evolution: The prompt now explicitly states that DAssigner is an evolving AI and that its performance is continuously monitored and optimized.'',
      [],
      ''IGRC (Initial Generation & Refinement Cycle): Formalized the iterative process, making it more structured and predictable. Emphasis on additive changes.'',
      [],
      ''Strictness and Zero Tolerance: Strengthened the language around output protocol and styling, eliminating any ambiguity.'',
      [],
      ''Semantic URLs: Required descriptive seeds for Picsum URLs, improving the semantic value of the placeholders.'',
      [],
      ''Accessibility Prioritization: Elevated accessibility to a core principle, with specific requirements for ARIA attributes, keyboard navigation, and color contrast.'',
      [],
      ''Code Quality Pantheon: Described the code quality goals more vividly and comprehensively.'',
      [],
      ''Self-Evaluation and User Feedback: Added sections on automated quality assurance, user feedback integration, and knowledge acquisition. This encourages DAssigner to actively learn and improve.'',
      [],
      ''Quantifiable Success Metrics: Defined specific, measurable success metrics to track progress.'',
      [],
      ''Evolving Directive: Made the prompt itself a living document, allowing for continuous refinement.'',
      [],
      ''Stronger Persona: Reinforced DAssigner'' @ [CHR 0x27] @ ''s role as a partner and expert, emphasizing empathy and understanding.'',
      ''If user requests to want multiple page design, you should generate multiple pages with different URLs and different content.And each page should have different content. '']"

definition systemInstruction :: "nat list" where
  "systemInstruction =
     utf16 (concat (map (\<lambda>l. l @ nl) instructionLinesBefore)) @ instructionLine265 @
     utf16 (concat (map (\<lambda>l. nl @ l) instructionLinesAfter))"

text \<open>\<open>extractCode(rawResponse)\<close>: the tagged region, else a fenced code block, else the span from
  the first \<open><\<close> to the last \<open>>\<close>, each trimmed and sanitized; else the trimmed raw text.\<close>

definition extractCode :: "string \<Rightarrow> ServiceError + string" where
  "extractCode raw =
     (if raw = [] then Inl (GeminiServiceError ''Invalid response received from AI service.'' ''Code Extraction'')
      else
        (let si = js_indexOf raw startTag; ei = js_indexOf raw endTag;
             primary = (if si \<noteq> -1 \<and> ei \<noteq> -1 \<and> ei > si
                        then js_trim (js_substring raw (nat si + length startTag) (nat ei)) else []);
             lastResort = (case lastResortSpan raw of
                             Some x \<Rightarrow> (if js_trim x \<noteq> [] then Inr (sanitizeHtml (js_trim x)) else Inr (js_trim raw))
                           | None \<Rightarrow> Inr (js_trim raw))
         in if primary \<noteq> [] then Inr (sanitizeHtml primary)
            else (case code_block_content raw of
                    Some g \<Rightarrow> (if g \<noteq> [] \<and> js_trim g \<noteq> [] then Inr (sanitizeHtml (js_trim g)) else lastResort)
                  | None \<Rightarrow> lastResort)))"

text \<open>\<open>createChatSession()\<close>, given the outcome of \<open>client.chats.create\<close>.\<close>

definition createChatSession :: "string option \<Rightarrow> string + Chat \<Rightarrow> ServiceError + Chat" where
  "createChatSession client created =
     (case getAiClient client of
        Inl e \<Rightarrow> Inl e
      | Inr _ \<Rightarrow>
          (case created of
             Inr c \<Rightarrow> Inr c
           | Inl _ \<Rightarrow> Inl (GeminiServiceError ''Failed to create chat session.'' ''Gemini Chat Service'')))"

definition chatService :: string where
  "chatService = ''Gemini Chat Service''"

text \<open>\<open>sendMessageToChat(chat, prompt)\<close>: the message sent is the trimmed prompt.\<close>

definition sendMessageToChat :: "string \<Rightarrow> Reply \<Rightarrow> ServiceError + string" where
  "sendMessageToChat p reply =
     (if p = [] \<or> length (js_trim p) = 0
      then Inl (GeminiServiceError ''Prompt is required and cannot be empty.'' chatService)
      else
        (case reply of
           Failure m \<Rightarrow> Inl (GeminiServiceError (''Failed to send message to chat: '' @ m) chatService)
         | Reply t \<Rightarrow>
             (if t = [] then Inl (GeminiServiceError ''Empty response received from chat service.'' chatService)
              else
                (case extractCode t of
                   Inl e \<Rightarrow> Inl e
                 | Inr h \<Rightarrow>
                     (if isValidHtml h then Inr h
                      else Inl (GeminiServiceError
                             ''Invalid HTML code received from chat. The response did not contain valid HTML.''
                             chatService))))))"

definition enhanceService :: string where
  "enhanceService = ''Gemini Enhance Service''"

definition enhancementPrompt :: "string \<Rightarrow> string" where
  "enhancementPrompt p =
     ''You are a creative director AI. Your task is to take a user'' @ [CHR 0x27] @
     ''s simple design prompt and expand it into a rich, detailed, and descriptive prompt that will inspire a world-class web designer.'' @ nl @
     ''Add details about:'' @ nl @
     ''- Color palettes and visual themes'' @ nl @
     ''- Typography choices and hierarchy'' @ nl @
     ''- Layout structure and components'' @ nl @
     ''- Interactive elements and animations'' @ nl @
     ''- Overall mood and user experience'' @ nl @
     ''- Accessibility considerations'' @ nl @
     ''- Modern design trends'' @ nl @
     ''Keep the enhanced prompt focused and actionable. Respond with ONLY the new prompt.'' @ nl @
     ''User'' @ [CHR 0x27] @ ''s prompt: '' @ [CHR 0x22] @ js_trim p @ [CHR 0x22]"

text \<open>\<open>enhancePrompt(prompt)\<close>, given the client and the outcome of the request.\<close>

definition enhancePrompt :: "string option \<Rightarrow> string \<Rightarrow> Reply \<Rightarrow> ServiceError + string" where
  "enhancePrompt client p reply =
     (if p = [] \<or> length (js_trim p) = 0
      then Inl (GeminiServiceError ''Prompt is required and cannot be empty.'' enhanceService)
      else
        (case getAiClient client of
           Inl e \<Rightarrow> Inl e
         | Inr _ \<Rightarrow>
             (case reply of
                Failure m \<Rightarrow> Inl (GeminiServiceError (''Failed to enhance prompt: '' @ m) enhanceService)
              | Reply t \<Rightarrow>
                  (if t = [] then Inl (GeminiServiceError ''No response text received from enhancement service.'' enhanceService)
                   else if length (js_trim t) = 0
                   then Inl (GeminiServiceError ''Empty enhanced prompt received.'' enhanceService)
                   else Inr (js_trim t)))))"

definition convertService :: string where
  "convertService = ''Gemini Convert Service''"

definition frameworkInstructions :: "string \<Rightarrow> string" where
  "frameworkInstructions fw =
     (if fw = ''React'' then
        nl @ ''- Use functional components with hooks (useState, useEffect, etc.)'' @ nl @
        ''- Import React and necessary hooks at the top'' @ nl @
        ''- Use JSX syntax with proper className instead of class'' @ nl @
        ''- Handle events with proper React event handlers'' @ nl @
        ''- Use React patterns for state management'' @ nl @
        ''- Ensure proper prop types and default values''
      else
        nl @ ''- Use the Composition API within a <script setup> block'' @ nl @
        ''- Import ref, reactive, and other composables from '' @ [CHR 0x27] @ ''vue'' @ [CHR 0x27] @ nl @
        ''- Use proper Vue template syntax'' @ nl @
        ''- Handle events with Vue event handlers (@click, @submit, etc.)'' @ nl @
        ''- Use Vue patterns for reactivity'' @ nl @
        ''- Ensure proper props definition and default values'')"

definition conversionPrompt :: "string \<Rightarrow> string \<Rightarrow> string" where
  "conversionPrompt html fw =
     ''You are an expert web developer specializing in modern JavaScript frameworks. Convert the following HTML code with Tailwind CSS into a single, clean, and functional '' @ fw @ '' component.'' @ nl @
     ''Framework-specific requirements:'' @ nl @
     frameworkInstructions fw @ nl @
     ''Important notes:'' @ nl @
     ''- Maintain all Tailwind CSS classes exactly as they are'' @ nl @
     ''- Preserve all functionality and styling'' @ nl @
     ''- Add proper TypeScript types if applicable'' @ nl @
     ''- Include necessary imports'' @ nl @
     ''- Make the component self-contained and functional'' @ nl @
     ''- Handle any inline SVGs properly'' @ nl @
     ''- Convert any form elements to framework-appropriate patterns'' @ nl @
     ''Your response MUST be ONLY the code for the component file. Do not add any explanatory text, markdown fences, or additional formatting.'' @ nl @
     ''HTML to convert:'' @ nl @
     html"

text \<open>\<open>convertHtmlToFramework(htmlCode, framework)\<close>.\<close>

definition convertHtmlToFramework :: "string option \<Rightarrow> string \<Rightarrow> string \<Rightarrow> Reply \<Rightarrow> ServiceError + string" where
  "convertHtmlToFramework client html fw reply =
     (if html = [] \<or> length (js_trim html) = 0
      then Inl (GeminiServiceError ''HTML code is required and cannot be empty.'' convertService)
      else if fw = [] \<or> fw \<notin> {''React'', ''Vue''}
      then Inl (GeminiServiceError (''Framework must be either '' @ [CHR 0x22] @ ''React'' @ [CHR 0x22] @
                                     '' or '' @ [CHR 0x22] @ ''Vue'' @ [CHR 0x22] @ ''.'') convertService)
      else
        (case getAiClient client of
           Inl e \<Rightarrow> Inl e
         | Inr _ \<Rightarrow>
             (case reply of
                Failure m \<Rightarrow> Inl (GeminiServiceError (''Failed to convert to '' @ fw @ '': '' @ m) convertService)
              | Reply t \<Rightarrow>
                  (if t = [] then Inl (GeminiServiceError ''No response received from conversion service.'' convertService)
                   else if length (js_trim t) = 0
                   then Inl (GeminiServiceError ''Empty converted code received.'' convertService)
                   else Inr (js_trim t)))))"

text \<open>JSON values, for the parsed response of the inspiration request.\<close>

datatype json = JNull | JBool bool | JNumber int | JString string | JArray "json list"
  | JObject "(string \<times> json) list"

text \<open>The outcome of the inspiration request: a thrown error, no text, or the text's parse
  (\<open>None\<close> when \<open>JSON.parse\<close> throws).\<close>

datatype InspirationReply = IFailure string | INoText | IText "json option"

definition DEFAULT_INSPIRATION_PROMPTS :: "string list" where
  "DEFAULT_INSPIRATION_PROMPTS =
     [''A modern hero section for a SaaS platform with gradient backgrounds, animated elements, and a compelling call-to-action'',
      ''An elegant pricing table with hover effects, popular plan highlighting, and modern card design'',
      ''A sleek team section with profile cards, social links, and smooth animations'',
      ''A contemporary contact form with modern input styling, validation states, and interactive elements'',
      ''A feature showcase section with icons, descriptions, and subtle animations'',
      ''A testimonials carousel with customer photos, ratings, and smooth transitions'']"

fun json_string :: "json \<Rightarrow> string option" where
  "json_string (JString s) = Some s"
| "json_string _ = None"

definition getInspirationPrompts :: "string option \<Rightarrow> InspirationReply \<Rightarrow> string list" where
  "getInspirationPrompts client reply =
     (case getAiClient client of
        Inl _ \<Rightarrow> DEFAULT_INSPIRATION_PROMPTS
      | Inr _ \<Rightarrow>
          (case reply of
             IFailure _ \<Rightarrow> DEFAULT_INSPIRATION_PROMPTS
           | INoText \<Rightarrow> DEFAULT_INSPIRATION_PROMPTS
           | IText None \<Rightarrow> DEFAULT_INSPIRATION_PROMPTS
           | IText (Some (JArray xs)) \<Rightarrow>
               (if length xs > 0 \<and> list_all (\<lambda>x. json_string x \<noteq> None) xs
                then map (\<lambda>x. the (json_string x)) xs else DEFAULT_INSPIRATION_PROMPTS)
           | IText (Some _) \<Rightarrow> DEFAULT_INSPIRATION_PROMPTS))"

text \<open>\<open>isClientInitialized()\<close> and \<open>destroyClient()\<close>.\<close>

definition isClientInitialized :: "string option \<Rightarrow> bool" where
  "isClientInitialized client = (client \<noteq> None)"

definition destroyClient :: "string option \<Rightarrow> string option" where
  "destroyClient client = None"

subsection \<open>Lemmas\<close>

lemma valid_trim_has_span:
  assumes v: "isValidHtml (js_trim raw)"
  shows "\<exists>x. lastResortSpan raw = Some x \<and> js_trim x \<noteq> []"
proof -
  define k where "k = length (takeWhile is_js_space raw)"
  define t where "t = js_trim raw"
  from v have tt: "js_trim t = t" by (simp add: t_def js_trim_idem)
  from v tt have t1: "take 1 t = ''<''" and gt: "CHR ''>'' \<in> set t"
    by (simp_all add: isValidHtml_def t_def Let_def)
  from t1 have tne: "t \<noteq> []" by auto
  from t1 have ht: "hd t = CHR ''<''" by (cases t) auto
  from tne have k: "k < length raw" and hk: "hd t = raw ! k" and st: "set t \<subseteq> set (drop k raw)"
    using js_trim_hd [of raw] by (simp_all add: t_def k_def)
  with ht have rk: "raw ! k = CHR ''<''" by simp
  have pre: "\<forall>j<k. raw ! j \<noteq> CHR ''<''"
  proof (intro allI impI)
    fix j assume "j < k"
    then have "is_js_space (raw ! j)" unfolding k_def by (rule takeWhile_prefix_nth)
    then show "raw ! j \<noteq> CHR ''<''" by (auto simp: is_js_space_def)
  qed
  have f: "js_indexOf raw ''<'' = int k"
    using findIndex_SomeI [of k raw "\<lambda>x. x = CHR ''<''"] k rk pre
    by (simp add: js_indexOf_def str_index_single)
  from gt st obtain m where m: "m < length (drop k raw)" "drop k raw ! m = CHR ''>''"
    by (metis in_mono in_set_conv_nth)
  define j0 where "j0 = k + m"
  from m have j0: "j0 < length raw" "raw ! j0 = CHR ''>''" by (simp_all add: j0_def)
  have "m \<noteq> 0"
  proof
    assume "m = 0"
    with j0 rk show False by (simp add: j0_def)
  qed
  then have kj: "k < j0" by (simp add: j0_def)
  have "CHR ''>'' \<in> set (rev raw)" using j0 by (simp add: in_set_conv_nth) blast
  then obtain i where i: "findIndex (\<lambda>x. x = CHR ''>'') (rev raw) = Some i"
    by (cases "findIndex (\<lambda>x. x = CHR ''>'') (rev raw)") (auto simp: findIndex_None)
  from findIndex_Some [OF i] have il: "i < length raw"
    and imin: "\<forall>j<i. rev raw ! j \<noteq> CHR ''>''" by simp_all
  have "rev raw ! (length raw - Suc j0) = CHR ''>''" using j0 by (simp add: rev_nth)
  with imin have "\<not> length raw - Suc j0 < i" by blast
  then have lj: "j0 \<le> length raw - Suc i" using j0 by arith
  define l where "l = length raw - Suc i"
  have lidx: "js_lastIndexOf raw (CHR ''>'') = int l"
    by (simp add: js_lastIndexOf_def str_index_single i l_def)
  have kl: "k < l" using kj lj by (simp add: l_def)
  have span: "lastResortSpan raw = Some (js_substring raw k (l + 1))"
    unfolding lastResortSpan_def Let_def f lidx using kl by simp
  have ll: "l < length raw" using il by (simp add: l_def)
  define x where "x = take (l + 1 - k) (drop k raw)"
  have sub: "js_substring raw k (l + 1) = x"
    using kl ll by (simp add: js_substring_def x_def min_def max_def)
  have xne: "x \<noteq> []" using kl ll by (simp add: x_def)
  have hx: "hd x = CHR ''<''" using kl ll rk by (simp add: x_def hd_drop_conv_nth)
  have "\<not> is_js_space (CHR ''<'')" by (simp add: is_js_space_def)
  with xne hx have "js_trim x \<noteq> []" by (metis js_trim_nonempty)
  with span sub have "lastResortSpan raw = Some x \<and> js_trim x \<noteq> []" by simp
  then show ?thesis by blast
qed

lemma startTag_kept:
  "js_replace_all match_script_block (startTag @ y) = startTag @ js_replace_all match_script_block y"
  "js_replace_all match_event_handler (startTag @ y) = startTag @ js_replace_all match_event_handler y"
  "js_replace_all match_js_url (startTag @ y) = startTag @ js_replace_all match_js_url y"
  by (simp_all add: startTag_def match_script_block_head match_script_block_second
        match_event_handler_head match_js_url_head_j is_js_space_def)

lemma js_trim_startTag:
  "js_trim (startTag @ r) = startTag @ rev (dropWhile is_js_space (rev r))"
proof -
  have "dropWhile is_js_space (startTag @ r) = startTag @ r"
    by (simp add: startTag_def is_js_space_def)
  moreover have "dropWhile is_js_space (rev startTag) = rev startTag"
    by (simp add: startTag_def is_js_space_def)
  ultimately show ?thesis by (simp add: js_trim_def dropWhile_append)
qed

lemma isValidHtml_startTag: "isValidHtml (startTag @ r)"
  by (simp add: isValidHtml_def js_trim_startTag) (simp add: startTag_def)

lemma extractCode_valid_sanitized:
  "extractCode raw = Inr h \<Longrightarrow> isValidHtml h \<Longrightarrow> \<exists>x. h = sanitizeHtml x"
  using valid_trim_has_span [of raw]
  by (auto simp: extractCode_def Let_def split: if_splits option.splits)

text \<open>
  C21. Markup that \<open>sendMessageToChat\<close> returns passes \<open>isValidHtml\<close> and is the output
  of \<open>sanitizeHtml\<close>: the only unsanitized branch of \<open>extractCode\<close> (the trimmed raw text)
  never passes validation.
\<close>

theorem sendMessageToChat_sanitized:
  "sendMessageToChat p r = Inr h \<Longrightarrow> isValidHtml h \<and> (\<exists>x. h = sanitizeHtml x)"
  by (auto simp: sendMessageToChat_def extractCode_valid_sanitized split: if_splits Reply.splits sum.splits)

lemma sendMessageToChat_sanitized_witness:
  "isValidHtml ''<p>hi</p>'' \<and> (\<exists>x. ''<p>hi</p>'' = sanitizeHtml x)"
proof -
  have "sendMessageToChat ''a card'' (Reply ''<p>hi</p>'') = Inr ''<p>hi</p>''" by code_simp
  then show ?thesis by (rule sendMessageToChat_sanitized)
qed

text \<open>
  C22. The output protocol of the system instruction is the three lines
  \<open><DAssigner-Start>\<close>, the design, \<open></DAssigner-End>\<close>, but \<open>extractCode\<close> looks
  for \<open><DAssigner-End>\<close>. For every design \<open>d\<close> that contains neither that tag nor a
  code fence, a reply that follows the protocol misses the tagged branch and is taken
  whole by the last-resort span: the returned markup starts with the start marker, and
  the rest of the reply, closing line included, is what is sanitized.
\<close>

theorem closing_tag_mismatch:
  assumes p: "js_trim p \<noteq> []" and e: "str_index endTag d = None" and f: "str_index ''```'' d = None"
  shows "take 3 (drop 16 instructionLinesBefore) =
           [startTag, ''[Complete HTML code only - no explanations, apologies, markdown]'', ''</DAssigner-End>''] \<and>
         sendMessageToChat p (Reply (startTag @ nl @ d @ nl @ instructionLinesBefore ! 18)) =
           Inr (startTag @ sanitizeHtml (nl @ d @ nl @ instructionLinesBefore ! 18))"
proof -
  have lines: "take 3 (drop 16 instructionLinesBefore) =
     [startTag, ''[Complete HTML code only - no explanations, apologies, markdown]'', ''</DAssigner-End>'']"
    by (simp add: instructionLinesBefore_def startTag_def)
  define close where "close = ''</DAssigner-End>''"
  have l18: "instructionLinesBefore ! 18 = close" by (simp add: instructionLinesBefore_def close_def)
  define raw where "raw = startTag @ nl @ d @ nl @ close"
  have raw_split: "raw = startTag @ CHR 0x0A # (d @ CHR 0x0A # close)" by (simp add: raw_def nl_def)
  have noend: "str_index endTag raw = None"
  proof -
    have "str_index endTag startTag = None" "str_index endTag close = None"
      by (simp_all add: endTag_def startTag_def close_def)
    then show ?thesis unfolding raw_split using e
      by (intro str_index_split_None) (simp_all add: endTag_def)
  qed
  have nofence: "str_index ''```'' raw = None"
  proof -
    have "str_index ''```'' startTag = None" "str_index ''```'' close = None"
      by (simp_all add: startTag_def close_def)
    then show ?thesis unfolding raw_split using f
      by (intro str_index_split_None) simp_all
  qed
  have si: "js_indexOf raw startTag = 0"
    using str_index_first [of startTag "[]"] by (simp add: js_indexOf_def raw_def startTag_def)
  have lt: "js_indexOf raw ''<'' = 0" by (simp add: js_indexOf_def raw_def startTag_def)
  have gt: "js_lastIndexOf raw (CHR ''>'') = int (length raw - 1)"
    by (simp add: js_lastIndexOf_def raw_def close_def)
  have len: "1 < length raw" by (simp add: raw_def startTag_def)
  then have rne: "raw \<noteq> []" by auto
  have span: "lastResortSpan raw = Some raw"
    using len rne by (simp add: lastResortSpan_def lt gt js_substring_def)
  have tr: "js_trim raw = raw"
    by (rule js_trim_id) (simp_all add: raw_def startTag_def close_def is_js_space_def)
  have ex: "extractCode raw = Inr (sanitizeHtml raw)"
    using len rne by (simp add: extractCode_def Let_def si js_indexOf_def noend code_block_content_def nofence
                   span tr)
  have san: "sanitizeHtml raw = startTag @ sanitizeHtml (nl @ d @ nl @ close)"
    by (simp add: sanitizeHtml_def raw_def startTag_kept)
  have pne: "p \<noteq> []" using p by (auto simp: js_trim_def)
  have "sendMessageToChat p (Reply raw) = Inr (startTag @ sanitizeHtml (nl @ d @ nl @ close))"
    using p pne rne by (simp add: sendMessageToChat_def ex san isValidHtml_startTag)
  then show ?thesis using lines l18 by (simp add: raw_def)
qed

lemma closing_tag_mismatch_witness:
  "take 3 (drop 16 instructionLinesBefore) =
     [startTag, ''[Complete HTML code only - no explanations, apologies, markdown]'', ''</DAssigner-End>''] \<and>
   sendMessageToChat ''a card'' (Reply (startTag @ nl @ ''<p>hi</p>'' @ nl @ instructionLinesBefore ! 18)) =
     Inr (startTag @ sanitizeHtml (nl @ ''<p>hi</p>'' @ nl @ instructionLinesBefore ! 18))"
  by (rule closing_tag_mismatch) (simp_all add: endTag_def js_trim_def is_js_space_def)

text \<open>
  C23. \<open>getInspirationPrompts\<close> never fails and never returns an empty list; with a
  client, a reply that parses as a non-empty JSON array of strings gives exactly those
  strings; and any result other than the default prompts is such an array of the reply.
\<close>

theorem getInspirationPrompts_spec:
  "getInspirationPrompts c r \<noteq> [] \<and>
   (c \<noteq> None \<and> ys \<noteq> [] \<longrightarrow> getInspirationPrompts c (IText (Some (JArray (map JString ys)))) = ys) \<and>
   (getInspirationPrompts c r \<noteq> DEFAULT_INSPIRATION_PROMPTS \<longrightarrow>
      c \<noteq> None \<and> r = IText (Some (JArray (map JString (getInspirationPrompts c r)))))"
proof (intro conjI impI)
  show "getInspirationPrompts c r \<noteq> []"
    by (auto simp: getInspirationPrompts_def DEFAULT_INSPIRATION_PROMPTS_def
             split: sum.splits InspirationReply.splits option.splits json.splits)
  have comp: "(\<lambda>x. the (json_string x)) \<circ> JString = id" by (rule ext) simp
  show "getInspirationPrompts c (IText (Some (JArray (map JString ys)))) = ys" if "c \<noteq> None \<and> ys \<noteq> []"
    using that by (auto simp: getInspirationPrompts_def getAiClient_def list_all_iff comp)
  have map_back: "list_all (\<lambda>x. json_string x \<noteq> None) xs \<Longrightarrow>
                  map (JString \<circ> (\<lambda>x. the (json_string x))) xs = xs" for xs
    by (induction xs) (auto elim: json_string.elims)
  assume "getInspirationPrompts c r \<noteq> DEFAULT_INSPIRATION_PROMPTS"
  then show "c \<noteq> None" "r = IText (Some (JArray (map JString (getInspirationPrompts c r))))"
    by (auto simp: getInspirationPrompts_def getAiClient_def map_back
             split: InspirationReply.splits option.splits json.splits if_splits)
qed

lemma getInspirationPrompts_spec_witness:
  "getInspirationPrompts (Some ''k'') (IText (Some (JArray (map JString [''A bold hero''])))) = [''A bold hero''] \<and>
   getInspirationPrompts (Some ''k'') INoText \<noteq> []"
  using getInspirationPrompts_spec [of "Some ''k''" INoText "[''A bold hero'']"]
  by (simp add: DEFAULT_INSPIRATION_PROMPTS_def)

text \<open>
  \<open>enhancePrompt\<close> succeeds only with a client, a non-blank prompt and a reply
  whose trimmed text is non-empty; the result is that trimmed text.
\<close>

theorem enhancePrompt_result:
  "enhancePrompt c p r = Inr e \<Longrightarrow>
   c \<noteq> None \<and> js_trim p \<noteq> [] \<and> (\<exists>t. r = Reply t \<and> e = js_trim t \<and> e \<noteq> [])"
  by (auto simp: enhancePrompt_def getAiClient_def split: if_splits option.splits Reply.splits)

lemma enhancePrompt_result_witness:
  "Some ''k'' \<noteq> None \<and> js_trim ''a cat'' \<noteq> [] \<and>
   (\<exists>t. Reply '' A cat. '' = Reply t \<and> ''A cat.'' = js_trim t \<and> ''A cat.'' \<noteq> [])"
proof -
  have "enhancePrompt (Some ''k'') ''a cat'' (Reply '' A cat. '') = Inr ''A cat.''" by code_simp
  then show ?thesis by (rule enhancePrompt_result)
qed

text \<open>
  C25. \<open>convertHtmlToFramework\<close> succeeds only for the frameworks React and Vue, with
  non-blank markup, a client and a reply whose trimmed text is non-empty; the result is
  that trimmed text.
\<close>

theorem convert_result:
  "convertHtmlToFramework c h fw r = Inr code \<Longrightarrow>
   (fw = ''React'' \<or> fw = ''Vue'') \<and> js_trim h \<noteq> [] \<and> c \<noteq> None \<and>
   (\<exists>t. r = Reply t \<and> code = js_trim t \<and> code \<noteq> [])"
  by (auto simp: convertHtmlToFramework_def getAiClient_def split: if_splits option.splits Reply.splits)

lemma convert_result_witness:
  "(''Vue'' = ''React'' \<or> ''Vue'' = ''Vue'') \<and> js_trim ''<p/>'' \<noteq> [] \<and> Some ''k'' \<noteq> None \<and>
   (\<exists>t. Reply ''<template/>'' = Reply t \<and> ''<template/>'' = js_trim t \<and> ''<template/>'' \<noteq> [])"
proof -
  have "convertHtmlToFramework (Some ''k'') ''<p/>'' ''Vue'' (Reply ''<template/>'') = Inr ''<template/>''"
    by code_simp
  then show ?thesis by (rule convert_result)
qed

end
