(* ===== verification/Repository.thy ===== *)
theory Repository
  imports Reducer Service
begin

text \<open>
  Persistence in \<^verbatim>\<open>src/App.tsx\<close>: the provider's \<open>projects\<close> list, the four
  \<open>localStorage\<close> keys, the start-up effect (credential decoding, project parsing,
  legacy migration, choice of the project to load), the save effect that upserts the
  current project on every change of its dependencies, and the handlers that load, create
  and delete projects.
  \<^item> \<open>World\<close> is everything the provider owns: the reducer state, the \<open>projects\<close>
    state, the storage and the service module's client \<open>ai\<close>.
  \<^item> A stored value is \<open>Absent\<close> (\<open>getItem\<close> returns \<open>null\<close>), \<open>Unparseable\<close>
    (\<open>JSON.parse\<close> throws) or \<open>Stored v\<close>; \<open>JSON.stringify\<close> followed by
    \<open>JSON.parse\<close> is taken to give back the value written.
  \<^item> \<open>atob\<close> is a parameter (\<open>None\<close> when it throws).
  \<^item> \<open>dispatch\<close> reduces one action and then runs the save effect when one of its
    dependencies changed by value. React compares them by reference; the two differ only
    when a fresh but equal object is built, and then the effect rewrites the same project
    with a newer \<open>lastModified\<close>.
\<close>

datatype 'a stored = Absent | Unparseable | Stored 'a

record LegacySession =
  old_history :: "HistoryItem list option"
  old_activeDesign :: "DesignOutput option"
  old_chatTitle :: "string option"
  old_isComponentMode :: "bool option"
  old_convertedCodeCache :: "js_record option"

record LocalStorage =
  gemini_api_key :: "string option"
  dassigner_projects :: "Project list stored"
  dassigner_session :: "LegacySession stored"
  dassigner_currentProjectId :: "string option"

record World =
  st :: AppState
  projects :: "Project list"
  storage :: LocalStorage
  ai :: "string option"

subsection \<open>Helpers of the provider\<close>

text \<open>\<open>addToast(message, type)\<close>: the toast's id is the clock in decimal.\<close>

definition addToast :: "nat \<Rightarrow> string \<Rightarrow> ToastType \<Rightarrow> AppAction" where
  "addToast now msg ty = ADD_TOAST \<lparr>toast_id = nat_to_string now, message = msg, toast_type = ty\<rparr>"

text \<open>\<open>[...ps].sort((a, b) => b.lastModified - a.lastModified)[0]\<close>: the sort is stable.\<close>

definition mostRecentProject :: "Project list \<Rightarrow> Project option" where
  "mostRecentProject ps =
     (case sort_key (\<lambda>p. - int (lastModified p)) ps of [] \<Rightarrow> None | p # _ \<Rightarrow> Some p)"

definition newProjectId :: "nat \<Rightarrow> string" where
  "newProjectId now = ''proj-'' @ nat_to_string now"

subsection \<open>The save effect\<close>

text \<open>The project the save effect writes, or \<open>None\<close> when its guard returns early.\<close>

definition currentProjectData :: "nat \<Rightarrow> AppState \<Rightarrow> Project option" where
  "currentProjectData now s =
     (case currentProjectId s of
        None \<Rightarrow> None
      | Some cid \<Rightarrow>
          (if cid = [] \<or> (length (history s) = 0 \<and> chatTitle s = defaultChatTitle) then None
           else Some \<lparr>proj_id = cid, title = chatTitle s, proj_history = history s,
                      proj_activeDesign = activeDesign s, proj_isComponentMode = isComponentMode s,
                      lastModified = now, proj_convertedCodeCache = convertedCodeCache s\<rparr>))"

text \<open>The \<open>setProjects\<close> updater: replace the entry with the same id, or prepend.\<close>

definition upsertProject :: "Project \<Rightarrow> Project list \<Rightarrow> Project list" where
  "upsertProject p ps =
     (case findIndex (\<lambda>q. proj_id q = proj_id p) ps of
        Some i \<Rightarrow> ps[i := p]
      | None \<Rightarrow> p # ps)"

definition saveEffect :: "nat \<Rightarrow> World \<Rightarrow> World" where
  "saveEffect now w =
     (case currentProjectData now (st w) of
        None \<Rightarrow> w
      | Some p \<Rightarrow>
          (let ps = upsertProject p (projects w)
           in w\<lparr>projects := ps, storage := (storage w)\<lparr>dassigner_projects := Stored ps\<rparr>\<rparr>))"

text \<open>The dependency list of the save effect.\<close>

definition saveDeps ::
  "AppState \<Rightarrow> string option \<times> HistoryItem list \<times> string \<times> DesignOutput option \<times> bool \<times> js_record" where
  "saveDeps s = (currentProjectId s, history s, chatTitle s, activeDesign s, isComponentMode s,
                 convertedCodeCache s)"

definition dispatch :: "nat \<Rightarrow> World \<Rightarrow> AppAction \<Rightarrow> World" where
  "dispatch now w a =
     (let w' = w\<lparr>st := appReducer now (st w) a\<rparr>
      in if saveDeps (st w') = saveDeps (st w) then w' else saveEffect now w')"

fun dispatchAll :: "nat \<Rightarrow> World \<Rightarrow> AppAction list \<Rightarrow> World" where
  "dispatchAll now w [] = w"
| "dispatchAll now w (a # as) = dispatchAll now (dispatch now w a) as"

definition setCurrentProjectId :: "string \<Rightarrow> World \<Rightarrow> World" where
  "setCurrentProjectId i w = w\<lparr>storage := (storage w)\<lparr>dassigner_currentProjectId := Some i\<rparr>\<rparr>"

subsection \<open>Start-up\<close>

text \<open>
  Credential restore: the actions dispatched, the new client, and whether the effect
  aborted with an uncaught exception (the fallback's \<open>initializeAiClient\<close> threw).
\<close>

definition restoreApiKey ::
  "(string \<Rightarrow> string option) \<Rightarrow> string option \<Rightarrow> AppAction list \<times> string option \<times> bool" where
  "restoreApiKey atob saved =
     (case saved of
        None \<Rightarrow> ([], None, False)
      | Some k \<Rightarrow>
          (if k = [] then ([], None, False)
           else
             (let fallback = (\<lambda>pre. (pre @ [SET_API_KEY (Some k)], aiAfterInit k,
                                      isl (initializeAiClient k)))
              in case atob k of
                   None \<Rightarrow> fallback []
                 | Some dec \<Rightarrow>
                     (case initializeAiClient dec of
                        Inr c \<Rightarrow> ([SET_API_KEY (Some dec)], Some c, False)
                      | Inl _ \<Rightarrow> fallback [SET_API_KEY (Some dec)]))))"

definition projectsFromStorage :: "LocalStorage \<Rightarrow> Project list" where
  "projectsFromStorage ls = (case dassigner_projects ls of Stored ps \<Rightarrow> ps | _ \<Rightarrow> [])"

definition migratedProject :: "nat \<Rightarrow> LegacySession \<Rightarrow> HistoryItem list \<Rightarrow> Project" where
  "migratedProject now old h =
     \<lparr>proj_id = ''migrated-'' @ nat_to_string now,
      title = js_or (old_chatTitle old) ''Migrated Session'',
      proj_history = h, proj_activeDesign = old_activeDesign old,
      proj_isComponentMode = (case old_isComponentMode old of Some b \<Rightarrow> b | None \<Rightarrow> False),
      lastModified = now,
      proj_convertedCodeCache = (case old_convertedCodeCache old of Some c \<Rightarrow> c | None \<Rightarrow> [])\<rparr>"

text \<open>Migration of the legacy single-session record; the key is removed whenever present.\<close>

definition migrateLegacy :: "nat \<Rightarrow> LocalStorage \<Rightarrow> Project list \<Rightarrow> Project list \<times> LocalStorage" where
  "migrateLegacy now ls ps =
     (case dassigner_session ls of
        Absent \<Rightarrow> (ps, ls)
      | Unparseable \<Rightarrow> (ps, ls\<lparr>dassigner_session := Absent\<rparr>)
      | Stored old \<Rightarrow>
          ((case old_history old of
              Some h \<Rightarrow> (if length h > 0 then migratedProject now old h # ps else ps)
            | None \<Rightarrow> ps),
           ls\<lparr>dassigner_session := Absent\<rparr>))"

text \<open>The last used project if it is still in the list, else the most recent one.\<close>

definition resolveInitialProject :: "string option \<Rightarrow> Project list \<Rightarrow> Project option" where
  "resolveInitialProject lastId ps =
     (case List.find (\<lambda>p. Some (proj_id p) = lastId) ps of
        Some p \<Rightarrow> Some p
      | None \<Rightarrow> (if length ps > 0 then mostRecentProject ps else None))"

definition initialWorld :: "LocalStorage \<Rightarrow> World" where
  "initialWorld ls = \<lparr>st = initialState, projects = [], storage = ls, ai = None\<rparr>"

text \<open>The mount effect, with all its \<open>Date.now()\<close> calls reading the same clock value.\<close>

definition initApp :: "(string \<Rightarrow> string option) \<Rightarrow> nat \<Rightarrow> LocalStorage \<Rightarrow> World" where
  "initApp atob now ls =
     (let (acts, client, aborted) = restoreApiKey atob (gemini_api_key ls);
          w0 = dispatchAll now ((initialWorld ls)\<lparr>ai := client\<rparr>) acts
      in if aborted then w0
         else
           (let (ps, ls1) = migrateLegacy now ls (projectsFromStorage ls);
                w1 = w0\<lparr>projects := ps, storage := ls1\<rparr>
            in case resolveInitialProject (dassigner_currentProjectId ls1) ps of
                 Some p \<Rightarrow> dispatch now w1 (LOAD_PROJECT p)
               | None \<Rightarrow> setCurrentProjectId (newProjectId now)
                           (dispatch now w1 (NEW_PROJECT (newProjectId now)))))"

subsection \<open>Project handlers\<close>

definition handleNewProject :: "nat \<Rightarrow> World \<Rightarrow> World" where
  "handleNewProject now w =
     setCurrentProjectId (newProjectId now) (dispatch now w (NEW_PROJECT (newProjectId now)))"

definition handleLoadProject :: "nat \<Rightarrow> string \<Rightarrow> World \<Rightarrow> World" where
  "handleLoadProject now pid w =
     (case List.find (\<lambda>p. proj_id p = pid) (projects w) of
        Some p \<Rightarrow> setCurrentProjectId pid (dispatch now w (LOAD_PROJECT p))
      | None \<Rightarrow> dispatch now w (addToast now ''Could not find the project to load.'' Error))"

definition handleLoadExample :: "nat \<Rightarrow> ExampleItem \<Rightarrow> World \<Rightarrow> World" where
  "handleLoadExample now ex w =
     setCurrentProjectId (newProjectId now) (dispatch now w (LOAD_EXAMPLE ex (newProjectId now)))"

text \<open>
  \<open>handleDeleteProject\<close>: the updater filters and writes the list; when the deleted
  project is the current one it selects the most recent remaining project (loaded by a
  deferred dispatch, after the toast) or starts a new project (inside the updater, before
  the toast).
\<close>

definition handleDeleteProject :: "nat \<Rightarrow> string \<Rightarrow> World \<Rightarrow> World" where
  "handleDeleteProject now pid w =
     (let ps = filter (\<lambda>p. proj_id p \<noteq> pid) (projects w);
          w1 = w\<lparr>projects := ps, storage := (storage w)\<lparr>dassigner_projects := Stored ps\<rparr>\<rparr>;
          toast = addToast now ''Design deleted successfully.'' Success
      in if Some pid = currentProjectId (st w) then
           (case mostRecentProject ps of
              Some p \<Rightarrow> dispatch now (setCurrentProjectId (proj_id p) (dispatch now w1 toast)) (LOAD_PROJECT p)
            | None \<Rightarrow> dispatch now (handleNewProject now w1) toast)
         else dispatch now w1 toast)"


text \<open>The updater's replacement of the first entry with the same id.\<close>

fun replaceFirst :: "Project \<Rightarrow> Project list \<Rightarrow> Project list" where
  "replaceFirst p [] = []"
| "replaceFirst p (q # qs) = (if proj_id q = proj_id p then p # qs else q # replaceFirst p qs)"

text \<open>
  A reference for the choice of the most recent project: a single scan that keeps the
  earliest project among those with the greatest \<open>lastModified\<close>.
\<close>

fun pickLatest :: "Project list \<Rightarrow> Project option" where
  "pickLatest [] = None"
| "pickLatest (p # ps) =
     (case pickLatest ps of
        None \<Rightarrow> Some p
      | Some q \<Rightarrow> (if lastModified p < lastModified q then Some q else Some p))"

subsection \<open>Example data for the witnesses\<close>

definition exProject :: "string \<Rightarrow> nat \<Rightarrow> Project" where
  "exProject i t =
     \<lparr>proj_id = i, title = ''T'', proj_history = [\<lparr>item_id = ''1'', prompt = ''a'', designOutput = \<lparr>htmlCode = ''<p>''\<rparr>\<rparr>],
      proj_activeDesign = Some \<lparr>htmlCode = ''<p>''\<rparr>, proj_isComponentMode = False, lastModified = t,
      proj_convertedCodeCache = []\<rparr>"

definition exStorage :: LocalStorage where
  "exStorage = \<lparr>gemini_api_key = None, dassigner_projects = Stored [exProject ''p1'' 5, exProject ''p2'' 9],
                dassigner_session = Absent, dassigner_currentProjectId = Some ''p1''\<rparr>"

subsection \<open>Lemmas on the project list and the save effect\<close>

lemma findIndex_replaceFirst:
  "findIndex (\<lambda>q. proj_id q = proj_id p) ps = Some k \<Longrightarrow> ps[k := p] = replaceFirst p ps"
proof (induction ps arbitrary: k)
  case (Cons q qs)
  then show ?case by (cases k) (auto split: if_splits)
qed simp

lemma upsertProject_cases:
  "upsertProject p ps = (if proj_id p \<in> proj_id ` set ps then replaceFirst p ps else p # ps)"
  by (auto simp: upsertProject_def findIndex_None findIndex_replaceFirst split: option.splits
           dest!: findIndex_Some_mem) (metis image_eqI)

lemma replaceFirst_ids:
  "proj_id p \<in> proj_id ` set ps \<Longrightarrow> map proj_id (replaceFirst p ps) = map proj_id ps"
  by (induction ps) auto

lemma find_replaceFirst:
  "proj_id p \<in> proj_id ` set ps \<Longrightarrow>
   List.find (\<lambda>q. proj_id q = i) (replaceFirst p ps) =
   (if i = proj_id p then Some p else List.find (\<lambda>q. proj_id q = i) ps)"
  by (induction ps) auto

lemma find_upsertProject:
  "List.find (\<lambda>q. proj_id q = i) (upsertProject p ps) =
   (if i = proj_id p then Some p else List.find (\<lambda>q. proj_id q = i) ps)"
  by (simp add: upsertProject_cases find_replaceFirst)

lemma upsertProject_ids: "proj_id ` set (upsertProject p ps) = insert (proj_id p) (proj_id ` set ps)"
proof (cases "proj_id p \<in> proj_id ` set ps")
  case True
  then have "proj_id ` set (replaceFirst p ps) = proj_id ` set ps"
    by (metis replaceFirst_ids set_map)
  with True show ?thesis by (auto simp: upsertProject_cases)
qed (auto simp: upsertProject_cases)

lemma currentProjectData_id:
  "currentProjectData now s = Some p \<Longrightarrow> currentProjectId s = Some (proj_id p)"
  by (auto simp: currentProjectData_def split: option.splits if_splits)

lemma currentProjectData_empty:
  "history s = [] \<Longrightarrow> chatTitle s = defaultChatTitle \<Longrightarrow> currentProjectData now s = None"
  by (simp add: currentProjectData_def split: option.splits)

lemma load_currentProjectData:
  "proj_id p \<noteq> [] \<Longrightarrow> proj_history p \<noteq> [] \<Longrightarrow>
   currentProjectData now (appReducer t s (LOAD_PROJECT p)) = Some (p\<lparr>lastModified := now\<rparr>)"
  by (simp add: currentProjectData_def)

lemma saveEffect_frame:
  "st (saveEffect now w) = st w \<and> ai (saveEffect now w) = ai w \<and>
   dassigner_currentProjectId (storage (saveEffect now w)) = dassigner_currentProjectId (storage w) \<and>
   proj_id ` set (projects (saveEffect now w)) =
     (case currentProjectId (st w) of
        Some i \<Rightarrow> (if currentProjectData now (st w) = None then {} else {i})
      | None \<Rightarrow> {}) \<union> proj_id ` set (projects w)"
  by (auto simp: saveEffect_def upsertProject_ids Let_def dest: currentProjectData_id
           split: option.splits)

lemma dispatch_frame:
  "st (dispatch now w a) = appReducer now (st w) a \<and> ai (dispatch now w a) = ai w \<and>
   dassigner_currentProjectId (storage (dispatch now w a)) = dassigner_currentProjectId (storage w) \<and>
   proj_id ` set (projects w) \<subseteq> proj_id ` set (projects (dispatch now w a)) \<and>
   proj_id ` set (projects (dispatch now w a)) \<subseteq>
     proj_id ` set (projects w) \<union>
     (case currentProjectData now (appReducer now (st w) a) of Some p \<Rightarrow> {proj_id p} | None \<Rightarrow> {})"
  using saveEffect_frame [of now "w\<lparr>st := appReducer now (st w) a\<rparr>"]
  by (auto simp: dispatch_def Let_def dest: currentProjectData_id split: option.splits if_splits)

lemma dispatch_same_deps:
  "saveDeps (appReducer now (st w) a) = saveDeps (st w) \<Longrightarrow>
   dispatch now w a = w\<lparr>st := appReducer now (st w) a\<rparr>"
  by (simp add: dispatch_def)

lemma dispatch_toast:
  "dispatch now w (ADD_TOAST t) = w\<lparr>st := (st w)\<lparr>toasts := toasts (st w) @ [t]\<rparr>\<rparr>"
  by (simp add: dispatch_def saveDeps_def)

lemma mostRecentProject_spec:
  "mostRecentProject ps = Some p \<Longrightarrow> p \<in> set ps \<and> (\<forall>q\<in>set ps. lastModified q \<le> lastModified p)"
proof -
  assume m: "mostRecentProject ps = Some p"
  then obtain rest where srt: "sort_key (\<lambda>p. - int (lastModified p)) ps = p # rest"
    by (auto simp: mostRecentProject_def split: list.splits)
  then have "p \<in> set ps" by (metis list.set_intros(1) set_sort)
  moreover have "sorted (map (\<lambda>p. - int (lastModified p)) (p # rest))"
    using srt by (metis sorted_sort_key)
  moreover have "set ps = set (p # rest)" using srt by (metis set_sort)
  ultimately show ?thesis by auto
qed

lemma mostRecentProject_None: "mostRecentProject ps = None \<longleftrightarrow> ps = []"
proof -
  have "sort_key (\<lambda>p. - int (lastModified p)) ps = [] \<longleftrightarrow> ps = []"
    by (metis length_0_conv length_sort)
  then show ?thesis by (auto simp: mostRecentProject_def split: list.splits)
qed

lemma resolveInitialProject_in: "resolveInitialProject lastId ps = Some p \<Longrightarrow> p \<in> set ps"
  by (auto simp: resolveInitialProject_def split: option.splits if_splits
           dest: find_Some_in_set mostRecentProject_spec)

lemma resolveInitialProject_None: "resolveInitialProject lastId ps = None \<Longrightarrow> ps = []"
  by (auto simp: resolveInitialProject_def mostRecentProject_None split: option.splits if_splits)

lemma restoreApiKey_actions:
  "\<forall>a\<in>set (fst (restoreApiKey atob k)). \<exists>v. a = SET_API_KEY v"
  by (auto simp: restoreApiKey_def Let_def split: option.splits sum.splits if_splits)

lemma dispatchAll_api_keys:
  "\<forall>a\<in>set acts. \<exists>v. a = SET_API_KEY v \<Longrightarrow>
   projects (dispatchAll now w acts) = projects w \<and> storage (dispatchAll now w acts) = storage w \<and>
   saveDeps (st (dispatchAll now w acts)) = saveDeps (st w) \<and> ai (dispatchAll now w acts) = ai w"
proof (induction acts arbitrary: w)
  case (Cons a acts)
  then obtain v where "a = SET_API_KEY v" by auto
  moreover have "saveDeps (appReducer now (st w) (SET_API_KEY v)) = saveDeps (st w)"
    by (simp add: saveDeps_def)
  ultimately show ?case using Cons by (simp add: dispatch_same_deps)
qed simp

lemma delete_active_project_aux:
  assumes cur: "currentProjectId (st w) = Some pid"
    and w': "w' = handleDeleteProject now pid w"
  shows "pid \<notin> proj_id ` set (projects w') \<and>
         (\<exists>i. currentProjectId (st w') = Some i \<and> dassigner_currentProjectId (storage w') = Some i \<and>
              (i \<in> proj_id ` set (projects w') \<or>
               (i = newProjectId now \<and> history (st w') = [] \<and> projects w' = [])))"
proof -
  define ps where "ps = filter (\<lambda>p. proj_id p \<noteq> pid) (projects w)"
  define w1 where "w1 = w\<lparr>projects := ps, storage := (storage w)\<lparr>dassigner_projects := Stored ps\<rparr>\<rparr>"
  define toast where "toast = addToast now ''Design deleted successfully.'' Success"
  have pid_ps: "pid \<notin> proj_id ` set ps" by (auto simp: ps_def)
  show ?thesis
  proof (cases "mostRecentProject ps")
    case None
    then have ps0: "ps = []" by (simp add: mostRecentProject_None)
    let ?wn = "dispatch now w1 (NEW_PROJECT (newProjectId now))"
    have st_n: "history (st ?wn) = [] \<and> currentProjectId (st ?wn) = Some (newProjectId now)"
      using dispatch_frame [of now w1] by (simp add: initialState_def)
    have pn: "projects ?wn = []"
      using dispatch_frame [of now w1 "NEW_PROJECT (newProjectId now)"] ps0
      by (simp add: w1_def currentProjectData_empty initialState_def)
    have "w' = dispatch now (handleNewProject now w1) toast"
      using cur None by (simp add: w' handleDeleteProject_def ps_def w1_def toast_def Let_def)
    then show ?thesis using st_n pn
      by (simp add: handleNewProject_def setCurrentProjectId_def toast_def addToast_def dispatch_toast)
  next
    case (Some p)
    then have p_in: "p \<in> set ps" by (simp add: mostRecentProject_spec)
    then have pid_p: "proj_id p \<noteq> pid" by (auto simp: ps_def)
    let ?wt = "setCurrentProjectId (proj_id p) (dispatch now w1 toast)"
    have w'_eq: "w' = dispatch now ?wt (LOAD_PROJECT p)"
      using cur Some by (simp add: w' handleDeleteProject_def ps_def w1_def toast_def Let_def)
    have wt: "projects ?wt = ps \<and> dassigner_currentProjectId (storage ?wt) = Some (proj_id p)"
      by (simp add: toast_def addToast_def dispatch_toast setCurrentProjectId_def w1_def)
    have "pid \<notin> proj_id ` set (projects w')"
      using dispatch_frame [of now ?wt "LOAD_PROJECT p"] wt pid_ps pid_p w'_eq
      by (auto simp: currentProjectData_def split: option.splits if_splits)
    moreover have "currentProjectId (st w') = Some (proj_id p) \<and>
                   dassigner_currentProjectId (storage w') = Some (proj_id p) \<and>
                   proj_id p \<in> proj_id ` set (projects w')"
      using dispatch_frame [of now ?wt "LOAD_PROJECT p"] wt p_in w'_eq by auto
    ultimately show ?thesis by blast
  qed
qed

lemma initApp_active_project_aux:
  assumes ok: "\<not> snd (snd (restoreApiKey atob (gemini_api_key ls)))"
    and w: "w = initApp atob now ls"
  shows "\<exists>i. currentProjectId (st w) = Some i \<and>
             (i \<in> proj_id ` set (projects w) \<or>
              (projects w = [] \<and> history (st w) = [] \<and> dassigner_currentProjectId (storage w) = Some i))"
proof -
  obtain acts client where r: "restoreApiKey atob (gemini_api_key ls) = (acts, client, False)"
    using ok by (cases "restoreApiKey atob (gemini_api_key ls)") auto
  obtain ps ls1 where m: "migrateLegacy now ls (projectsFromStorage ls) = (ps, ls1)"
    by (cases "migrateLegacy now ls (projectsFromStorage ls)")
  define w0 where "w0 = dispatchAll now ((initialWorld ls)\<lparr>ai := client\<rparr>) acts"
  define w1 where "w1 = w0\<lparr>projects := ps, storage := ls1\<rparr>"
  have frame0: "saveDeps (st w0) = saveDeps initialState"
    using dispatchAll_api_keys [of acts now "(initialWorld ls)\<lparr>ai := client\<rparr>"]
      restoreApiKey_actions [of atob "gemini_api_key ls"] r
    by (simp add: w0_def initialWorld_def)
  have w_eq: "w = (case resolveInitialProject (dassigner_currentProjectId ls1) ps of
                     Some p \<Rightarrow> dispatch now w1 (LOAD_PROJECT p)
                   | None \<Rightarrow> setCurrentProjectId (newProjectId now)
                               (dispatch now w1 (NEW_PROJECT (newProjectId now))))"
    unfolding w w1_def w0_def initApp_def by (simp add: r m Let_def)
  show ?thesis
  proof (cases "resolveInitialProject (dassigner_currentProjectId ls1) ps")
    case None
    then have ps0: "ps = []" by (rule resolveInitialProject_None)
    from frame0 have "history (st w0) = [] \<and> chatTitle (st w0) = defaultChatTitle"
      by (simp add: saveDeps_def initialState_def)
    then have "projects (dispatch now w1 (NEW_PROJECT (newProjectId now))) = []"
      using dispatch_frame [of now w1 "NEW_PROJECT (newProjectId now)"] ps0
      by (simp add: w1_def currentProjectData_empty initialState_def)
    with None w_eq show ?thesis
      using dispatch_frame [of now w1 "NEW_PROJECT (newProjectId now)"]
      by (simp add: setCurrentProjectId_def initialState_def)
  next
    case (Some p)
    then have "p \<in> set ps" by (rule resolveInitialProject_in)
    with Some w_eq show ?thesis
      using dispatch_frame [of now w1 "LOAD_PROJECT p"] by (auto simp: w1_def)
  qed
qed

lemma initApp_exStorage:
  "projects (initApp (\<lambda>_. None) 20 exStorage) = [exProject ''p1'' 20, exProject ''p2'' 9] \<and>
   currentProjectId (st (initApp (\<lambda>_. None) 20 exStorage)) = Some ''p1''"
  by (simp add: initApp_def restoreApiKey_def exStorage_def initialWorld_def migrateLegacy_def
                projectsFromStorage_def resolveInitialProject_def dispatch_def saveDeps_def
                saveEffect_def currentProjectData_def upsertProject_def exProject_def initialState_def
                defaultChatTitle_def Let_def)

subsection \<open>Properties of persistence\<close>

text \<open>
  C12. Upserting a project into the list makes a lookup by its id return it, leaves the
  lookup of every other id unchanged, and keeps the ids of the list pairwise distinct.
\<close>

theorem upsert_lookup:
  "List.find (\<lambda>q. proj_id q = i) (upsertProject p ps) =
     (if i = proj_id p then Some p else List.find (\<lambda>q. proj_id q = i) ps) \<and>
   (distinct (map proj_id ps) \<longrightarrow> distinct (map proj_id (upsertProject p ps)))"
proof (intro conjI impI)
  show "List.find (\<lambda>q. proj_id q = i) (upsertProject p ps) =
          (if i = proj_id p then Some p else List.find (\<lambda>q. proj_id q = i) ps)"
    by (rule find_upsertProject)
next
  assume "distinct (map proj_id ps)"
  then show "distinct (map proj_id (upsertProject p ps))"
    by (auto simp: upsertProject_cases replaceFirst_ids)
qed

theorem upsert_lookup_witness:
  "List.find (\<lambda>q. proj_id q = ''p2'') (upsertProject (exProject ''p2'' 7) [exProject ''p1'' 5, exProject ''p2'' 9])
     = Some (exProject ''p2'' 7) \<and>
   distinct (map proj_id [exProject ''p1'' 5, exProject ''p2'' 9]) \<and>
   distinct (map proj_id (upsertProject (exProject ''p2'' 7) [exProject ''p1'' 5, exProject ''p2'' 9]))"
  using upsert_lookup [of "''p2''" "exProject ''p2'' 7" "[exProject ''p1'' 5, exProject ''p2'' 9]"]
  by (simp add: exProject_def)

text \<open>
  C13. Saving a session and loading the saved project restores the session's persisted
  fields (project id, history, title, active design, component mode, conversion cache),
  whatever state it is loaded into.
\<close>

theorem save_load_roundtrip:
  "currentProjectData now s = Some p \<Longrightarrow> saveDeps (appReducer t s' (LOAD_PROJECT p)) = saveDeps s"
  by (auto simp: currentProjectData_def saveDeps_def split: option.splits if_splits)

theorem save_load_roundtrip_witness:
  "currentProjectData 3 (appReducer 1 (initialState\<lparr>currentProjectId := Some ''p1''\<rparr>)
       (GENERATION_SUCCESS \<lparr>htmlCode = ''<p>''\<rparr> ''a''))
     = Some (the (currentProjectData 3 (appReducer 1 (initialState\<lparr>currentProjectId := Some ''p1''\<rparr>)
       (GENERATION_SUCCESS \<lparr>htmlCode = ''<p>''\<rparr> ''a'')))) \<and>
   saveDeps (appReducer 4 initialState (LOAD_PROJECT (the (currentProjectData 3
       (appReducer 1 (initialState\<lparr>currentProjectId := Some ''p1''\<rparr>) (GENERATION_SUCCESS \<lparr>htmlCode = ''<p>''\<rparr> ''a'')))))) =
   saveDeps (appReducer 1 (initialState\<lparr>currentProjectId := Some ''p1''\<rparr>) (GENERATION_SUCCESS \<lparr>htmlCode = ''<p>''\<rparr> ''a''))"
  using save_load_roundtrip [of 3
      "appReducer 1 (initialState\<lparr>currentProjectId := Some ''p1''\<rparr>) (GENERATION_SUCCESS \<lparr>htmlCode = ''<p>''\<rparr> ''a'')"
      "the (currentProjectData 3 (appReducer 1 (initialState\<lparr>currentProjectId := Some ''p1''\<rparr>) (GENERATION_SUCCESS \<lparr>htmlCode = ''<p>''\<rparr> ''a'')))"
      4 initialState]
  by (simp add: currentProjectData_def initialState_def defaultChatTitle_def titleFromPrompt_def)

text \<open>
  C14. Opening a saved project from another project rewrites its entry in the list with
  the current time as \<open>lastModified\<close>, although nothing of it changed.
\<close>

theorem load_refreshes_lastModified:
  "List.find (\<lambda>p. proj_id p = pid) (projects w) = Some p \<Longrightarrow> currentProjectId (st w) \<noteq> Some pid \<Longrightarrow>
   pid \<noteq> [] \<Longrightarrow> proj_history p \<noteq> [] \<Longrightarrow>
   List.find (\<lambda>q. proj_id q = pid) (projects (handleLoadProject now pid w)) = Some (p\<lparr>lastModified := now\<rparr>)"
proof -
  assume f: "List.find (\<lambda>p. proj_id p = pid) (projects w) = Some p"
    and c: "currentProjectId (st w) \<noteq> Some pid" and "pid \<noteq> []" and "proj_history p \<noteq> []"
  from f have id: "proj_id p = pid" by (auto dest: find_Some_in_set)
  with \<open>pid \<noteq> []\<close> \<open>proj_history p \<noteq> []\<close>
  have "currentProjectData now (appReducer now (st w) (LOAD_PROJECT p)) = Some (p\<lparr>lastModified := now\<rparr>)"
    by (intro load_currentProjectData) simp_all
  moreover from c id have "saveDeps (appReducer now (st w) (LOAD_PROJECT p)) \<noteq> saveDeps (st w)"
    by (auto simp: saveDeps_def)
  ultimately show ?thesis using f id
    by (simp add: handleLoadProject_def dispatch_def saveEffect_def setCurrentProjectId_def
                  find_upsertProject Let_def)
qed

theorem load_refreshes_lastModified_witness:
  "List.find (\<lambda>p. proj_id p = ''p2'') (projects (initApp (\<lambda>_. None) 20 exStorage)) = Some (exProject ''p2'' 9) \<and>
   currentProjectId (st (initApp (\<lambda>_. None) 20 exStorage)) \<noteq> Some ''p2'' \<and>
   ''p2'' \<noteq> [] \<and> proj_history (exProject ''p2'' 9) \<noteq> [] \<and>
   List.find (\<lambda>q. proj_id q = ''p2'') (projects (handleLoadProject 30 ''p2'' (initApp (\<lambda>_. None) 20 exStorage)))
     = Some (exProject ''p2'' 30)"
proof -
  from initApp_exStorage show ?thesis
    using load_refreshes_lastModified [of "''p2''" "initApp (\<lambda>_. None) 20 exStorage" "exProject ''p2'' 9" 30]
    by (simp add: exProject_def)
qed

text \<open>
  C15. Deleting the active project removes it from the list, and leaves an active project
  whose id the storage pointer records: the most recent remaining project, or, when none
  remains, a new empty project.
\<close>

theorem delete_active_project:
  "currentProjectId (st w) = Some pid \<Longrightarrow>
   pid \<notin> proj_id ` set (projects (handleDeleteProject now pid w)) \<and>
   (\<exists>i. currentProjectId (st (handleDeleteProject now pid w)) = Some i \<and>
        dassigner_currentProjectId (storage (handleDeleteProject now pid w)) = Some i \<and>
        (i \<in> proj_id ` set (projects (handleDeleteProject now pid w)) \<or>
         (i = newProjectId now \<and> history (st (handleDeleteProject now pid w)) = [] \<and>
          projects (handleDeleteProject now pid w) = [])))"
  by (rule delete_active_project_aux) simp_all

theorem delete_active_project_witness:
  "currentProjectId (st (initApp (\<lambda>_. None) 20 exStorage)) = Some ''p1'' \<and>
   ''p1'' \<notin> proj_id ` set (projects (handleDeleteProject 30 ''p1'' (initApp (\<lambda>_. None) 20 exStorage)))"
proof -
  from initApp_exStorage have "currentProjectId (st (initApp (\<lambda>_. None) 20 exStorage)) = Some ''p1''"
    by simp
  with delete_active_project [of "initApp (\<lambda>_. None) 20 exStorage" "''p1''" 30] show ?thesis
    by simp
qed

text \<open>
  C16. Legacy migration is idempotent: once it has run, the legacy key is gone and a second
  run leaves the project list and the storage as they are.
\<close>

theorem migrate_idempotent:
  "migrateLegacy t2 (snd (migrateLegacy t1 ls ps)) qs = (qs, snd (migrateLegacy t1 ls ps))"
  by (simp add: migrateLegacy_def split: stored.splits)

text \<open>
  C17. The project chosen at start-up is in the list, and it is the last used project when
  that one is still there; otherwise it is a project with the latest \<open>lastModified\<close>.
\<close>

theorem resolveInitialProject_spec:
  "resolveInitialProject lastId ps = Some p \<Longrightarrow>
   p \<in> set ps \<and>
   (Some (proj_id p) = lastId \<or>
    ((\<forall>q\<in>set ps. Some (proj_id q) \<noteq> lastId) \<and> (\<forall>q\<in>set ps. lastModified q \<le> lastModified p)))"
  by (auto simp: resolveInitialProject_def find_None_iff split: option.splits if_splits
           dest: find_Some_in_set mostRecentProject_spec)

theorem resolveInitialProject_spec_witness:
  "resolveInitialProject (Some ''gone'') [exProject ''p1'' 5, exProject ''p2'' 9] = Some (exProject ''p2'' 9) \<and>
   lastModified (exProject ''p1'' 5) \<le> lastModified (exProject ''p2'' 9)"
proof -
  have r: "resolveInitialProject (Some ''gone'') [exProject ''p1'' 5, exProject ''p2'' 9] = Some (exProject ''p2'' 9)"
    by (simp add: resolveInitialProject_def mostRecentProject_def exProject_def)
  from resolveInitialProject_spec [OF r] r show ?thesis by (simp add: exProject_def)
qed

text \<open>
  C18. Unless restoring the credential throws, start-up always leaves an active project:
  one of the project list, or, when the list is empty, a new empty project whose id the
  storage pointer records.
\<close>

theorem initApp_active_project:
  "\<not> snd (snd (restoreApiKey atob (gemini_api_key ls))) \<Longrightarrow>
   \<exists>i. currentProjectId (st (initApp atob now ls)) = Some i \<and>
       (i \<in> proj_id ` set (projects (initApp atob now ls)) \<or>
        (projects (initApp atob now ls) = [] \<and> history (st (initApp atob now ls)) = [] \<and>
         dassigner_currentProjectId (storage (initApp atob now ls)) = Some i))"
  by (rule initApp_active_project_aux) simp_all

theorem initApp_active_project_witness:
  "\<not> snd (snd (restoreApiKey (\<lambda>_. None) (gemini_api_key exStorage))) \<and>
   (\<exists>i. currentProjectId (st (initApp (\<lambda>_. None) 20 exStorage)) = Some i)"
proof -
  have "\<not> snd (snd (restoreApiKey (\<lambda>_. None) (gemini_api_key exStorage)))"
    by (simp add: restoreApiKey_def exStorage_def)
  with initApp_active_project [of "\<lambda>_. None" exStorage 20] show ?thesis by blast
qed

lemma pickLatest_sort:
  "pickLatest ps = (case sort_key (\<lambda>p. - int (lastModified p)) ps of [] \<Rightarrow> None | p # _ \<Rightarrow> Some p)"
proof (induction ps)
  case (Cons p ps)
  show ?case
  proof (cases "sort_key (\<lambda>p. - int (lastModified p)) ps")
    case Nil
    then have "ps = []" by (metis length_0_conv length_sort)
    then show ?thesis by simp
  next
    case (Cons q qs)
    with Cons.IH show ?thesis by auto
  qed
qed simp

text \<open>
  C8. Sorting the whole project list by \<open>lastModified\<close> (descending, stable) and taking
  the head, as \<open>handleDeleteProject\<close> and start-up do, equals a single scan that keeps the
  earliest of the latest projects.
\<close>

theorem mostRecentProject_linear_scan: "mostRecentProject ps = pickLatest ps"
  by (simp add: mostRecentProject_def pickLatest_sort)

end
