(* ===== verification/Orchestrator.thy ===== *)
theory Orchestrator
  imports Repository
begin

text \<open>
  The generation orchestrator of \<^verbatim>\<open>src/App.tsx\<close>: \<open>handleSaveApiKey\<close>,
  \<open>handleSendMessage\<close>, \<open>handleEnhancePrompt\<close>, \<open>handleConvertCode\<close> and
  \<open>handleGenerateFromNewProject\<close>. An async handler runs synchronously up to its first
  \<open>await\<close>; what it does after the awaited promise settles is a \<open>Task\<close> that holds the
  values the continuation reads from the handler's closure (the prompt, the captured
  component mode and design, the client captured when the service function was called).
  \<open>resume\<close> runs a task on the outcome of its promise, up to the next \<open>await\<close> or to the
  end. \<open>Sys\<close> pairs the provider's \<open>World\<close> with the list of pending tasks, and
  \<open>sysStep\<close> applies one event: a handler invoked by the user interface, an action a
  component dispatches directly, or the settlement of a pending promise. Any interleaving
  of user events and settlements is a list of events, so the races the source leaves
  open are runs of \<open>sysRun\<close>.
\<close>

datatype Task =
    SendAwaitChat string bool "DesignOutput option" "string option"
  | SendAwaitReply string string
  | NewAwaitChat string "string option"
  | NewAwaitReply string
  | ConvertAwait string string "string option"

text \<open>The outcome of the awaited promise: \<open>client.chats.create\<close>, or an SDK request.\<close>

datatype Outcome = Created "string + Chat" | Replied Reply

subsection \<open>Synchronous handlers and the parts before the first \<open>await\<close>\<close>

definition removeApiKey :: "World \<Rightarrow> World" where
  "removeApiKey w = w\<lparr>storage := (storage w)\<lparr>gemini_api_key := None\<rparr>\<rparr>"

text \<open>
  \<open>handleSaveApiKey(key)\<close>: \<open>btoa\<close> is a parameter (\<open>Inl\<close> with the message of the
  exception it throws). A failed \<open>initializeAiClient\<close> has already set \<open>ai\<close> to \<open>null\<close>;
  a throwing \<open>btoa\<close> leaves the new client in place.
\<close>

definition handleSaveApiKey ::
  "nat \<Rightarrow> (string \<Rightarrow> string + string) \<Rightarrow> string option \<Rightarrow> World \<Rightarrow> World" where
  "handleSaveApiKey now btoa key w =
     (if \<not> js_truthy key then
        dispatchAll now (removeApiKey (dispatch now w (SET_API_KEY None)))
          [SET_CHAT_SESSION None, addToast now ''API Key cleared.'' Success]
      else
        (let k = the key in
         case initializeAiClient k of
           Inl e \<Rightarrow>
             dispatch now (removeApiKey (dispatch now (w\<lparr>ai := None\<rparr>) (SET_API_KEY None)))
               (addToast now (errorMessage e) Error)
         | Inr c \<Rightarrow>
             (let w1 = dispatch now (w\<lparr>ai := Some c\<rparr>) (SET_API_KEY (Some k))
              in case btoa k of
                   Inl m \<Rightarrow>
                     dispatch now (removeApiKey (dispatch now w1 (SET_API_KEY None))) (addToast now m Error)
                 | Inr enc \<Rightarrow>
                     dispatchAll now (w1\<lparr>storage := (storage w1)\<lparr>gemini_api_key := Some enc\<rparr>\<rparr>)
                       [SET_IS_SETTINGS_OPEN False, addToast now ''API Key saved successfully!'' Success])))"

text \<open>The precondition branch shared by the generation handlers.\<close>

definition credentialMissing :: "nat \<Rightarrow> World \<Rightarrow> World" where
  "credentialMissing now w =
     dispatchAll now w [addToast now ''API Key is not set.'' Error, SET_IS_SETTINGS_OPEN True]"

text \<open>The catch block of the generation handlers.\<close>

definition generationFailed :: "nat \<Rightarrow> ServiceError \<Rightarrow> World \<Rightarrow> World" where
  "generationFailed now e w = dispatchAll now w [addToast now (errorMessage e) Error, GENERATION_FAILURE]"

text \<open>The component-mode template of \<open>handleSendMessage\<close>.\<close>

definition componentPrompt :: "string \<Rightarrow> string \<Rightarrow> string" where
  "componentPrompt p html =
     ''Based on the previous HTML, now add the following component or change: '' @ p @
     ''. The previous HTML was:'' @ nl @ nl @ ''```html'' @ nl @ html @ nl @ ''```''"

definition finalPrompt :: "bool \<Rightarrow> DesignOutput option \<Rightarrow> string \<Rightarrow> string" where
  "finalPrompt cm d p =
     (case d of
        Some x \<Rightarrow> (if cm \<and> htmlCode x \<noteq> [] then componentPrompt p (htmlCode x) else p)
      | None \<Rightarrow> p)"

definition handleSendMessage :: "nat \<Rightarrow> string \<Rightarrow> World \<Rightarrow> World \<times> Task option" where
  "handleSendMessage now p w =
     (if \<not> js_truthy (apiKey (st w)) then (credentialMissing now w, None)
      else
        (let s = st w; w1 = dispatch now w START_GENERATION
         in case chatSession s of
              None \<Rightarrow> (w1, Some (SendAwaitChat p (isComponentMode s) (activeDesign s) (ai w1)))
            | Some _ \<Rightarrow> (w1, Some (SendAwaitReply p (finalPrompt (isComponentMode s) (activeDesign s) p)))))"

definition handleGenerateFromNewProject :: "nat \<Rightarrow> string \<Rightarrow> World \<Rightarrow> World \<times> Task option" where
  "handleGenerateFromNewProject now p w =
     (if \<not> js_truthy (apiKey (st w)) then (credentialMissing now w, None)
      else
        (let i = newProjectId now;
             w1 = setCurrentProjectId i (dispatch now w (START_NEW_DESIGN_FROM_PROMPT i))
         in (w1, Some (NewAwaitChat p (ai w1)))))"

text \<open>
  \<open>handleEnhancePrompt(prompt)\<close> changes no state after its \<open>await\<close>: the result, or
  the message of the error it rejects with, goes back to the caller.
\<close>

definition handleEnhancePrompt :: "nat \<Rightarrow> string \<Rightarrow> Reply \<Rightarrow> World \<Rightarrow> World \<times> (string + string)" where
  "handleEnhancePrompt now p reply w =
     (if \<not> js_truthy (apiKey (st w))
      then (dispatch now w (addToast now ''API Key is not set.'' Error), Inl ''API Key not set.'')
      else (w, case enhancePrompt (ai w) p reply of Inl e \<Rightarrow> Inl (errorMessage e) | Inr t \<Rightarrow> Inr t))"

definition handleConvertCode :: "nat \<Rightarrow> string \<Rightarrow> World \<Rightarrow> World \<times> Task option" where
  "handleConvertCode now fw w =
     (case activeDesign (st w) of
        None \<Rightarrow> (w, None)
      | Some d \<Rightarrow>
          (if htmlCode d = [] then (w, None)
           else (dispatch now w START_CODE_CONVERSION, Some (ConvertAwait fw (htmlCode d) (ai w)))))"

subsection \<open>Continuations after an \<open>await\<close>\<close>

text \<open>A task resumed with an outcome of the other kind keeps waiting.\<close>

fun resume :: "nat \<Rightarrow> Task \<Rightarrow> Outcome \<Rightarrow> World \<Rightarrow> World \<times> Task option" where
  "resume now (SendAwaitChat p cm d client) (Created r) w =
     (case createChatSession client r of
        Inl e \<Rightarrow> (generationFailed now e w, None)
      | Inr c \<Rightarrow> (dispatch now w (SET_CHAT_SESSION (Some c)), Some (SendAwaitReply p (finalPrompt cm d p))))"
| "resume now (SendAwaitReply p fp) (Replied r) w =
     (case sendMessageToChat fp r of
        Inl e \<Rightarrow> (generationFailed now e w, None)
      | Inr h \<Rightarrow> (dispatch now w (GENERATION_SUCCESS \<lparr>htmlCode = h\<rparr> p), None))"
| "resume now (NewAwaitChat p client) (Created r) w =
     (case createChatSession client r of
        Inl e \<Rightarrow> (generationFailed now e w, None)
      | Inr c \<Rightarrow> (dispatch now w (SET_CHAT_SESSION (Some c)), Some (NewAwaitReply p)))"
| "resume now (NewAwaitReply p) (Replied r) w =
     (case sendMessageToChat p r of
        Inl e \<Rightarrow> (generationFailed now e w, None)
      | Inr h \<Rightarrow> (dispatch now w (GENERATION_SUCCESS \<lparr>htmlCode = h\<rparr> p), None))"
| "resume now (ConvertAwait fw html client) (Replied r) w =
     (case convertHtmlToFramework client html fw r of
        Inl e \<Rightarrow>
          (dispatchAll now w [CODE_CONVERSION_FAILURE fw (errorMessage e),
                             addToast now (''Failed to convert to '' @ fw @ ''.'') Error], None)
      | Inr code \<Rightarrow> (dispatch now w (CODE_CONVERSION_SUCCESS fw code), None))"
| "resume now t oc w = (w, Some t)"

subsection \<open>The system of provider and pending promises\<close>

record Sys =
  world :: World
  pending :: "Task list"

text \<open>
  The actions components dispatch directly: the side panel and settings toggles
  (\<^verbatim>\<open>MainContent.tsx\<close>, \<^verbatim>\<open>Sidebar.tsx\<close>, \<^verbatim>\<open>SettingsModal.tsx\<close>), the title
  edit, version restore and component-mode switch (\<^verbatim>\<open>Sidebar.tsx\<close>) and the toast
  dismissal (\<^verbatim>\<open>Toast.tsx\<close>).
\<close>

fun ui_action :: "AppAction \<Rightarrow> bool" where
  "ui_action (SET_IS_SIDEBAR_OPEN b) = True"
| "ui_action (SET_IS_SETTINGS_OPEN b) = True"
| "ui_action (SET_CHAT_TITLE t) = True"
| "ui_action (RESTORE_VERSION i) = True"
| "ui_action (SET_IS_COMPONENT_MODE b) = True"
| "ui_action (REMOVE_TOAST i) = True"
| "ui_action _ = False"

datatype Event =
    SendMessage string
  | GenerateFromNewProject string
  | ConvertCode string
  | SaveApiKey "string option"
  | NewProjectEv
  | LoadProject string
  | DeleteProject string
  | LoadExample ExampleItem
  | Ui AppAction
  | Settle nat Outcome

definition spawn :: "Sys \<Rightarrow> World \<times> Task option \<Rightarrow> Sys" where
  "spawn S r = \<lparr>world = fst r, pending = pending S @ (case snd r of Some t \<Rightarrow> [t] | None \<Rightarrow> [])\<rparr>"

definition settle :: "nat \<Rightarrow> nat \<Rightarrow> Outcome \<Rightarrow> Sys \<Rightarrow> Sys" where
  "settle now i oc S =
     (if i < length (pending S) then
        (let (w', t') = resume now (pending S ! i) oc (world S)
         in \<lparr>world = w',
             pending = take i (pending S) @ (case t' of Some t \<Rightarrow> [t] | None \<Rightarrow> []) @
                       drop (Suc i) (pending S)\<rparr>)
      else S)"

definition sysStep :: "(string \<Rightarrow> string + string) \<Rightarrow> nat \<Rightarrow> Sys \<Rightarrow> Event \<Rightarrow> Sys" where
  "sysStep btoa now S e =
     (let w = world S in
      case e of
        SendMessage p \<Rightarrow> spawn S (handleSendMessage now p w)
      | GenerateFromNewProject p \<Rightarrow> spawn S (handleGenerateFromNewProject now p w)
      | ConvertCode fw \<Rightarrow> spawn S (handleConvertCode now fw w)
      | SaveApiKey k \<Rightarrow> S\<lparr>world := handleSaveApiKey now btoa k w\<rparr>
      | NewProjectEv \<Rightarrow> S\<lparr>world := handleNewProject now w\<rparr>
      | LoadProject i \<Rightarrow> S\<lparr>world := handleLoadProject now i w\<rparr>
      | DeleteProject i \<Rightarrow> S\<lparr>world := handleDeleteProject now i w\<rparr>
      | LoadExample ex \<Rightarrow> S\<lparr>world := handleLoadExample now ex w\<rparr>
      | Ui a \<Rightarrow> (if ui_action a then S\<lparr>world := dispatch now w a\<rparr> else S)
      | Settle i oc \<Rightarrow> settle now i oc S)"

fun sysRun :: "(string \<Rightarrow> string + string) \<Rightarrow> Sys \<Rightarrow> (nat \<times> Event) list \<Rightarrow> Sys" where
  "sysRun btoa S [] = S"
| "sysRun btoa S ((now, e) # es) = sysRun btoa (sysStep btoa now S e) es"

subsection \<open>Example worlds for the witnesses\<close>

definition exSession :: World where
  "exSession =
     \<lparr>st = initialState\<lparr>apiKey := Some ''k'', chatSession := Some 0, currentProjectId := Some ''p1'',
                         history := proj_history (exProject ''p1'' 5),
                         activeDesign := proj_activeDesign (exProject ''p1'' 5), chatTitle := ''T''\<rparr>,
      projects = [exProject ''p1'' 5, exProject ''p2'' 9], storage = exStorage, ai = Some ''k''\<rparr>"

definition exTwoVersions :: World where
  "exTwoVersions =
     exSession\<lparr>st := (st exSession)\<lparr>
        history := [\<lparr>item_id = ''1'', prompt = ''a'', designOutput = \<lparr>htmlCode = ''<p>''\<rparr>\<rparr>,
                    \<lparr>item_id = ''2'', prompt = ''b'', designOutput = \<lparr>htmlCode = ''<h1>''\<rparr>\<rparr>],
        activeDesign := Some \<lparr>htmlCode = ''<h1>''\<rparr>\<rparr>\<rparr>"

subsection \<open>Lemmas\<close>

lemma st_dispatchAll: "st (dispatchAll now w as) = foldl (appReducer now) (st w) as"
  by (induction as arbitrary: w) (simp_all add: dispatch_frame)

lemma ai_dispatchAll: "ai (dispatchAll now w as) = ai w"
  by (induction as arbitrary: w) (simp_all add: dispatch_frame)

lemma st_removeApiKey [simp]: "st (removeApiKey w) = st w" "ai (removeApiKey w) = ai w"
  by (simp_all add: removeApiKey_def)

lemma find_dispatch:
  "List.find (\<lambda>q. proj_id q = j) (projects (dispatch now w a)) =
   (if saveDeps (appReducer now (st w) a) \<noteq> saveDeps (st w) \<and>
       currentProjectId (appReducer now (st w) a) = Some j \<and>
       currentProjectData now (appReducer now (st w) a) \<noteq> None
    then currentProjectData now (appReducer now (st w) a)
    else List.find (\<lambda>q. proj_id q = j) (projects w))"
  by (auto simp: dispatch_def saveEffect_def Let_def find_upsertProject dest: currentProjectData_id
           split: option.splits)

lemma sysStep_send:
  "js_truthy (apiKey (st (world S))) \<Longrightarrow>
   sysStep btoa now S (SendMessage p) =
   \<lparr>world = dispatch now (world S) START_GENERATION,
    pending = pending S @
      [case chatSession (st (world S)) of
         None \<Rightarrow> SendAwaitChat p (isComponentMode (st (world S))) (activeDesign (st (world S))) (ai (world S))
       | Some _ \<Rightarrow> SendAwaitReply p (finalPrompt (isComponentMode (st (world S))) (activeDesign (st (world S))) p)]\<rparr>"
  by (simp add: sysStep_def spawn_def handleSendMessage_def Let_def dispatch_frame split: option.split)

subsection \<open>Properties of the orchestrator\<close>

text \<open>
  C26. Without a credential, \<open>handleSendMessage\<close> only reports it: it adds the
  credential-missing notification and opens the settings, leaves the history and the
  loading flag unchanged, and starts no request.
\<close>

theorem send_without_key:
  assumes "\<not> js_truthy (apiKey (st w))" "handleSendMessage now p w = (w', t)"
  shows "t = None \<and> history (st w') = history (st w) \<and> isLoading (st w') = isLoading (st w) \<and>
         isSettingsOpen (st w') \<and>
         toasts (st w') = toasts (st w) @ [\<lparr>toast_id = nat_to_string now, message = ''API Key is not set.'', toast_type = Error\<rparr>]"
  using assms by (auto simp: handleSendMessage_def credentialMissing_def dispatch_frame addToast_def)

theorem send_without_key_witness:
  "let r = handleSendMessage 7 ''x'' (initialWorld exStorage)
   in snd r = None \<and> history (st (fst r)) = history (st (initialWorld exStorage)) \<and>
      isLoading (st (fst r)) = isLoading (st (initialWorld exStorage)) \<and> isSettingsOpen (st (fst r)) \<and>
      toasts (st (fst r)) = toasts (st (initialWorld exStorage)) @
        [\<lparr>toast_id = nat_to_string 7, message = ''API Key is not set.'', toast_type = Error\<rparr>]"
  unfolding Let_def
  by (rule send_without_key) (simp_all add: initialWorld_def initialState_def js_truthy_def)

text \<open>
  C27. In component mode with an active design \<open>D\<close>, whether a conversation exists or
  is created first (as after opening a project), the message sent is the fixed template
  embedding the user's prompt and \<open>D\<close>'s markup, and on success the history item records
  the original prompt, not the composite.
\<close>

theorem component_mode_prompt:
  assumes key: "js_truthy (apiKey (st w))" and cm: "isComponentMode (st w)" and ad: "activeDesign (st w) = Some D"
    and hne: "htmlCode D \<noteq> []" and cc: "createChatSession (ai w) cr = Inr c"
    and sm: "sendMessageToChat (componentPrompt p (htmlCode D)) r = Inr h"
    and S1: "S1 = sysStep btoa t1 \<lparr>world = w, pending = []\<rparr> (SendMessage p)"
    and S2: "S2 = (if chatSession (st w) = None then sysStep btoa t2 S1 (Settle 0 (Created cr)) else S1)"
  shows "pending S2 = [SendAwaitReply p (componentPrompt p (htmlCode D))] \<and>
         map prompt (history (st (world (sysStep btoa t3 S2 (Settle 0 (Replied r)))))) =
           map prompt (history (st w)) @ [p]"
proof -
  have fp: "finalPrompt (isComponentMode (st w)) (activeDesign (st w)) p = componentPrompt p (htmlCode D)"
    using cm ad hne by (simp add: finalPrompt_def)
  define w1 where "w1 = dispatch t1 w START_GENERATION"
  have a1: "ai w1 = ai w" and h1: "history (st w1) = history (st w)" by (simp_all add: w1_def dispatch_frame)
  have "history (st (world S2)) = history (st w) \<and>
        pending S2 = [SendAwaitReply p (componentPrompt p (htmlCode D))]"
  proof (cases "chatSession (st w)")
    case None
    with S1 have "S1 = \<lparr>world = w1, pending = [SendAwaitChat p (isComponentMode (st w)) (activeDesign (st w)) (ai w)]\<rparr>"
      using key by (simp add: sysStep_send w1_def)
    with None S2 cc a1 h1 fp show ?thesis by (simp add: sysStep_def settle_def dispatch_frame)
  next
    case (Some ch)
    with S1 S2 fp h1 key show ?thesis by (simp add: sysStep_send w1_def [symmetric])
  qed
  then have hist: "history (st (world S2)) = history (st w)" and
    pend: "pending S2 = [SendAwaitReply p (componentPrompt p (htmlCode D))]" by simp_all
  show ?thesis using sm
    by (simp add: pend hist sysStep_def settle_def dispatch_frame newHistoryItem_def)
qed

theorem component_mode_prompt_witness:
  "let w = exSession\<lparr>st := (st exSession)\<lparr>isComponentMode := True, chatSession := None\<rparr>\<rparr>;
       S1 = sysStep (\<lambda>s. Inr s) 10 \<lparr>world = w, pending = []\<rparr> (SendMessage ''add a footer'');
       S2 = (if chatSession (st w) = None then sysStep (\<lambda>s. Inr s) 11 S1 (Settle 0 (Created (Inr 1))) else S1)
   in pending S2 = [SendAwaitReply ''add a footer'' (componentPrompt ''add a footer'' ''<p>'')] \<and>
      map prompt (history (st (world (sysStep (\<lambda>s. Inr s) 12 S2 (Settle 0 (Replied (Reply ''<footer/>''))))))) =
        map prompt (history (st w)) @ [''add a footer'']"
proof -
  have "sendMessageToChat (componentPrompt ''add a footer'' ''<p>'') (Reply ''<footer/>'') = Inr ''<footer/>''"
    by code_simp
  then have sm: "sendMessageToChat (componentPrompt ''add a footer'' (htmlCode \<lparr>htmlCode = ''<p>''\<rparr>)) (Reply ''<footer/>'') =
                 Inr ''<footer/>''" by simp
  define w where "w = exSession\<lparr>st := (st exSession)\<lparr>isComponentMode := True, chatSession := None\<rparr>\<rparr>"
  have key: "js_truthy (apiKey (st w))" and cm: "isComponentMode (st w)"
    and ad: "activeDesign (st w) = Some \<lparr>htmlCode = ''<p>''\<rparr>" and hne: "htmlCode \<lparr>htmlCode = ''<p>''\<rparr> \<noteq> []"
    and cc: "createChatSession (ai w) (Inr 1) = Inr 1"
    by (simp_all add: w_def exSession_def exProject_def js_truthy_def createChatSession_def getAiClient_def)
  from component_mode_prompt [OF key cm ad hne cc sm refl refl]
  show ?thesis unfolding Let_def w_def by simp
qed

text \<open>
  C28. A generation round that creates the conversation and gets a valid reply commits
  exactly one history item, with the user's prompt and the reply's markup, makes that
  markup the active design, keeps the new conversation and clears the loading flag.
\<close>

theorem send_round_success:
  assumes "js_truthy (apiKey (st w))" "chatSession (st w) = None" "createChatSession (ai w) cr = Inr c"
    "sendMessageToChat (finalPrompt (isComponentMode (st w)) (activeDesign (st w)) p) r = Inr h"
    "S' = sysRun btoa \<lparr>world = w, pending = []\<rparr>
            [(t1, SendMessage p), (t2, Settle 0 (Created cr)), (t3, Settle 0 (Replied r))]"
  shows "pending S' = [] \<and> history (st (world S')) = history (st w) @ [newHistoryItem t3 p \<lparr>htmlCode = h\<rparr>] \<and>
         activeDesign (st (world S')) = Some \<lparr>htmlCode = h\<rparr> \<and> chatSession (st (world S')) = Some c \<and>
         \<not> isLoading (st (world S'))"
  using assms by (simp add: sysStep_def spawn_def settle_def handleSendMessage_def dispatch_frame Let_def)

theorem send_round_success_witness:
  "let w = exSession\<lparr>st := (st exSession)\<lparr>chatSession := None\<rparr>\<rparr>;
       S' = sysRun (\<lambda>s. Inr s) \<lparr>world = w, pending = []\<rparr>
              [(10, SendMessage ''a card''), (11, Settle 0 (Created (Inr 1))),
               (12, Settle 0 (Replied (Reply ''<p>x</p>'')))]
   in pending S' = [] \<and> history (st (world S')) = history (st w) @ [newHistoryItem 12 ''a card'' \<lparr>htmlCode = ''<p>x</p>''\<rparr>] \<and>
      activeDesign (st (world S')) = Some \<lparr>htmlCode = ''<p>x</p>''\<rparr> \<and> chatSession (st (world S')) = Some 1 \<and>
      \<not> isLoading (st (world S'))"
proof -
  have "sendMessageToChat ''a card'' (Reply ''<p>x</p>'') = Inr ''<p>x</p>''" by code_simp
  then show ?thesis unfolding Let_def
    by (intro send_round_success [OF _ _ _ _ refl])
       (simp_all add: exSession_def exProject_def js_truthy_def createChatSession_def getAiClient_def finalPrompt_def initialState_def)
qed

text \<open>
  C29. A generation round whose reply is rejected commits nothing: the history and the
  active design are unchanged, the loading flag is cleared and the service error is
  shown as a notification.
\<close>

theorem send_round_failure:
  assumes "js_truthy (apiKey (st w))" "chatSession (st w) = Some c"
    "sendMessageToChat (finalPrompt (isComponentMode (st w)) (activeDesign (st w)) p) r = Inl e"
    "S' = sysRun btoa \<lparr>world = w, pending = []\<rparr> [(t1, SendMessage p), (t2, Settle 0 (Replied r))]"
  shows "pending S' = [] \<and> history (st (world S')) = history (st w) \<and>
         activeDesign (st (world S')) = activeDesign (st w) \<and> \<not> isLoading (st (world S')) \<and>
         toasts (st (world S')) = toasts (st w) @ [\<lparr>toast_id = nat_to_string t2, message = errorMessage e, toast_type = Error\<rparr>]"
  using assms by (simp add: sysStep_def spawn_def settle_def handleSendMessage_def generationFailed_def
                            dispatch_frame addToast_def Let_def)

theorem send_round_failure_witness:
  "let S' = sysRun (\<lambda>s. Inr s) \<lparr>world = exSession, pending = []\<rparr>
              [(10, SendMessage ''a card''), (11, Settle 0 (Replied (Reply ''sorry'')))]
   in pending S' = [] \<and> history (st (world S')) = history (st exSession) \<and>
      activeDesign (st (world S')) = activeDesign (st exSession) \<and> \<not> isLoading (st (world S')) \<and>
      toasts (st (world S')) = toasts (st exSession) @
        [\<lparr>toast_id = nat_to_string 11,
          message = errorMessage (GeminiServiceError ''Invalid HTML code received from chat. The response did not contain valid HTML.'' chatService),
          toast_type = Error\<rparr>]"
proof -
  have "sendMessageToChat ''a card'' (Reply ''sorry'') =
        Inl (GeminiServiceError ''Invalid HTML code received from chat. The response did not contain valid HTML.'' chatService)"
    by code_simp
  then show ?thesis unfolding Let_def
    by (intro send_round_failure [OF _ _ _ refl])
       (simp_all add: exSession_def exProject_def js_truthy_def finalPrompt_def initialState_def)
qed

text \<open>
  C30. A late result is applied to whatever project is current when it arrives: for any
  generation sent in one project whose reply resolves after the user opened another
  stored project \<open>i\<close>, the reply is appended to \<open>i\<close>'s history and saved into \<open>i\<close>,
  and every other stored project, the one the request was sent from included, is left
  as it was.
\<close>

theorem late_generation_lands_in_other_project:
  assumes key: "js_truthy (apiKey (st w))" and ch: "chatSession (st w) = Some c"
    and P: "List.find (\<lambda>q. proj_id q = i) (projects w) = Some P" and ph: "proj_history P \<noteq> []"
    and ine: "i \<noteq> []" and other: "currentProjectId (st w) \<noteq> Some i"
    and sm: "sendMessageToChat (finalPrompt (isComponentMode (st w)) (activeDesign (st w)) p) r = Inr h"
    and S: "S = sysRun btoa \<lparr>world = w, pending = []\<rparr>
           [(t1, SendMessage p), (t2, LoadProject i), (t3, Settle 0 (Replied r))]"
  shows "currentProjectId (st (world S)) = Some i \<and>
         history (st (world S)) = proj_history P @ [newHistoryItem t3 p \<lparr>htmlCode = h\<rparr>] \<and>
         List.find (\<lambda>q. proj_id q = i) (projects (world S)) =
           Some (P\<lparr>proj_history := proj_history P @ [newHistoryItem t3 p \<lparr>htmlCode = h\<rparr>],
                   proj_activeDesign := Some \<lparr>htmlCode = h\<rparr>, lastModified := t3, proj_convertedCodeCache := []\<rparr>) \<and>
         (\<forall>j. j \<noteq> i \<longrightarrow> List.find (\<lambda>q. proj_id q = j) (projects (world S)) = List.find (\<lambda>q. proj_id q = j) (projects w))"
proof -
  have pid: "proj_id P = i" using find_Some_in_set [OF P] by simp
  define fp where "fp = finalPrompt (isComponentMode (st w)) (activeDesign (st w)) p"
  define w1 where "w1 = dispatch t1 w START_GENERATION"
  define w2 where "w2 = setCurrentProjectId i (dispatch t2 w1 (LOAD_PROJECT P))"
  define w3 where "w3 = dispatch t3 w2 (GENERATION_SUCCESS \<lparr>htmlCode = h\<rparr> p)"
  have f1: "List.find (\<lambda>q. proj_id q = j) (projects w1) = List.find (\<lambda>q. proj_id q = j) (projects w)" for j
    by (simp add: w1_def find_dispatch saveDeps_def)
  have s1: "sysStep btoa t1 \<lparr>world = w, pending = []\<rparr> (SendMessage p) = \<lparr>world = w1, pending = [SendAwaitReply p fp]\<rparr>"
    using ch key by (simp add: sysStep_send w1_def fp_def)
  have s2: "sysStep btoa t2 \<lparr>world = w1, pending = [SendAwaitReply p fp]\<rparr> (LoadProject i) =
            \<lparr>world = w2, pending = [SendAwaitReply p fp]\<rparr>"
    using P f1 [of i] by (simp add: sysStep_def handleLoadProject_def w2_def)
  have s3: "S = \<lparr>world = w3, pending = []\<rparr>"
    using sm by (simp only: S sysRun.simps s1 s2) (simp add: sysStep_def settle_def w3_def fp_def)
  have st3: "st w3 = appReducer t3 (appReducer t2 (appReducer t1 (st w) START_GENERATION) (LOAD_PROJECT P))
                       (GENERATION_SUCCESS \<lparr>htmlCode = h\<rparr> p)"
    by (simp add: w3_def w2_def w1_def setCurrentProjectId_def dispatch_frame)
  have cur2: "currentProjectId (st w2) = Some i"
    using pid by (simp add: w2_def w1_def setCurrentProjectId_def dispatch_frame)
  have f2: "List.find (\<lambda>q. proj_id q = j) (projects w2) = List.find (\<lambda>q. proj_id q = j) (projects w)" if "j \<noteq> i" for j
    using that pid f1 by (simp add: w2_def setCurrentProjectId_def find_dispatch)
  have fi: "List.find (\<lambda>q. proj_id q = i) (projects w3) =
           Some (P\<lparr>proj_history := proj_history P @ [newHistoryItem t3 p \<lparr>htmlCode = h\<rparr>],
                   proj_activeDesign := Some \<lparr>htmlCode = h\<rparr>, lastModified := t3, proj_convertedCodeCache := []\<rparr>)"
    using pid ph ine unfolding w3_def find_dispatch
    by (cases P) (simp add: w2_def w1_def setCurrentProjectId_def dispatch_frame saveDeps_def currentProjectData_def)
  have fj: "List.find (\<lambda>q. proj_id q = j) (projects w3) = List.find (\<lambda>q. proj_id q = j) (projects w)" if "j \<noteq> i" for j
    using that f2 [OF that] cur2 unfolding w3_def find_dispatch by simp
  show ?thesis using s3 st3 pid ph fi fj by simp
qed

theorem late_generation_lands_in_other_project_witness:
  "let S = sysRun (\<lambda>s. Inr s) \<lparr>world = exSession, pending = []\<rparr>
             [(10, SendMessage ''add a footer''), (11, LoadProject ''p2''),
              (12, Settle 0 (Replied (Reply ''<footer>f</footer>'')))]
   in currentProjectId (st (world S)) = Some ''p2'' \<and>
      history (st (world S)) = proj_history (exProject ''p2'' 9) @ [newHistoryItem 12 ''add a footer'' \<lparr>htmlCode = ''<footer>f</footer>''\<rparr>] \<and>
      List.find (\<lambda>q. proj_id q = ''p2'') (projects (world S)) =
        Some ((exProject ''p2'' 9)\<lparr>proj_history := proj_history (exProject ''p2'' 9) @ [newHistoryItem 12 ''add a footer'' \<lparr>htmlCode = ''<footer>f</footer>''\<rparr>],
                proj_activeDesign := Some \<lparr>htmlCode = ''<footer>f</footer>''\<rparr>, lastModified := 12,
                proj_convertedCodeCache := []\<rparr>) \<and>
      List.find (\<lambda>q. proj_id q = ''p1'') (projects (world S)) = List.find (\<lambda>q. proj_id q = ''p1'') (projects exSession)"
proof -
  have "sendMessageToChat ''add a footer'' (Reply ''<footer>f</footer>'') = Inr ''<footer>f</footer>''" by code_simp
  moreover have "finalPrompt (isComponentMode (st exSession)) (activeDesign (st exSession)) ''add a footer'' = ''add a footer''"
    by (simp add: exSession_def exProject_def finalPrompt_def initialState_def)
  ultimately have sm: "sendMessageToChat (finalPrompt (isComponentMode (st exSession)) (activeDesign (st exSession)) ''add a footer'')
                         (Reply ''<footer>f</footer>'') = Inr ''<footer>f</footer>''" by simp
  have key: "js_truthy (apiKey (st exSession))" and ch: "chatSession (st exSession) = Some 0"
    and P: "List.find (\<lambda>q. proj_id q = ''p2'') (projects exSession) = Some (exProject ''p2'' 9)"
    and ph: "proj_history (exProject ''p2'' 9) \<noteq> []" and other: "currentProjectId (st exSession) \<noteq> Some ''p2''"
    by (simp_all add: exSession_def exProject_def js_truthy_def)
  from late_generation_lands_in_other_project [OF key ch P ph _ other sm refl]
  show ?thesis unfolding Let_def by simp
qed

text \<open>
  C31. A conversion that resolves after the user restored another version is cached under
  the restored design: for any active design \<open>D\<close> and restored item, the cache holds
  exactly the code converted from \<open>D\<close>'s markup while the item's design is active.
\<close>

theorem stale_conversion_cached:
  assumes ad: "activeDesign (st w) = Some D" and hne: "htmlCode D \<noteq> []"
    and it: "List.find (\<lambda>it. item_id it = hid) (history (st w)) = Some it"
    and cv: "convertHtmlToFramework (ai w) (htmlCode D) fw r = Inr code"
    and S: "S = sysRun btoa \<lparr>world = w, pending = []\<rparr>
           [(t1, ConvertCode fw), (t2, Ui (RESTORE_VERSION hid)), (t3, Settle 0 (Replied r))]"
  shows "pending S = [] \<and> activeDesign (st (world S)) = Some (designOutput it) \<and>
         convertedCodeCache (st (world S)) = [(fw, code)]"
proof -
  define w1 where "w1 = dispatch t1 w START_CODE_CONVERSION"
  define w2 where "w2 = dispatch t2 w1 (RESTORE_VERSION hid)"
  have S1: "sysStep btoa t1 \<lparr>world = w, pending = []\<rparr> (ConvertCode fw) =
            \<lparr>world = w1, pending = [ConvertAwait fw (htmlCode D) (ai w)]\<rparr>"
    using ad hne by (simp add: sysStep_def spawn_def handleConvertCode_def w1_def)
  have S2: "sysStep btoa t2 \<lparr>world = w1, pending = [ConvertAwait fw (htmlCode D) (ai w)]\<rparr> (Ui (RESTORE_VERSION hid)) =
            \<lparr>world = w2, pending = [ConvertAwait fw (htmlCode D) (ai w)]\<rparr>"
    by (simp add: sysStep_def w2_def)
  have st2: "activeDesign (st w2) = Some (designOutput it) \<and> convertedCodeCache (st w2) = []"
    using it by (simp add: w2_def w1_def dispatch_frame)
  have "S = \<lparr>world = dispatch t3 w2 (CODE_CONVERSION_SUCCESS fw code), pending = []\<rparr>"
    using cv by (simp only: S sysRun.simps S1 S2) (simp add: sysStep_def settle_def)
  then show ?thesis using st2 by (simp add: dispatch_frame)
qed

theorem stale_conversion_cached_witness:
  "let S = sysRun (\<lambda>s. Inr s) \<lparr>world = exTwoVersions, pending = []\<rparr>
             [(10, ConvertCode ''React''), (11, Ui (RESTORE_VERSION ''1'')), (12, Settle 0 (Replied (Reply ''R'')))]
   in pending S = [] \<and> activeDesign (st (world S)) = Some \<lparr>htmlCode = ''<p>''\<rparr> \<and>
      convertedCodeCache (st (world S)) = [(''React'', ''R'')]"
proof -
  have "convertHtmlToFramework (Some ''k'') ''<h1>'' ''React'' (Reply ''R'') = Inr ''R''" by code_simp
  then have cv: "convertHtmlToFramework (ai exTwoVersions) (htmlCode \<lparr>htmlCode = ''<h1>''\<rparr>) ''React'' (Reply ''R'') = Inr ''R''"
    by (simp add: exTwoVersions_def exSession_def)
  have ad: "activeDesign (st exTwoVersions) = Some \<lparr>htmlCode = ''<h1>''\<rparr>"
    and it: "List.find (\<lambda>it. item_id it = ''1'') (history (st exTwoVersions)) =
             Some \<lparr>item_id = ''1'', prompt = ''a'', designOutput = \<lparr>htmlCode = ''<p>''\<rparr>\<rparr>"
    by (simp_all add: exTwoVersions_def)
  from stale_conversion_cached [OF ad _ it cv refl]
  show ?thesis unfolding Let_def by simp
qed

text \<open>
  C32. Clearing the credential does not destroy the service client, and conversion does
  not check the credential: after \<open>handleSaveApiKey(null)\<close> a conversion still runs with
  the old client and its result is cached.
\<close>

theorem cleared_key_still_converts:
  assumes "ai w = Some c" "activeDesign (st w) = Some d" "js_trim (htmlCode d) \<noteq> []"
    "fw = ''React'' \<or> fw = ''Vue''" "js_trim t \<noteq> []"
    "w1 = handleSaveApiKey now btoa None w" "handleConvertCode now fw w1 = (w2, tk)"
  shows "apiKey (st w1) = None \<and> tk = Some (ConvertAwait fw (htmlCode d) (Some c)) \<and>
         map_of (convertedCodeCache (st (fst (resume now (ConvertAwait fw (htmlCode d) (Some c)) (Replied (Reply t)) w2)))) fw
           = Some (js_trim t)"
proof -
  have hne: "htmlCode d \<noteq> []" using assms(3) by (auto simp: js_trim_def)
  have s1: "st w1 = foldl (appReducer now) (appReducer now (st w) (SET_API_KEY None))
             [SET_CHAT_SESSION None, addToast now ''API Key cleared.'' Success]"
    using assms(6) by (simp add: handleSaveApiKey_def js_truthy_def st_dispatchAll dispatch_frame)
  have a1: "ai w1 = Some c" using assms(1,6) by (simp add: handleSaveApiKey_def js_truthy_def ai_dispatchAll dispatch_frame)
  have k1: "apiKey (st w1) = None" and d1: "activeDesign (st w1) = Some d"
    using s1 assms(2) by (simp_all add: addToast_def)
  have tk: "tk = Some (ConvertAwait fw (htmlCode d) (Some c))" and w2: "w2 = dispatch now w1 START_CODE_CONVERSION"
    using assms(7) d1 hne a1 by (simp_all add: handleConvertCode_def)
  have "convertHtmlToFramework (Some c) (htmlCode d) fw (Reply t) = Inr (js_trim t)"
    using assms(3,4,5) by (auto simp: convertHtmlToFramework_def getAiClient_def js_trim_def)
  then show ?thesis using k1 tk w2 by (simp add: dispatch_frame update_conv')
qed

theorem cleared_key_still_converts_witness:
  "let w1 = handleSaveApiKey 10 (\<lambda>s. Inr s) None exSession; r = handleConvertCode 10 ''React'' w1
   in apiKey (st w1) = None \<and> snd r = Some (ConvertAwait ''React'' ''<p>'' (Some ''k'')) \<and>
      map_of (convertedCodeCache (st (fst (resume 10 (ConvertAwait ''React'' ''<p>'' (Some ''k'')) (Replied (Reply ''R'')) (fst r))))) ''React''
        = Some ''R''"
proof -
  have "js_trim ''R'' = ''R''" "js_trim ''<p>'' = ''<p>''" by code_simp+
  then show ?thesis unfolding Let_def
    using cleared_key_still_converts [of exSession "''k''" "\<lparr>htmlCode = ''<p>''\<rparr>" "''React''" "''R''"
            "handleSaveApiKey 10 (\<lambda>s. Inr s) None exSession" 10 "\<lambda>s. Inr s"
            "fst (handleConvertCode 10 ''React'' (handleSaveApiKey 10 (\<lambda>s. Inr s) None exSession))"
            "snd (handleConvertCode 10 ''React'' (handleSaveApiKey 10 (\<lambda>s. Inr s) None exSession))"]
    by (simp add: exSession_def exProject_def)
qed

text \<open>
  C24. A generation that starts a new project (\<open>handleGenerateFromNewProject\<close>) and whose
  chat creation and reply succeed leaves the new project \<open>proj-t1\<close> current in the state
  and in storage, with exactly one history item (the prompt and the reply's markup),
  the new conversation, the loading flag cleared, and the project saved under its id with
  the title taken from the prompt.
\<close>

theorem new_project_generation_round:
  assumes key: "js_truthy (apiKey (st w))" and cc: "createChatSession (ai w) cr = Inr c"
    and sm: "sendMessageToChat p r = Inr h"
    and S: "S = sysRun btoa \<lparr>world = w, pending = []\<rparr>
           [(t1, GenerateFromNewProject p), (t2, Settle 0 (Created cr)), (t3, Settle 0 (Replied r))]"
  shows "pending S = [] \<and> currentProjectId (st (world S)) = Some (newProjectId t1) \<and>
         dassigner_currentProjectId (storage (world S)) = Some (newProjectId t1) \<and>
         history (st (world S)) = [newHistoryItem t3 p \<lparr>htmlCode = h\<rparr>] \<and>
         chatSession (st (world S)) = Some c \<and> \<not> isLoading (st (world S)) \<and>
         List.find (\<lambda>q. proj_id q = newProjectId t1) (projects (world S)) =
           Some \<lparr>proj_id = newProjectId t1, title = titleFromPrompt p,
                 proj_history = [newHistoryItem t3 p \<lparr>htmlCode = h\<rparr>], proj_activeDesign = Some \<lparr>htmlCode = h\<rparr>,
                 proj_isComponentMode = False, lastModified = t3, proj_convertedCodeCache = []\<rparr>"
proof -
  define i where "i = newProjectId t1"
  define w1 where "w1 = setCurrentProjectId i (dispatch t1 w (START_NEW_DESIGN_FROM_PROMPT i))"
  define w2 where "w2 = dispatch t2 w1 (SET_CHAT_SESSION (Some c))"
  define w3 where "w3 = dispatch t3 w2 (GENERATION_SUCCESS \<lparr>htmlCode = h\<rparr> p)"
  have a1: "ai w1 = ai w" by (simp add: w1_def setCurrentProjectId_def dispatch_frame)
  have st1: "st w1 = appReducer t1 (st w) (START_NEW_DESIGN_FROM_PROMPT i)"
    by (simp add: w1_def setCurrentProjectId_def dispatch_frame)
  have S3: "S = \<lparr>world = w3, pending = []\<rparr>"
    using key cc sm a1
    by (simp add: S sysStep_def spawn_def handleGenerateFromNewProject_def settle_def Let_def
                  i_def [symmetric] w1_def [symmetric] w2_def [symmetric] w3_def [symmetric])
  have st3: "st w3 = appReducer t3 (appReducer t2 (appReducer t1 (st w) (START_NEW_DESIGN_FROM_PROMPT i))
                        (SET_CHAT_SESSION (Some c))) (GENERATION_SUCCESS \<lparr>htmlCode = h\<rparr> p)"
    by (simp add: w3_def w2_def dispatch_frame st1)
  have cur: "dassigner_currentProjectId (storage w3) = Some i"
    by (simp add: w3_def w2_def w1_def dispatch_frame setCurrentProjectId_def)
  have ine: "i \<noteq> []" by (simp add: i_def newProjectId_def)
  have find3: "List.find (\<lambda>q. proj_id q = i) (projects w3) =
           Some \<lparr>proj_id = i, title = titleFromPrompt p,
                 proj_history = [newHistoryItem t3 p \<lparr>htmlCode = h\<rparr>], proj_activeDesign = Some \<lparr>htmlCode = h\<rparr>,
                 proj_isComponentMode = False, lastModified = t3, proj_convertedCodeCache = []\<rparr>"
    using ine unfolding w3_def find_dispatch
    by (simp add: w2_def w1_def dispatch_frame setCurrentProjectId_def saveDeps_def currentProjectData_def
                  initialState_def)
  show ?thesis using S3 st3 cur find3 by (simp add: i_def initialState_def)
qed

theorem new_project_generation_round_witness:
  "let S = sysRun (\<lambda>s. Inr s) \<lparr>world = exSession, pending = []\<rparr>
             [(10, GenerateFromNewProject ''a card''), (11, Settle 0 (Created (Inr 1))),
              (12, Settle 0 (Replied (Reply ''<p>x</p>'')))]
   in pending S = [] \<and> currentProjectId (st (world S)) = Some (newProjectId 10) \<and>
      dassigner_currentProjectId (storage (world S)) = Some (newProjectId 10) \<and>
      history (st (world S)) = [newHistoryItem 12 ''a card'' \<lparr>htmlCode = ''<p>x</p>''\<rparr>] \<and>
      chatSession (st (world S)) = Some 1 \<and> \<not> isLoading (st (world S)) \<and>
      List.find (\<lambda>q. proj_id q = newProjectId 10) (projects (world S)) =
        Some \<lparr>proj_id = newProjectId 10, title = titleFromPrompt ''a card'',
              proj_history = [newHistoryItem 12 ''a card'' \<lparr>htmlCode = ''<p>x</p>''\<rparr>],
              proj_activeDesign = Some \<lparr>htmlCode = ''<p>x</p>''\<rparr>,
              proj_isComponentMode = False, lastModified = 12, proj_convertedCodeCache = []\<rparr>"
proof -
  have "sendMessageToChat ''a card'' (Reply ''<p>x</p>'') = Inr ''<p>x</p>''" by code_simp
  then show ?thesis unfolding Let_def
    by (intro new_project_generation_round [OF _ _ _ refl])
       (simp_all add: exSession_def js_truthy_def createChatSession_def getAiClient_def)
qed

end
