(* ===== verification/Invariants.thy ===== *)
theory Invariants
  imports Orchestrator
begin

text \<open>
  Invariants of the whole application: a world is well formed when the session invariant
  holds and every saved project is well formed, and its project list has distinct ids.
  \<open>reachable\<close> gives the states reached from start-up on a well-formed storage by any
  sequence of events. \<open>sysStep_preserves\<close> reduces the preservation of a predicate of
  the world by every event to six facts about the world updates the handlers perform
  (\<open>dispatch\<close> of an action whose loaded project comes from the list, the pointer, the
  key, the client, the stored key, the deletion filter), so that each invariant is proved
  by discharging those six facts.
\<close>

subsection \<open>Predicates\<close>

definition wf_world :: "World \<Rightarrow> bool" where
  "wf_world w = (wf_session (st w) \<and> list_all wf_project (projects w))"

definition ids_distinct :: "World \<Rightarrow> bool" where
  "ids_distinct w = distinct (map proj_id (projects w))"

text \<open>A stored project list whose projects are well formed and have distinct ids, and a legacy
  session whose active design is one of its history's designs.\<close>

definition storage_wf :: "LocalStorage \<Rightarrow> bool" where
  "storage_wf ls =
     ((case dassigner_projects ls of
         Stored ps \<Rightarrow> list_all wf_project ps \<and> distinct (map proj_id ps)
       | _ \<Rightarrow> True) \<and>
      (case dassigner_session ls of
         Stored old \<Rightarrow> (case old_history old of Some h \<Rightarrow> h = [] \<or> design_in_history (old_activeDesign old) h | None \<Rightarrow> True)
       | _ \<Rightarrow> True))"

text \<open>The id a migration at clock \<open>now\<close> would give is not one of the stored ids.\<close>

definition migration_fresh :: "nat \<Rightarrow> LocalStorage \<Rightarrow> bool" where
  "migration_fresh now ls = (''migrated-'' @ nat_to_string now \<notin> set (map proj_id (projectsFromStorage ls)))"

inductive reachable :: "(string \<Rightarrow> string option) \<Rightarrow> (string \<Rightarrow> string + string) \<Rightarrow> Sys \<Rightarrow> bool"
  for atob btoa where
  start: "storage_wf ls \<Longrightarrow> migration_fresh now ls \<Longrightarrow>
          reachable atob btoa \<lparr>world = initApp atob now ls, pending = []\<rparr>"
| step: "reachable atob btoa S \<Longrightarrow> reachable atob btoa (sysStep btoa now S e)"

text \<open>The project an action loads, if any, is one of the list.\<close>

definition loads_from :: "World \<Rightarrow> AppAction \<Rightarrow> bool" where
  "loads_from w a = (case a of LOAD_PROJECT p \<Rightarrow> p \<in> set (projects w) | _ \<Rightarrow> True)"

fun no_load :: "AppAction \<Rightarrow> bool" where
  "no_load (LOAD_PROJECT p) = False"
| "no_load _ = True"

subsection \<open>Preservation by every event\<close>

lemma no_load_loads_from [simp]: "no_load a \<Longrightarrow> loads_from w a"
  by (cases a) (simp_all add: loads_from_def)

lemma addToast_no_load [simp]: "no_load (addToast now m ty)"
  by (simp add: addToast_def)

lemma ui_action_no_load: "ui_action a \<Longrightarrow> no_load a"
  by (cases a) simp_all

lemma dispatchAll_preserves:
  assumes disp: "\<And>w now a. P w \<Longrightarrow> loads_from w a \<Longrightarrow> P (dispatch now w a)"
  shows "P w \<Longrightarrow> list_all no_load as \<Longrightarrow> P (dispatchAll now w as)"
  by (induction as arbitrary: w) (simp_all add: disp)

lemma projects_dispatch_toast [simp]: "projects (dispatch now w (addToast now' m ty)) = projects w"
  by (simp add: addToast_def dispatch_toast)

lemma find_in_projects: "List.find (\<lambda>p. proj_id p = i) (projects w) = Some p \<Longrightarrow> p \<in> set (projects w)"
  by (simp add: find_Some_in_set)

lemma sysStep_preserves:
  fixes P :: "World \<Rightarrow> bool"
  assumes disp: "\<And>w now a. P w \<Longrightarrow> loads_from w a \<Longrightarrow> P (dispatch now w a)"
    and cur: "\<And>w i. P w \<Longrightarrow> P (setCurrentProjectId i w)"
    and key: "\<And>w. P w \<Longrightarrow> P (removeApiKey w)"
    and cli: "\<And>w c. P w \<Longrightarrow> P (w\<lparr>ai := c\<rparr>)"
    and enc: "\<And>w k. P w \<Longrightarrow> P (w\<lparr>storage := (storage w)\<lparr>gemini_api_key := k\<rparr>\<rparr>)"
    and del: "\<And>w i. P w \<Longrightarrow>
               P (w\<lparr>projects := filter (\<lambda>p. proj_id p \<noteq> i) (projects w),
                    storage := (storage w)\<lparr>dassigner_projects := Stored (filter (\<lambda>p. proj_id p \<noteq> i) (projects w))\<rparr>\<rparr>)"
    and S: "P (world S)"
  shows "P (world (sysStep btoa now S e))"
proof -
  note all = dispatchAll_preserves [of P, OF disp]
  have gen: "P (fst (resume now t oc w))" if "P w" for t oc w
    using that
    by (cases "(now, t, oc, w)" rule: resume.cases)
       (auto simp: generationFailed_def disp all split: sum.splits)
  have spawn: "P (fst r) \<Longrightarrow> P (world (spawn S r))" for r by (simp add: spawn_def)
  have settle: "P (world (settle now i oc S))" for i oc
    using S gen [of "world S"] by (auto simp: settle_def split: prod.splits) (metis fst_conv)
  let ?w = "world S"
  have send: "P (fst (handleSendMessage now p ?w))" for p
    using S by (auto simp: handleSendMessage_def credentialMissing_def Let_def disp all split: option.splits)
  have new: "P (fst (handleGenerateFromNewProject now p ?w))" for p
    using S by (auto simp: handleGenerateFromNewProject_def credentialMissing_def Let_def disp cur all)
  have conv: "P (fst (handleConvertCode now fw ?w))" for fw
    using S by (auto simp: handleConvertCode_def disp split: option.splits)
  have save: "P (handleSaveApiKey now btoa k ?w)" for k
    using S by (auto simp: handleSaveApiKey_def Let_def disp all key cli enc split: sum.splits)
  have newp: "P w \<Longrightarrow> P (handleNewProject now w)" for w
    by (simp add: handleNewProject_def disp cur)
  have load: "P (handleLoadProject now i ?w)" for i
  proof (cases "List.find (\<lambda>p. proj_id p = i) (projects ?w)")
    case (Some p)
    then have "loads_from ?w (LOAD_PROJECT p)" by (simp add: loads_from_def find_in_projects)
    with Some S show ?thesis by (simp add: handleLoadProject_def disp cur)
  qed (use S in \<open>simp add: handleLoadProject_def disp\<close>)
  have delete: "P (handleDeleteProject now i ?w)" for i
  proof -
    define ps where "ps = filter (\<lambda>p. proj_id p \<noteq> i) (projects ?w)"
    define w1 where "w1 = ?w\<lparr>projects := ps, storage := (storage ?w)\<lparr>dassigner_projects := Stored ps\<rparr>\<rparr>"
    have w1: "P w1" using del [OF S, of i] by (simp add: w1_def ps_def)
    have "mostRecentProject ps = Some p \<Longrightarrow>
          P (dispatch now (setCurrentProjectId (proj_id p) (dispatch now w1 (addToast now ''Design deleted successfully.'' Success)))
               (LOAD_PROJECT p))" for p
      using w1 by (intro disp cur) (auto simp: loads_from_def addToast_def dispatch_toast setCurrentProjectId_def w1_def
                                      dest!: mostRecentProject_spec)
    then show ?thesis using w1 newp [OF w1]
      by (auto simp: handleDeleteProject_def Let_def disp ps_def[symmetric] w1_def[symmetric]
               split: option.splits)
  qed
  have ex: "P (handleLoadExample now x ?w)" for x
    using S by (simp add: handleLoadExample_def disp cur)
  show ?thesis
    using S by (cases e) (auto simp: sysStep_def spawn send new conv save newp load delete settle ex disp
                                     ui_action_no_load split: if_splits)
qed

subsection \<open>Well-formed worlds\<close>

lemma replaceFirst_wf: "list_all wf_project ps \<Longrightarrow> wf_project p \<Longrightarrow> list_all wf_project (replaceFirst p ps)"
  by (induction ps) auto

lemma upsertProject_wf: "list_all wf_project ps \<Longrightarrow> wf_project p \<Longrightarrow> list_all wf_project (upsertProject p ps)"
  by (simp add: upsertProject_cases replaceFirst_wf)

lemma currentProjectData_wf: "currentProjectData now s = Some p \<Longrightarrow> wf_session s \<Longrightarrow> wf_project p"
  by (auto simp: currentProjectData_def wf_session_def wf_project_def split: option.splits if_splits)

lemma saveEffect_wf: "wf_world w \<Longrightarrow> wf_world (saveEffect now w)"
  by (auto simp: saveEffect_def wf_world_def Let_def upsertProject_wf currentProjectData_wf split: option.splits)

lemma dispatch_wf: "wf_world w \<Longrightarrow> action_wf a \<Longrightarrow> wf_world (dispatch now w a)"
proof -
  assume w: "wf_world w" and a: "action_wf a"
  then have "wf_world (w\<lparr>st := appReducer now (st w) a\<rparr>)"
    by (simp add: wf_world_def appReducer_preserves_wf)
  then show ?thesis by (simp add: dispatch_def Let_def saveEffect_wf)
qed

lemma dispatchAll_wf: "wf_world w \<Longrightarrow> list_all action_wf as \<Longrightarrow> wf_world (dispatchAll now w as)"
  by (induction as arbitrary: w) (simp_all add: dispatch_wf)

lemma wf_world_pointer [simp]: "wf_world (setCurrentProjectId i w) = wf_world w"
  by (simp add: wf_world_def setCurrentProjectId_def)

lemma addToast_wf [simp]: "action_wf (addToast now m ty)"
  by (simp add: addToast_def)

lemma migrateLegacy_wf:
  "storage_wf ls \<Longrightarrow> list_all wf_project ps \<Longrightarrow> list_all wf_project (fst (migrateLegacy now ls ps))"
  by (auto simp: migrateLegacy_def storage_wf_def migratedProject_def wf_project_def
           split: stored.splits option.splits)

lemma projectsFromStorage_wf: "storage_wf ls \<Longrightarrow> list_all wf_project (projectsFromStorage ls)"
  by (auto simp: projectsFromStorage_def storage_wf_def split: stored.splits)

lemma loads_from_wf:
  "loads_from w a \<Longrightarrow> list_all wf_project (projects w) \<Longrightarrow> action_wf a"
  by (cases a) (auto simp: loads_from_def list_all_iff)

lemma initApp_wf: "storage_wf ls \<Longrightarrow> wf_world (initApp atob now ls)"
proof -
  assume ls: "storage_wf ls"
  obtain acts client ab where r: "restoreApiKey atob (gemini_api_key ls) = (acts, client, ab)"
    by (cases "restoreApiKey atob (gemini_api_key ls)") auto
  have "wf_world ((initialWorld ls)\<lparr>ai := client\<rparr>)"
    by (simp add: wf_world_def initialWorld_def initialState_def wf_session_def)
  moreover have "list_all action_wf acts"
    using restoreApiKey_actions [of atob "gemini_api_key ls"] r by (auto simp: list_all_iff)
  ultimately have w0: "wf_world (dispatchAll now ((initialWorld ls)\<lparr>ai := client\<rparr>) acts)"
    by (rule dispatchAll_wf)
  obtain ps ls1 where m: "migrateLegacy now ls (projectsFromStorage ls) = (ps, ls1)"
    by (cases "migrateLegacy now ls (projectsFromStorage ls)") auto
  have ps: "list_all wf_project ps"
    using migrateLegacy_wf [OF ls projectsFromStorage_wf [OF ls], of now] m by simp
  define w1 where "w1 = (dispatchAll now ((initialWorld ls)\<lparr>ai := client\<rparr>) acts)\<lparr>projects := ps, storage := ls1\<rparr>"
  have w1: "wf_world w1" using w0 ps by (simp add: w1_def wf_world_def)
  have "resolveInitialProject (dassigner_currentProjectId ls1) ps = Some p \<Longrightarrow> wf_project p" for p
    using ps by (auto simp: list_all_iff dest!: resolveInitialProject_in)
  with w0 w1 show ?thesis
    by (auto simp: initApp_def r m Let_def w1_def[symmetric] dispatch_wf split: option.splits)
qed

lemma sysStep_wf:
  assumes "wf_world (world S)"
  shows "wf_world (world (sysStep btoa now S e))"
proof (rule sysStep_preserves [where P = wf_world, OF _ _ _ _ _ _ assms])
  fix w now a assume "wf_world w" "loads_from w a"
  then show "wf_world (dispatch now w a)" by (meson dispatch_wf loads_from_wf wf_world_def)
qed (auto simp: wf_world_def setCurrentProjectId_def removeApiKey_def list_all_iff)

subsection \<open>Distinct project ids\<close>

lemma upsertProject_distinct:
  "distinct (map proj_id ps) \<Longrightarrow> distinct (map proj_id (upsertProject p ps))"
  by (auto simp: upsertProject_cases replaceFirst_ids)

lemma dispatch_ids: "ids_distinct w \<Longrightarrow> ids_distinct (dispatch now w a)"
  by (auto simp: dispatch_def saveEffect_def ids_distinct_def Let_def upsertProject_distinct
           split: option.splits)

lemma sysStep_ids:
  assumes "ids_distinct (world S)"
  shows "ids_distinct (world (sysStep btoa now S e))"
proof (rule sysStep_preserves [where P = ids_distinct, OF _ _ _ _ _ _ assms])
  fix w now a assume "ids_distinct w"
  then show "ids_distinct (dispatch now w a)" by (rule dispatch_ids)
qed (simp_all add: ids_distinct_def setCurrentProjectId_def removeApiKey_def distinct_map_filter)

lemma ids_distinct_pointer [simp]: "ids_distinct (setCurrentProjectId i w) = ids_distinct w"
  by (simp add: ids_distinct_def setCurrentProjectId_def)

lemma dispatchAll_ids: "ids_distinct w \<Longrightarrow> ids_distinct (dispatchAll now w as)"
  by (induction as arbitrary: w) (simp_all add: dispatch_ids)

lemma migrateLegacy_ids:
  "storage_wf ls \<Longrightarrow> migration_fresh now ls \<Longrightarrow>
   distinct (map proj_id (fst (migrateLegacy now ls (projectsFromStorage ls))))"
  by (auto simp: migrateLegacy_def storage_wf_def migration_fresh_def migratedProject_def projectsFromStorage_def
           split: stored.splits option.splits)

lemma initApp_ids: "storage_wf ls \<Longrightarrow> migration_fresh now ls \<Longrightarrow> ids_distinct (initApp atob now ls)"
proof -
  assume ls: "storage_wf ls" and fr: "migration_fresh now ls"
  obtain acts client ab where r: "restoreApiKey atob (gemini_api_key ls) = (acts, client, ab)"
    by (cases "restoreApiKey atob (gemini_api_key ls)") auto
  have "ids_distinct ((initialWorld ls)\<lparr>ai := client\<rparr>)" by (simp add: ids_distinct_def initialWorld_def)
  then have w0: "ids_distinct (dispatchAll now ((initialWorld ls)\<lparr>ai := client\<rparr>) acts)"
    by (rule dispatchAll_ids)
  obtain ps ls1 where m: "migrateLegacy now ls (projectsFromStorage ls) = (ps, ls1)"
    by (cases "migrateLegacy now ls (projectsFromStorage ls)") auto
  have "distinct (map proj_id ps)" using migrateLegacy_ids [OF ls fr] m by simp
  then have w1: "ids_distinct ((dispatchAll now ((initialWorld ls)\<lparr>ai := client\<rparr>) acts)\<lparr>projects := ps, storage := ls1\<rparr>)"
    by (simp add: ids_distinct_def)
  with w0 show ?thesis
    by (auto simp: initApp_def r m Let_def intro!: dispatch_ids split: option.splits)
qed

text \<open>The example storage is well formed and a migration at clock 1 would get a fresh id.\<close>

lemma exStorage_start: "storage_wf exStorage \<and> migration_fresh 1 exStorage"
proof -
  have "storage_wf exStorage" by (simp add: storage_wf_def exStorage_def exProject_def wf_project_def)
  moreover have "migration_fresh 1 exStorage" by code_simp
  ultimately show ?thesis ..
qed

end
