(* ===== verification/Panels.thy ===== *)
theory Panels
  imports Orchestrator
begin

text \<open>
  The handlers of \<^verbatim>\<open>src/components/Sidebar.tsx\<close> and
  \<^verbatim>\<open>src/components/SettingsModal.tsx\<close>. Each component's local state is a record;
  a handler returns the new local state and the call it makes on the provider, as an
  \<open>Event\<close> of the orchestrator (\<open>None\<close> when it makes none). The \<open>disabled\<close>
  attributes of the prompt form are the guard \<open>submitReachable\<close>: a submission reaches
  \<open>handleSubmit\<close> through the submit button or through Enter in the text area, and both
  are disabled while a generation is loading, while the prompt is being enhanced, or
  without a key.
\<close>

subsection \<open>Sidebar\<close>

record SidebarState =
  sb_prompt :: string
  isEnhancing :: bool
  examplePrompts :: "string list"
  isLoadingExamples :: bool
  isEditingTitle :: bool
  localTitle :: string
  isProjectsOpen :: bool
  projectToDelete :: "string option"
  isDeleteModalOpen :: bool

definition staticExamplePrompts :: "string list" where
  "staticExamplePrompts =
     [''A hero section for a crypto trading platform, dark theme, with glowing charts and a bold CTA.'',
      ''A pricing table for a SaaS product with a futuristic, cyberpunk aesthetic. Highlight the middle plan.'',
      ''A team members section with holographic profile cards.'',
      ''A contact form that looks like a futuristic terminal input.'']"

definition initialSidebar :: "string \<Rightarrow> SidebarState" where
  "initialSidebar chatTitle0 =
     \<lparr>sb_prompt = [], isEnhancing = False, examplePrompts = staticExamplePrompts,
      isLoadingExamples = False, isEditingTitle = False, localTitle = chatTitle0,
      isProjectsOpen = False, projectToDelete = None, isDeleteModalOpen = False\<rparr>"

definition isApiKeySet :: "AppState \<Rightarrow> bool" where
  "isApiKeySet s = js_truthy (apiKey s)"

definition handleTranscriptUpdate :: "string \<Rightarrow> SidebarState \<Rightarrow> SidebarState" where
  "handleTranscriptUpdate tr sb =
     sb\<lparr>sb_prompt := (if sb_prompt sb \<noteq> [] then sb_prompt sb @ '' '' @ tr else tr)\<rparr>"

text \<open>The text area and the submit button are enabled (\<open>disabled\<close> attributes).\<close>

definition submitReachable :: "AppState \<Rightarrow> SidebarState \<Rightarrow> bool" where
  "submitReachable s sb = (\<not> isLoading s \<and> \<not> isEnhancing sb \<and> isApiKeySet s)"

definition handleSubmit :: "AppState \<Rightarrow> SidebarState \<Rightarrow> SidebarState \<times> Event option" where
  "handleSubmit s sb =
     (if js_trim (sb_prompt sb) \<noteq> [] \<and> isApiKeySet s
      then (sb\<lparr>sb_prompt := []\<rparr>, Some (SendMessage (sb_prompt sb)))
      else (sb, None))"

text \<open>
  \<open>fetchExamples\<close>: the part before the \<open>await\<close> (whether the request starts) and the
  part after it; \<open>getInspirationPrompts\<close> never rejects, so the catch branch is dead.
\<close>

definition fetchExamplesStart :: "AppState \<Rightarrow> SidebarState \<Rightarrow> SidebarState \<times> bool" where
  "fetchExamplesStart s sb =
     (if \<not> isApiKeySet s then (sb, False) else (sb\<lparr>isLoadingExamples := True\<rparr>, True))"

definition fetchExamplesDone :: "string list \<Rightarrow> SidebarState \<Rightarrow> SidebarState" where
  "fetchExamplesDone ps sb = sb\<lparr>examplePrompts := ps, isLoadingExamples := False\<rparr>"

definition handleExamplePromptClick :: "AppState \<Rightarrow> string \<Rightarrow> Event option" where
  "handleExamplePromptClick s ex = (if isApiKeySet s then Some (GenerateFromNewProject ex) else None)"

definition handleEnhanceClick :: "AppState \<Rightarrow> SidebarState \<Rightarrow> SidebarState \<times> bool" where
  "handleEnhanceClick s sb =
     (if js_trim (sb_prompt sb) = [] \<or> isEnhancing sb \<or> \<not> isApiKeySet s then (sb, False)
      else (sb\<lparr>isEnhancing := True\<rparr>, True))"

definition enhanceDone :: "string + string \<Rightarrow> SidebarState \<Rightarrow> SidebarState" where
  "enhanceDone r sb =
     (case r of Inr t \<Rightarrow> sb\<lparr>sb_prompt := t, isEnhancing := False\<rparr> | Inl _ \<Rightarrow> sb\<lparr>isEnhancing := False\<rparr>)"

text \<open>
  A click on Enhance and the settlement of its request. While it runs the text area, the
  submit and the Enhance buttons are disabled, so no other event of the form intervenes.
\<close>

definition enhanceRound :: "nat \<Rightarrow> Reply \<Rightarrow> World \<Rightarrow> SidebarState \<Rightarrow> World \<times> SidebarState" where
  "enhanceRound now reply w sb =
     (let (sb1, started) = handleEnhanceClick (st w) sb
      in if started then
           (let (w', r) = handleEnhancePrompt now (sb_prompt sb) reply w in (w', enhanceDone r sb1))
         else (w, sb))"

definition handleTitleSave :: "string \<Rightarrow> SidebarState \<Rightarrow> SidebarState \<times> Event option" where
  "handleTitleSave chatTitle0 sb =
     (if js_trim (localTitle sb) \<noteq> []
      then (sb\<lparr>isEditingTitle := False\<rparr>, Some (Ui (SET_CHAT_TITLE (js_trim (localTitle sb)))))
      else (sb\<lparr>localTitle := chatTitle0, isEditingTitle := False\<rparr>, None))"

text \<open>The effect that copies the title into the edit field whenever it changes.\<close>

definition syncLocalTitle :: "string \<Rightarrow> SidebarState \<Rightarrow> SidebarState" where
  "syncLocalTitle chatTitle0 sb = sb\<lparr>localTitle := chatTitle0\<rparr>"

definition handleDeleteClick :: "string \<Rightarrow> SidebarState \<Rightarrow> SidebarState" where
  "handleDeleteClick pid sb = sb\<lparr>projectToDelete := Some pid, isDeleteModalOpen := True\<rparr>"

definition confirmDeleteProject :: "SidebarState \<Rightarrow> SidebarState \<times> Event option" where
  "confirmDeleteProject sb =
     (if js_truthy (projectToDelete sb)
      then (sb\<lparr>isDeleteModalOpen := False, projectToDelete := None\<rparr>,
            Some (DeleteProject (the (projectToDelete sb))))
      else (sb, None))"

text \<open>\<open>[...projects].sort((a, b) => b.lastModified - a.lastModified)\<close>, a stable sort.\<close>

definition sortedProjects :: "Project list \<Rightarrow> Project list" where
  "sortedProjects ps = sort_key (\<lambda>p. - int (lastModified p)) ps"

subsection \<open>Settings dialog\<close>

record SettingsState =
  apiKeyInput :: string
  showKey :: bool
  isSaved :: bool

definition initialSettings :: "AppState \<Rightarrow> SettingsState" where
  "initialSettings s = \<lparr>apiKeyInput = js_or (apiKey s) [], showKey = False, isSaved = False\<rparr>"

definition isDismissable :: "AppState \<Rightarrow> bool" where
  "isDismissable s = js_truthy (apiKey s)"

definition onClose :: "AppState \<Rightarrow> Event option" where
  "onClose s = (if isDismissable s then Some (Ui (SET_IS_SETTINGS_OPEN False)) else None)"

definition handleEsc :: "string \<Rightarrow> AppState \<Rightarrow> Event option" where
  "handleEsc k s = (if k = ''Escape'' \<and> isDismissable s then onClose s else None)"

definition handleSaveClick :: "SettingsState \<Rightarrow> SettingsState \<times> Event option" where
  "handleSaveClick ss =
     (if js_trim (apiKeyInput ss) \<noteq> []
      then (ss\<lparr>isSaved := True\<rparr>, Some (SaveApiKey (Some (js_trim (apiKeyInput ss)))))
      else (ss, None))"

definition handleKeyDown :: "string \<Rightarrow> SettingsState \<Rightarrow> SettingsState \<times> Event option" where
  "handleKeyDown k ss = (if k = ''Enter'' \<and> js_trim (apiKeyInput ss) \<noteq> [] then handleSaveClick ss else (ss, None))"

subsection \<open>Lemmas\<close>

lemma dispatch_key_storage [simp]:
  "gemini_api_key (storage (dispatch now w a)) = gemini_api_key (storage w)"
  by (simp add: dispatch_def saveEffect_def Let_def split: option.splits)

text \<open>
  C34. The settings dialog cannot be closed (by the backdrop, the close button or Escape)
  while no key is set, and it only ever passes a non-blank, trimmed key to
  \<open>handleSaveApiKey\<close>, so the key-clearing branch of that handler is not reachable from it.
\<close>

theorem settings_dialog_guards:
  "(\<not> js_truthy (apiKey s) \<longrightarrow> onClose s = None \<and> handleEsc k s = None) \<and>
   (snd (handleSaveClick ss) = Some e \<longrightarrow> (\<exists>key. e = SaveApiKey (Some key) \<and> key \<noteq> [] \<and> js_trim key = key))"
  by (auto simp: onClose_def handleEsc_def isDismissable_def handleSaveClick_def js_trim_idem split: if_splits)

theorem settings_dialog_guards_witness:
  "onClose initialState = None \<and> handleEsc ''Escape'' initialState = None \<and>
   (\<exists>key. SaveApiKey (Some ''k'') = SaveApiKey (Some key) \<and> key \<noteq> [] \<and> js_trim key = key)"
proof -
  have "snd (handleSaveClick \<lparr>apiKeyInput = '' k '', showKey = False, isSaved = False\<rparr>) =
        Some (SaveApiKey (Some ''k''))" by code_simp
  moreover have "\<not> js_truthy (apiKey initialState)" by (simp add: initialState_def js_truthy_def)
  ultimately show ?thesis
    using settings_dialog_guards [of initialState "''Escape''"
            "\<lparr>apiKeyInput = '' k '', showKey = False, isSaved = False\<rparr>" "SaveApiKey (Some ''k'')"]
    by blast
qed

text \<open>
  C35. When \<open>btoa\<close> throws on a key that \<open>initializeAiClient\<close> accepted, the catch block
  clears the stored and the reducer's key and reports the error, but the module's client
  built with that key stays in place.
\<close>

theorem btoa_failure_keeps_client:
  assumes "initializeAiClient k = Inr c" "btoa k = Inl m" "w' = handleSaveApiKey now btoa (Some k) w"
  shows "apiKey (st w') = None \<and> gemini_api_key (storage w') = None \<and> ai w' = Some c \<and>
         toasts (st w') = toasts (st w) @ [\<lparr>toast_id = nat_to_string now, message = m, toast_type = Error\<rparr>]"
proof -
  have "k \<noteq> []" using assms(1) by (auto simp: initializeAiClient_def)
  then show ?thesis
    using assms by (simp add: handleSaveApiKey_def js_truthy_def dispatch_frame removeApiKey_def addToast_def Let_def)
qed

theorem btoa_failure_keeps_client_witness:
  "let w' = handleSaveApiKey 10 (\<lambda>s. Inl ''InvalidCharacterError'') (Some ''k'') exSession
   in apiKey (st w') = None \<and> gemini_api_key (storage w') = None \<and> ai w' = Some ''k'' \<and>
      toasts (st w') = toasts (st exSession) @
        [\<lparr>toast_id = nat_to_string 10, message = ''InvalidCharacterError'', toast_type = Error\<rparr>]"
proof -
  have "initializeAiClient ''k'' = Inr ''k''" by code_simp
  then show ?thesis unfolding Let_def
    by (rule btoa_failure_keeps_client) simp_all
qed

text \<open>
  The prompt form sends only a non-blank prompt with a key set, sends the prompt as
  typed, and empties the field.
\<close>

theorem sidebar_submit_guard:
  "snd (handleSubmit s sb) = Some e \<Longrightarrow>
   e = SendMessage (sb_prompt sb) \<and> js_trim (sb_prompt sb) \<noteq> [] \<and> js_truthy (apiKey s) \<and>
   sb_prompt (fst (handleSubmit s sb)) = []"
  by (auto simp: handleSubmit_def isApiKeySet_def split: if_splits)

theorem sidebar_submit_guard_witness:
  "SendMessage ''y'' = SendMessage (sb_prompt ((initialSidebar ''T'')\<lparr>sb_prompt := ''y''\<rparr>)) \<and>
   js_trim (sb_prompt ((initialSidebar ''T'')\<lparr>sb_prompt := ''y''\<rparr>)) \<noteq> [] \<and>
   js_truthy (apiKey (st exSession)) \<and>
   sb_prompt (fst (handleSubmit (st exSession) ((initialSidebar ''T'')\<lparr>sb_prompt := ''y''\<rparr>))) = []"
proof -
  have "snd (handleSubmit (st exSession) ((initialSidebar ''T'')\<lparr>sb_prompt := ''y''\<rparr>)) = Some (SendMessage ''y'')"
    by code_simp
  then show ?thesis by (rule sidebar_submit_guard)
qed

text \<open>
  C37. The form's loading guard does not give at most one request in flight: for any
  state with a key and any stored project, after a send the form is disabled, but opening
  the project clears the loading flag while the first request is still pending, the form
  is enabled again, and a second send starts a second request.
\<close>

theorem second_send_after_switch:
  assumes key: "js_truthy (apiKey (st w))" and P: "List.find (\<lambda>q. proj_id q = i) (projects w) = Some P"
    and tp: "js_trim (sb_prompt sb) \<noteq> []" and ne: "\<not> isEnhancing sb"
    and S0: "S0 = sysStep btoa t1 \<lparr>world = w, pending = []\<rparr> (SendMessage p)"
    and S1: "S1 = sysStep btoa t2 S0 (LoadProject i)"
  shows "\<not> submitReachable (st (world S0)) sb \<and> submitReachable (st (world S1)) sb \<and>
         length (pending S1) = 1 \<and> snd (handleSubmit (st (world S1)) sb) = Some (SendMessage (sb_prompt sb)) \<and>
         length (pending (sysStep btoa t3 S1 (SendMessage (sb_prompt sb)))) = 2"
proof -
  define w1 where "w1 = dispatch t1 w START_GENERATION"
  have s0: "world S0 = w1" "length (pending S0) = 1"
    using S0 key by (simp_all add: sysStep_send w1_def)
  have f1: "List.find (\<lambda>q. proj_id q = i) (projects w1) = Some P"
    using P by (simp add: w1_def find_dispatch saveDeps_def)
  have s1: "world S1 = setCurrentProjectId i (dispatch t2 w1 (LOAD_PROJECT P))" "pending S1 = pending S0"
    using S1 f1 s0 by (simp_all add: sysStep_def handleLoadProject_def)
  have k1: "js_truthy (apiKey (st (world S1)))" and l1: "\<not> isLoading (st (world S1))"
    using key by (simp_all add: s1 w1_def setCurrentProjectId_def dispatch_frame)
  have l0: "isLoading (st (world S0))" by (simp add: s0 w1_def dispatch_frame)
  have two: "length (pending (sysStep btoa t3 S1 (SendMessage (sb_prompt sb)))) = 2"
    using sysStep_send [OF k1, of btoa t3 "sb_prompt sb"] s0(2) s1(2) by simp
  show ?thesis
    using k1 l1 l0 s0 s1 tp ne two by (simp add: submitReachable_def isApiKeySet_def handleSubmit_def)
qed

theorem second_send_after_switch_witness:
  "let sb = (initialSidebar ''T'')\<lparr>sb_prompt := ''y''\<rparr>;
       S0 = sysStep (\<lambda>s. Inr s) 10 \<lparr>world = exSession, pending = []\<rparr> (SendMessage ''x'');
       S1 = sysStep (\<lambda>s. Inr s) 11 S0 (LoadProject ''p2'')
   in \<not> submitReachable (st (world S0)) sb \<and> submitReachable (st (world S1)) sb \<and>
      length (pending S1) = 1 \<and> snd (handleSubmit (st (world S1)) sb) = Some (SendMessage ''y'') \<and>
      length (pending (sysStep (\<lambda>s. Inr s) 12 S1 (SendMessage ''y''))) = 2"
proof -
  have key: "js_truthy (apiKey (st exSession))"
    and P: "List.find (\<lambda>q. proj_id q = ''p2'') (projects exSession) = Some (exProject ''p2'' 9)"
    by (simp_all add: exSession_def exProject_def js_truthy_def)
  have tp: "js_trim (sb_prompt ((initialSidebar ''T'')\<lparr>sb_prompt := ''y''\<rparr>)) \<noteq> []"
    and ne: "\<not> isEnhancing ((initialSidebar ''T'')\<lparr>sb_prompt := ''y''\<rparr>)"
    by (simp_all add: initialSidebar_def js_trim_def is_js_space_def)
  from second_send_after_switch [OF key P tp ne refl refl]
  show ?thesis unfolding Let_def by simp
qed

text \<open>
  An Enhance round never changes the application state when a key is set: on success
  the prompt field holds the enhanced text, on failure it keeps the user's prompt, and the
  Enhance button is enabled again.
\<close>

theorem enhance_round:
  assumes "js_truthy (apiKey (st w))" "js_trim (sb_prompt sb) \<noteq> []" "\<not> isEnhancing sb"
  shows "enhanceRound now reply w sb =
         (w, case enhancePrompt (ai w) (sb_prompt sb) reply of
               Inr t \<Rightarrow> sb\<lparr>sb_prompt := t\<rparr>
             | Inl _ \<Rightarrow> sb)"
  using assms
  by (auto simp: enhanceRound_def handleEnhanceClick_def handleEnhancePrompt_def isApiKeySet_def
                 enhanceDone_def split: sum.splits)

theorem enhance_round_witness:
  "enhanceRound 10 (Reply '' A cat in neon. '') exSession ((initialSidebar ''T'')\<lparr>sb_prompt := ''a cat''\<rparr>) =
   (exSession, case enhancePrompt (ai exSession) (sb_prompt ((initialSidebar ''T'')\<lparr>sb_prompt := ''a cat''\<rparr>))
                      (Reply '' A cat in neon. '') of
                 Inr t \<Rightarrow> ((initialSidebar ''T'')\<lparr>sb_prompt := ''a cat''\<rparr>)\<lparr>sb_prompt := t\<rparr>
               | Inl _ \<Rightarrow> (initialSidebar ''T'')\<lparr>sb_prompt := ''a cat''\<rparr>)"
proof -
  have "js_trim ''a cat'' = ''a cat''" by code_simp
  then show ?thesis
    by (intro enhance_round) (simp_all add: exSession_def js_truthy_def initialSidebar_def)
qed

end
