(* ===== verification/SidebarUI.thy ===== *)
theory SidebarUI
  imports Invariants Panels
begin

text \<open>
  The rendered side panel of \<^verbatim>\<open>src/components/Sidebar.tsx\<close> composed with the
  provider. \<open>sidebarEvent\<close> is one user input on an element of the panel: it has an
  effect only when the element is rendered (the title editor, the projects drop-down, the
  delete dialog, the inspiration list or the history list) and not \<open>disabled\<close>, and it
  returns the new local state and the call the panel makes: an orchestrator \<open>Event\<close>,
  the start of \<open>fetchExamples\<close> or the start of \<open>handleEnhancePrompt\<close>. \<open>UiSys\<close>
  adds to the orchestrator's \<open>Sys\<close> the panel's state and its own pending requests, each
  with the client \<open>getAiClient\<close> read when the request was sent. After every step the
  panel's effects run: the title is copied into the edit field when it changed, and the
  examples are fetched when a key becomes set. The voice hook
  (\<^verbatim>\<open>hooks/useVoiceRecognition.ts\<close>) is not in the repository; its transcripts are
  inputs that may arrive at any time. The overlay of the delete dialog, which keeps the
  mouse from the rest of the panel, is not modelled, so the other inputs stay possible while
  it is open (an over-approximation).
\<close>

datatype SidebarCall = Provider Event | StartFetchExamples | StartEnhance string

datatype SidebarEvent =
    PromptChange string | PromptEnter bool | SubmitClick | EnhanceClick | Transcript string
  | EditTitleClick | TitleChange string | TitleBlur | TitleEnter
  | ProjectsToggle | MouseDownOutside | ProjectClick string | TrashClick string | NewDesignClick
  | CancelDeleteClick | ConfirmDeleteClick | SettingsClick | CloseMenuClick
  | NewIdeasClick | ExampleClick nat | RestoreClick string | ComponentModeChange

definition withCall :: "SidebarState \<times> Event option \<Rightarrow> SidebarState \<times> SidebarCall option" where
  "withCall r = (fst r, map_option Provider (snd r))"

fun sidebarEvent ::
  "AppState \<Rightarrow> Project list \<Rightarrow> SidebarState \<Rightarrow> SidebarEvent \<Rightarrow> SidebarState \<times> SidebarCall option" where
  "sidebarEvent s ps sb (PromptChange t) =
     (if submitReachable s sb then (sb\<lparr>sb_prompt := t\<rparr>, None) else (sb, None))"
| "sidebarEvent s ps sb (PromptEnter shift) =
     (if submitReachable s sb \<and> \<not> shift then withCall (handleSubmit s sb) else (sb, None))"
| "sidebarEvent s ps sb SubmitClick =
     (if submitReachable s sb \<and> js_trim (sb_prompt sb) \<noteq> [] then withCall (handleSubmit s sb)
      else (sb, None))"
| "sidebarEvent s ps sb EnhanceClick =
     (if \<not> isEnhancing sb \<and> js_trim (sb_prompt sb) \<noteq> [] \<and> isApiKeySet s
      then (case handleEnhanceClick s sb of
              (sb', started) \<Rightarrow> (sb', if started then Some (StartEnhance (sb_prompt sb)) else None))
      else (sb, None))"
| "sidebarEvent s ps sb (Transcript tr) = (handleTranscriptUpdate tr sb, None)"
| "sidebarEvent s ps sb EditTitleClick =
     (if \<not> isEditingTitle sb \<and> history s \<noteq> [] then (sb\<lparr>isEditingTitle := True\<rparr>, None) else (sb, None))"
| "sidebarEvent s ps sb (TitleChange t) =
     (if isEditingTitle sb then (sb\<lparr>localTitle := t\<rparr>, None) else (sb, None))"
| "sidebarEvent s ps sb TitleBlur =
     (if isEditingTitle sb then withCall (handleTitleSave (chatTitle s) sb) else (sb, None))"
| "sidebarEvent s ps sb TitleEnter =
     (if isEditingTitle sb then withCall (handleTitleSave (chatTitle s) sb) else (sb, None))"
| "sidebarEvent s ps sb ProjectsToggle = (sb\<lparr>isProjectsOpen := \<not> isProjectsOpen sb\<rparr>, None)"
| "sidebarEvent s ps sb MouseDownOutside = (sb\<lparr>isProjectsOpen := False\<rparr>, None)"
| "sidebarEvent s ps sb (ProjectClick pid) =
     (if isProjectsOpen sb \<and> pid \<in> set (map proj_id (sortedProjects ps))
      then (sb\<lparr>isProjectsOpen := False\<rparr>, Some (Provider (LoadProject pid))) else (sb, None))"
| "sidebarEvent s ps sb (TrashClick pid) =
     (if isProjectsOpen sb \<and> pid \<in> set (map proj_id (sortedProjects ps))
      then ((handleDeleteClick pid sb)\<lparr>isProjectsOpen := False\<rparr>, None) else (sb, None))"
| "sidebarEvent s ps sb NewDesignClick =
     (if isProjectsOpen sb then (sb\<lparr>isProjectsOpen := False\<rparr>, Some (Provider NewProjectEv))
      else (sb, None))"
| "sidebarEvent s ps sb CancelDeleteClick =
     (if isDeleteModalOpen sb then (sb\<lparr>isDeleteModalOpen := False\<rparr>, None) else (sb, None))"
| "sidebarEvent s ps sb ConfirmDeleteClick =
     (if isDeleteModalOpen sb then withCall (confirmDeleteProject sb) else (sb, None))"
| "sidebarEvent s ps sb SettingsClick = (sb, Some (Provider (Ui (SET_IS_SETTINGS_OPEN True))))"
| "sidebarEvent s ps sb CloseMenuClick = (sb, Some (Provider (Ui (SET_IS_SIDEBAR_OPEN False))))"
| "sidebarEvent s ps sb NewIdeasClick =
     (if history s = [] \<and> \<not> isLoadingExamples sb \<and> isApiKeySet s
      then (case fetchExamplesStart s sb of
              (sb', started) \<Rightarrow> (sb', if started then Some StartFetchExamples else None))
      else (sb, None))"
| "sidebarEvent s ps sb (ExampleClick i) =
     (if history s = [] \<and> \<not> isLoadingExamples sb \<and> i < length (examplePrompts sb) \<and>
         \<not> isLoading s \<and> isApiKeySet s
      then (sb, map_option Provider (handleExamplePromptClick s (examplePrompts sb ! i)))
      else (sb, None))"
| "sidebarEvent s ps sb (RestoreClick iid) =
     (if iid \<in> set (map item_id (history s)) then (sb, Some (Provider (Ui (RESTORE_VERSION iid))))
      else (sb, None))"
| "sidebarEvent s ps sb ComponentModeChange =
     (if activeDesign s \<noteq> None
      then (sb, Some (Provider (Ui (SET_IS_COMPONENT_MODE (\<not> isComponentMode s))))) else (sb, None))"

record UiSys =
  sys :: Sys
  sbar :: SidebarState
  enhanceReq :: "(string \<times> string option) option"
  examplesReqs :: "string option list"

datatype UiEvent =
    Input SidebarEvent
  | EnhanceSettles Reply
  | ExamplesSettle nat InspirationReply
  | Other Event

text \<open>The call a panel input makes; a request records the client it was sent with.\<close>

definition runCall :: "(string \<Rightarrow> string + string) \<Rightarrow> nat \<Rightarrow> UiSys \<Rightarrow> SidebarCall option \<Rightarrow> UiSys" where
  "runCall btoa now U c =
     (case c of
        None \<Rightarrow> U
      | Some (Provider e) \<Rightarrow> U\<lparr>sys := sysStep btoa now (sys U) e\<rparr>
      | Some StartFetchExamples \<Rightarrow> U\<lparr>examplesReqs := examplesReqs U @ [ai (world (sys U))]\<rparr>
      | Some (StartEnhance p) \<Rightarrow> U\<lparr>enhanceReq := Some (p, ai (world (sys U)))\<rparr>)"

text \<open>The panel's effects after a render whose previous state was \<open>s0\<close>.\<close>

definition sidebarEffects :: "AppState \<Rightarrow> UiSys \<Rightarrow> UiSys" where
  "sidebarEffects s0 U =
     (let s = st (world (sys U));
          U1 = (if chatTitle s \<noteq> chatTitle s0 then U\<lparr>sbar := syncLocalTitle (chatTitle s) (sbar U)\<rparr> else U)
      in if isApiKeySet s \<noteq> isApiKeySet s0
         then (case fetchExamplesStart s (sbar U1) of
                 (sb', started) \<Rightarrow>
                   U1\<lparr>sbar := sb', examplesReqs := examplesReqs U1 @ (if started then [ai (world (sys U))] else [])\<rparr>)
         else U1)"

text \<open>\<open>handleEnhancePrompt\<close> after its \<open>await\<close>: the credential check ran at the click.\<close>

definition enhanceResult :: "string \<times> string option \<Rightarrow> Reply \<Rightarrow> string + string" where
  "enhanceResult req reply =
     (case enhancePrompt (snd req) (fst req) reply of Inl e \<Rightarrow> Inl (errorMessage e) | Inr t \<Rightarrow> Inr t)"

fun uiStep :: "(string \<Rightarrow> string + string) \<Rightarrow> nat \<Rightarrow> UiSys \<Rightarrow> UiEvent \<Rightarrow> UiSys" where
  "uiStep btoa now U (Input e) =
     (let s = st (world (sys U))
      in case sidebarEvent s (projects (world (sys U))) (sbar U) e of
           (sb', c) \<Rightarrow> sidebarEffects s (runCall btoa now (U\<lparr>sbar := sb'\<rparr>) c))"
| "uiStep btoa now U (EnhanceSettles reply) =
     (case enhanceReq U of
        None \<Rightarrow> U
      | Some req \<Rightarrow> U\<lparr>sbar := enhanceDone (enhanceResult req reply) (sbar U), enhanceReq := None\<rparr>)"
| "uiStep btoa now U (ExamplesSettle i reply) =
     (if i < length (examplesReqs U)
      then U\<lparr>sbar := fetchExamplesDone (getInspirationPrompts (examplesReqs U ! i) reply) (sbar U),
             examplesReqs := take i (examplesReqs U) @ drop (Suc i) (examplesReqs U)\<rparr>
      else U)"
| "uiStep btoa now U (Other e) = sidebarEffects (st (world (sys U))) (U\<lparr>sys := sysStep btoa now (sys U) e\<rparr>)"

fun uiRun :: "(string \<Rightarrow> string + string) \<Rightarrow> UiSys \<Rightarrow> (nat \<times> UiEvent) list \<Rightarrow> UiSys" where
  "uiRun btoa U [] = U"
| "uiRun btoa U ((now, e) # es) = uiRun btoa (uiStep btoa now U e) es"

text \<open>The panel mounted over a system state: the initial \<open>useState\<close> values and the first
  run of the fetch effect.\<close>

definition uiInit :: "Sys \<Rightarrow> UiSys" where
  "uiInit S =
     (case fetchExamplesStart (st (world S)) (initialSidebar (chatTitle (st (world S)))) of
        (sb, started) \<Rightarrow>
          \<lparr>sys = S, sbar = sb, enhanceReq = None,
           examplesReqs = (if started then [ai (world S)] else [])\<rparr>)"

definition uiInv :: "UiSys \<Rightarrow> bool" where
  "uiInv U =
     ((isEnhancing (sbar U) \<longleftrightarrow> enhanceReq U \<noteq> None) \<and>
      (isDeleteModalOpen (sbar U) \<longrightarrow> projectToDelete (sbar U) \<noteq> None) \<and>
      (isLoadingExamples (sbar U) \<longrightarrow> examplesReqs U \<noteq> []))"

inductive uiReachable :: "(string \<Rightarrow> string option) \<Rightarrow> (string \<Rightarrow> string + string) \<Rightarrow> UiSys \<Rightarrow> bool"
  for atob btoa where
  mount: "reachable atob btoa S \<Longrightarrow> uiReachable atob btoa (uiInit S)"
| step: "uiReachable atob btoa U \<Longrightarrow> uiReachable atob btoa (uiStep btoa now U e)"

text \<open>
  The state-dependent parts of the rendered panel: the inspiration list (placeholders while
  loading) or the history as pairs of the prompt and the id its restore button sends, the
  labels, placeholder and tooltips, the spinners, the component-mode switch and the submit
  button. \<open>listening\<close> and \<open>voiceError\<close> come from the voice hook.
\<close>

datatype HistoryPane = Inspiration bool "string list option" | Conversation "(string \<times> string) list"

record SidebarView =
  panelClass :: string
  historyPane :: HistoryPane
  promptLabel :: string
  enhanceSpinner :: bool
  enhanceDisabled :: bool
  placeholder :: string
  promptDisabled :: bool
  micLabel :: string
  micTooltip :: string
  voiceErrorLine :: "string option"
  componentModeTooltip :: string
  componentModeDisabled :: bool
  componentModeChecked :: bool
  submitDisabled :: bool
  submitLabel :: string

definition sidebarView :: "AppState \<Rightarrow> SidebarState \<Rightarrow> bool \<Rightarrow> string option \<Rightarrow> SidebarView" where
  "sidebarView s sb listening voiceError =
     \<lparr>panelClass = (if isSidebarOpen s then ''translate-x-0'' else ''-translate-x-full''),
      historyPane =
        (if history s = []
         then Inspiration (isLoadingExamples sb) (if isLoadingExamples sb then None else Some (examplePrompts sb))
         else Conversation (map (\<lambda>it. (prompt it, item_id it)) (history s))),
      promptLabel = (if activeDesign s \<noteq> None then ''Describe your changes...'' else ''Describe your design...''),
      enhanceSpinner = isEnhancing sb,
      enhanceDisabled = (isEnhancing sb \<or> js_trim (sb_prompt sb) = [] \<or> \<not> isApiKeySet s),
      placeholder = (if isApiKeySet s then ''e.g., a landing page for a SaaS company''
                     else ''Set your API key in settings to begin...''),
      promptDisabled = (isLoading s \<or> isEnhancing sb \<or> \<not> isApiKeySet s),
      micLabel = (if listening then ''Stop listening'' else ''Start listening''),
      micTooltip = (if listening then ''Stop voice input'' else ''Start voice input''),
      voiceErrorLine = (if js_truthy voiceError then voiceError else None),
      componentModeTooltip =
        (if activeDesign s = None then ''Generate a design first to use Component Mode''
         else if isComponentMode s
         then ''Disable Component Mode: Generate completely new designs from your prompt.''
         else ''Enable Component Mode: Edit the current design instead of replacing it.''),
      componentModeDisabled = (activeDesign s = None),
      componentModeChecked = isComponentMode s,
      submitDisabled = (isLoading s \<or> isEnhancing sb \<or> js_trim (sb_prompt sb) = [] \<or> \<not> isApiKeySet s),
      submitLabel = (if isLoading s then ''Generating...''
                     else if activeDesign s \<noteq> None then ''Send Edit'' else ''Generate'')\<rparr>"

subsection \<open>Lemmas\<close>

lemmas sidebar_handler_defs = withCall_def handleSubmit_def handleEnhanceClick_def
  handleTranscriptUpdate_def handleTitleSave_def handleDeleteClick_def confirmDeleteProject_def
  fetchExamplesStart_def

lemma sidebarEvent_enhancing:
  "isEnhancing (fst (sidebarEvent s ps sb e)) =
     (isEnhancing sb \<or> (\<exists>p. snd (sidebarEvent s ps sb e) = Some (StartEnhance p))) \<and>
   ((\<exists>p. snd (sidebarEvent s ps sb e) = Some (StartEnhance p)) \<longrightarrow> \<not> isEnhancing sb)"
  by (cases e) (auto simp: sidebar_handler_defs split: if_splits option.splits)

lemma sidebarEvent_delete:
  "(isDeleteModalOpen sb \<longrightarrow> projectToDelete sb \<noteq> None) \<Longrightarrow>
   isDeleteModalOpen (fst (sidebarEvent s ps sb e)) \<longrightarrow> projectToDelete (fst (sidebarEvent s ps sb e)) \<noteq> None"
  by (cases e) (auto simp: sidebar_handler_defs split: if_splits option.splits)

lemma sidebarEvent_examples:
  "isLoadingExamples (fst (sidebarEvent s ps sb e)) \<Longrightarrow>
   isLoadingExamples sb \<or> snd (sidebarEvent s ps sb e) = Some StartFetchExamples"
  by (cases e) (auto simp: sidebar_handler_defs split: if_splits option.splits)

lemma runCall_frame:
  "sbar (runCall btoa now U c) = sbar U \<and>
   enhanceReq (runCall btoa now U c) =
     (case c of Some (StartEnhance p) \<Rightarrow> Some (p, ai (world (sys U))) | _ \<Rightarrow> enhanceReq U) \<and>
   examplesReqs (runCall btoa now U c) =
     examplesReqs U @ (if c = Some StartFetchExamples then [ai (world (sys U))] else [])"
  by (auto simp: runCall_def split: option.splits SidebarCall.splits)

lemma sidebarEffects_inv: "uiInv U \<Longrightarrow> uiInv (sidebarEffects s0 U)"
  by (auto simp: sidebarEffects_def uiInv_def Let_def syncLocalTitle_def fetchExamplesStart_def
           split: prod.splits if_splits)

lemma input_call_inv:
  assumes inv: "uiInv U" and ev: "sidebarEvent (st (world (sys U))) (projects (world (sys U))) (sbar U) e = (sb', c)"
  shows "uiInv (runCall btoa now (U\<lparr>sbar := sb'\<rparr>) c)"
  using inv sidebarEvent_enhancing [of "st (world (sys U))" "projects (world (sys U))" "sbar U" e]
    sidebarEvent_delete [of "sbar U" "st (world (sys U))" "projects (world (sys U))" e]
    sidebarEvent_examples [of "st (world (sys U))" "projects (world (sys U))" "sbar U" e]
  by (auto simp: uiInv_def runCall_frame ev split: option.splits SidebarCall.splits)

lemma input_inv: "uiInv U \<Longrightarrow> uiInv (uiStep btoa now U (Input e))"
  by (cases "sidebarEvent (st (world (sys U))) (projects (world (sys U))) (sbar U) e")
     (simp add: input_call_inv sidebarEffects_inv)

lemma uiInv_sys [simp]: "uiInv (U\<lparr>sys := S\<rparr>) = uiInv U"
  by (simp add: uiInv_def)

lemma uiStep_inv:
  assumes inv: "uiInv U" shows "uiInv (uiStep btoa now U e)"
proof (cases e)
  case (Input x)
  then show ?thesis by (simp only: Input) (rule input_inv [OF inv])
next
  case (EnhanceSettles r)
  then show ?thesis using inv
    by (auto simp: uiInv_def enhanceDone_def split: option.splits sum.splits)
next
  case (ExamplesSettle i r)
  then show ?thesis using inv by (auto simp: uiInv_def fetchExamplesDone_def)
next
  case (Other x)
  have "uiInv (U\<lparr>sys := sysStep btoa now (sys U) x\<rparr>)" using inv by (simp add: uiInv_def)
  then show ?thesis using Other by (simp add: sidebarEffects_inv)
qed

lemma uiInit_inv: "uiInv (uiInit S)"
  by (simp add: uiInit_def uiInv_def fetchExamplesStart_def initialSidebar_def)

lemma sidebarEffects_sys [simp]: "sys (sidebarEffects s0 U) = sys U"
  by (simp add: sidebarEffects_def Let_def split: prod.splits)

text \<open>A step of the composition moves the orchestrator by at most one of its events.\<close>

lemma uiStep_sys: "sys (uiStep btoa now U e) = sys U \<or> (\<exists>e'. sys (uiStep btoa now U e) = sysStep btoa now (sys U) e')"
  by (cases e) (auto simp: runCall_def Let_def split: prod.splits option.splits SidebarCall.splits)

text \<open>The split of \<open>handleEnhancePrompt\<close> at its \<open>await\<close> computes what the handler does
  when the credential check passes at the click.\<close>

lemma enhanceResult_handleEnhancePrompt:
  "js_truthy (apiKey (st w)) \<Longrightarrow> snd (handleEnhancePrompt now p reply w) = enhanceResult (p, ai w) reply \<and>
   fst (handleEnhancePrompt now p reply w) = w"
  by (simp add: handleEnhancePrompt_def enhanceResult_def)

text \<open>The panel sends a message only from an enabled form, with the non-blank prompt the
  field holds, and then clears the field; it starts a new project from an inspiration
  prompt only when one is listed and no request runs.\<close>

lemma sidebar_send_guard:
  "snd (sidebarEvent s ps sb e) = Some (Provider (SendMessage p)) \<Longrightarrow>
   submitReachable s sb \<and> p = sb_prompt sb \<and> js_trim p \<noteq> [] \<and> sb_prompt (fst (sidebarEvent s ps sb e)) = []"
  by (cases e) (auto simp: sidebar_handler_defs handleExamplePromptClick_def split: if_splits prod.splits)

lemma sidebar_example_guard:
  "snd (sidebarEvent s ps sb e) = Some (Provider (GenerateFromNewProject p)) \<Longrightarrow>
   isApiKeySet s \<and> \<not> isLoading s \<and> history s = [] \<and> p \<in> set (examplePrompts sb)"
  by (cases e) (auto simp: sidebar_handler_defs handleExamplePromptClick_def split: if_splits prod.splits)

text \<open>A project is deleted only by the dialog's confirmation, and it is the one whose trash
  button opened the dialog.\<close>

lemma sidebar_delete_confirmed:
  "snd (sidebarEvent s ps sb e) = Some (Provider (DeleteProject pid)) \<Longrightarrow>
   e = ConfirmDeleteClick \<and> isDeleteModalOpen sb \<and> projectToDelete sb = Some pid \<and>
   \<not> isDeleteModalOpen (fst (sidebarEvent s ps sb e))"
  by (cases e) (auto simp: sidebar_handler_defs handleExamplePromptClick_def js_truthy_iff split: if_splits prod.splits)

lemma trash_then_confirm:
  "isProjectsOpen sb \<Longrightarrow> pid \<in> proj_id ` set ps \<Longrightarrow> pid \<noteq> [] \<Longrightarrow>
   sidebarEvent s ps (fst (sidebarEvent s ps sb (TrashClick pid))) ConfirmDeleteClick =
     (sb\<lparr>isProjectsOpen := False, projectToDelete := None, isDeleteModalOpen := False\<rparr>,
      Some (Provider (DeleteProject pid)))"
  by (simp add: sidebar_handler_defs sortedProjects_def js_truthy_def)

text \<open>
  Dictation during an enhancement is lost: the voice hook appends a transcript to the prompt
  while the request runs (the microphone stays enabled), and the enhanced text of the prompt
  sent before it then replaces the field.
\<close>

lemma enhance_overwrites_dictation:
  assumes "enhanceReq U = Some (p, c)" and "enhancePrompt c p reply = Inr t"
  shows "sb_prompt (sbar (uiStep btoa now U (Input (Transcript tr)))) =
           (if sb_prompt (sbar U) \<noteq> [] then sb_prompt (sbar U) @ '' '' @ tr else tr) \<and>
         sb_prompt (sbar (uiStep btoa now' (uiStep btoa now U (Input (Transcript tr))) (EnhanceSettles reply))) = t"
  using assms
  by (simp add: handleTranscriptUpdate_def sidebarEffects_def runCall_def enhanceDone_def enhanceResult_def)

text \<open>
  Whatever the interleaving of panel inputs, orchestrator events and settlements of the
  panel's own requests, the application only reaches states the orchestrator reaches by
  itself, and the panel stays consistent with its requests: the Enhance spinner shows exactly
  while an enhancement is pending, the delete dialog always has a project to delete, and the
  inspiration list shows its loading placeholders only while a fetch is pending.
\<close>

theorem uiReachable_inv:
  "uiReachable atob btoa U \<Longrightarrow> reachable atob btoa (sys U) \<and> uiInv U"
proof (induction rule: uiReachable.induct)
  case (mount S)
  then show ?case by (simp add: uiInit_inv) (simp add: uiInit_def split: prod.splits)
next
  case (step U now e)
  have "reachable atob btoa (sys (uiStep btoa now U e))"
    using uiStep_sys [of btoa now U e]
  proof
    assume "sys (uiStep btoa now U e) = sys U"
    then show ?thesis using step.IH by simp
  next
    assume "\<exists>e'. sys (uiStep btoa now U e) = sysStep btoa now (sys U) e'"
    then obtain e' where "sys (uiStep btoa now U e) = sysStep btoa now (sys U) e'" ..
    then show ?thesis using step.IH reachable.step by metis
  qed
  then show ?case using step.IH uiStep_inv by blast
qed

theorem uiReachable_inv_witness:
  "reachable (\<lambda>s. Some s) (\<lambda>s. Inr s)
     (sys (uiStep (\<lambda>s. Inr s) 2 (uiInit \<lparr>world = initApp (\<lambda>s. Some s) 1 exStorage, pending = []\<rparr>)
             (Input ProjectsToggle))) \<and>
   uiInv (uiStep (\<lambda>s. Inr s) 2 (uiInit \<lparr>world = initApp (\<lambda>s. Some s) 1 exStorage, pending = []\<rparr>)
             (Input ProjectsToggle))"
proof -
  have "reachable (\<lambda>s. Some s) (\<lambda>s. Inr s) \<lparr>world = initApp (\<lambda>s. Some s) 1 exStorage, pending = []\<rparr>"
    using exStorage_start by (blast intro: reachable.start)
  then have "uiReachable (\<lambda>s. Some s) (\<lambda>s. Inr s) (uiInit \<lparr>world = initApp (\<lambda>s. Some s) 1 exStorage, pending = []\<rparr>)"
    by (rule uiReachable.mount)
  then have "uiReachable (\<lambda>s. Some s) (\<lambda>s. Inr s)
               (uiStep (\<lambda>s. Inr s) 2 (uiInit \<lparr>world = initApp (\<lambda>s. Some s) 1 exStorage, pending = []\<rparr>)
                  (Input ProjectsToggle))"
    by (rule uiReachable.step)
  then show ?thesis by (rule uiReachable_inv)
qed

text \<open>The rendered \<open>disabled\<close> attributes are the guards of the event model: an enabled
  submit button sends the prompt, an enabled Enhance button starts the enhancement, and the
  restore buttons rendered are exactly those that restore a version.\<close>

lemma sidebarView_guards:
  "\<not> submitDisabled (sidebarView s sb l v) \<Longrightarrow>
     sidebarEvent s ps sb SubmitClick = (sb\<lparr>sb_prompt := []\<rparr>, Some (Provider (SendMessage (sb_prompt sb))))"
  "\<not> enhanceDisabled (sidebarView s sb l v) \<Longrightarrow>
     sidebarEvent s ps sb EnhanceClick = (sb\<lparr>isEnhancing := True\<rparr>, Some (StartEnhance (sb_prompt sb)))"
  "historyPane (sidebarView s sb l v) = Conversation hs \<Longrightarrow> (p, iid) \<in> set hs \<Longrightarrow>
     sidebarEvent s ps sb (RestoreClick iid) = (sb, Some (Provider (Ui (RESTORE_VERSION iid))))"
  by (auto simp: sidebarView_def submitReachable_def sidebar_handler_defs split: if_splits)

end
