(* ===== verification/AppLayout.thy ===== *)
theory AppLayout
  imports Invariants Panels
begin

text \<open>
  The settings dialog of \<^verbatim>\<open>src/components/SettingsModal.tsx\<close> as rendered by
  \<open>AppLayout\<close> in \<^verbatim>\<open>src/App.tsx\<close>. The dialog is mounted while \<open>isSettingsOpen\<close>
  holds, with fresh local state (\<open>initialSettings\<close>), and unmounted when it is cleared,
  which also discards its pending timers. \<open>settingsEvent\<close> is one input on the
  dialog: it has an effect only when its element is rendered and enabled, and returns the new
  local state, whether it starts the 3-second timer that hides the saved message, and the
  call it makes on the provider. \<open>settingsView\<close> is the part of the rendered dialog that
  depends on state. The layout's backdrop over an open side panel is \<open>overlayClick\<close>.
\<close>

datatype SettingsEvent =
    BackdropClick | CloseButtonClick | CancelClick | ShowKeyToggle | KeyInput string
  | KeyDown string | ClearInputClick | SaveClick | WindowKey string

definition withTimer :: "SettingsState \<times> Event option \<Rightarrow> SettingsState \<times> bool \<times> Event option" where
  "withTimer r = (fst r, snd r \<noteq> None, snd r)"

fun settingsEvent :: "AppState \<Rightarrow> SettingsState \<Rightarrow> SettingsEvent \<Rightarrow> SettingsState \<times> bool \<times> Event option" where
  "settingsEvent s ss BackdropClick = (ss, False, onClose s)"
| "settingsEvent s ss CloseButtonClick = (if isDismissable s then (ss, False, onClose s) else (ss, False, None))"
| "settingsEvent s ss CancelClick = (if isDismissable s then (ss, False, onClose s) else (ss, False, None))"
| "settingsEvent s ss ShowKeyToggle = (ss\<lparr>showKey := \<not> showKey ss\<rparr>, False, None)"
| "settingsEvent s ss (KeyInput t) = (ss\<lparr>apiKeyInput := t\<rparr>, False, None)"
| "settingsEvent s ss (KeyDown k) = withTimer (handleKeyDown k ss)"
| "settingsEvent s ss ClearInputClick =
     (if apiKeyInput ss \<noteq> [] then (ss\<lparr>apiKeyInput := []\<rparr>, False, None) else (ss, False, None))"
| "settingsEvent s ss SaveClick =
     (if js_trim (apiKeyInput ss) \<noteq> [] then withTimer (handleSaveClick ss) else (ss, False, None))"
| "settingsEvent s ss (WindowKey k) = (ss, False, handleEsc k s)"

datatype FooterLeft = CancelButton | MustProvideNotice

record SettingsView =
  closeButton :: bool
  welcomeNotice :: bool
  inputType :: string
  clearButton :: bool
  savedMessage :: bool
  footerLeft :: FooterLeft
  saveEnabled :: bool
  saveLabel :: string

definition settingsView :: "AppState \<Rightarrow> SettingsState \<Rightarrow> SettingsView" where
  "settingsView s ss =
     \<lparr>closeButton = isDismissable s, welcomeNotice = \<not> isDismissable s,
      inputType = (if showKey ss then ''text'' else ''password''),
      clearButton = (apiKeyInput ss \<noteq> []), savedMessage = isSaved ss,
      footerLeft = (if isDismissable s then CancelButton else MustProvideNotice),
      saveEnabled = (js_trim (apiKeyInput ss) \<noteq> []),
      saveLabel = (if isDismissable s then ''Save Changes'' else ''Save & Start Designing'')\<rparr>"

definition overlayClick :: "AppState \<Rightarrow> Event option" where
  "overlayClick s = (if isSidebarOpen s then Some (Ui (SET_IS_SIDEBAR_OPEN False)) else None)"

text \<open>The application with the dialog: the orchestrator state, the mounted dialog's state
  and the number of its saved-message timers not yet fired.\<close>

record DialogSys =
  dsys :: Sys
  dialog :: "SettingsState option"
  savedTimers :: nat

datatype DialogEvent = DialogInput SettingsEvent | SavedTimerFires | AppEvent Event

text \<open>\<open>{state.isSettingsOpen && <SettingsModal />}\<close> after a render.\<close>

definition mountDialog :: "DialogSys \<Rightarrow> DialogSys" where
  "mountDialog D =
     (let s = st (world (dsys D))
      in if isSettingsOpen s
         then (case dialog D of None \<Rightarrow> D\<lparr>dialog := Some (initialSettings s), savedTimers := 0\<rparr> | Some _ \<Rightarrow> D)
         else D\<lparr>dialog := None, savedTimers := 0\<rparr>)"

fun dialogStep :: "(string \<Rightarrow> string + string) \<Rightarrow> nat \<Rightarrow> DialogSys \<Rightarrow> DialogEvent \<Rightarrow> DialogSys" where
  "dialogStep btoa now D (DialogInput e) =
     (case dialog D of
        None \<Rightarrow> D
      | Some ss \<Rightarrow>
          (case settingsEvent (st (world (dsys D))) ss e of
             (ss', timer, c) \<Rightarrow>
               mountDialog
                 (D\<lparr>dsys := (case c of None \<Rightarrow> dsys D | Some ev \<Rightarrow> sysStep btoa now (dsys D) ev),
                    dialog := Some ss', savedTimers := savedTimers D + (if timer then 1 else 0)\<rparr>)))"
| "dialogStep btoa now D SavedTimerFires =
     (if savedTimers D = 0 then D
      else D\<lparr>dialog := map_option (\<lambda>ss. ss\<lparr>isSaved := False\<rparr>) (dialog D), savedTimers := savedTimers D - 1\<rparr>)"
| "dialogStep btoa now D (AppEvent ev) = mountDialog (D\<lparr>dsys := sysStep btoa now (dsys D) ev\<rparr>)"

definition dialogInit :: "Sys \<Rightarrow> DialogSys" where
  "dialogInit S = mountDialog \<lparr>dsys = S, dialog = None, savedTimers = 0\<rparr>"

definition dialogInv :: "DialogSys \<Rightarrow> bool" where
  "dialogInv D =
     ((dialog D \<noteq> None \<longleftrightarrow> isSettingsOpen (st (world (dsys D)))) \<and>
      (\<forall>ss. dialog D = Some ss \<longrightarrow> isSaved ss \<longrightarrow> 0 < savedTimers D))"

inductive dialogReachable :: "(string \<Rightarrow> string option) \<Rightarrow> (string \<Rightarrow> string + string) \<Rightarrow> DialogSys \<Rightarrow> bool"
  for atob btoa where
  mount: "reachable atob btoa S \<Longrightarrow> dialogReachable atob btoa (dialogInit S)"
| step: "dialogReachable atob btoa D \<Longrightarrow> dialogReachable atob btoa (dialogStep btoa now D e)"

text \<open>A dialog over the example session, holding a key typed but not yet saved.\<close>

definition exDialog :: DialogSys where
  "exDialog =
     \<lparr>dsys = \<lparr>world = exSession\<lparr>st := (st exSession)\<lparr>isSettingsOpen := True\<rparr>\<rparr>, pending = []\<rparr>,
      dialog = Some \<lparr>apiKeyInput = ''k2'', showKey = False, isSaved = False\<rparr>, savedTimers = 0\<rparr>"

subsection \<open>Lemmas\<close>

lemma dialogInv_mount: "(\<forall>ss. dialog D = Some ss \<longrightarrow> isSaved ss \<longrightarrow> 0 < savedTimers D) \<Longrightarrow> dialogInv (mountDialog D)"
  by (auto simp: mountDialog_def dialogInv_def initialSettings_def Let_def split: option.splits)

lemma settingsEvent_saved:
  "isSaved (fst (settingsEvent s ss e)) \<Longrightarrow> isSaved ss \<or> fst (snd (settingsEvent s ss e))"
  by (cases e) (auto simp: withTimer_def handleKeyDown_def handleSaveClick_def split: if_splits)

lemma dialogStep_inv:
  assumes inv: "dialogInv D" shows "dialogInv (dialogStep btoa now D e)"
proof (cases e)
  case (DialogInput x)
  show ?thesis
  proof (cases "dialog D")
    case None
    then show ?thesis using inv DialogInput by simp
  next
    case (Some ss)
    obtain ss' tm c where ev: "settingsEvent (st (world (dsys D))) ss x = (ss', tm, c)"
      by (cases "settingsEvent (st (world (dsys D))) ss x")
    have "isSaved ss' \<longrightarrow> 0 < savedTimers D + (if tm then 1 else 0)"
      using settingsEvent_saved [of "st (world (dsys D))" ss x] inv Some ev by (auto simp: dialogInv_def)
    then show ?thesis using DialogInput Some ev by (simp add: dialogInv_mount)
  qed
next
  case SavedTimerFires
  then show ?thesis using inv by (auto simp: dialogInv_def)
next
  case (AppEvent x)
  have "\<forall>ss. dialog (D\<lparr>dsys := sysStep btoa now (dsys D) x\<rparr>) = Some ss \<longrightarrow> isSaved ss \<longrightarrow>
          0 < savedTimers (D\<lparr>dsys := sysStep btoa now (dsys D) x\<rparr>)"
    using inv by (simp add: dialogInv_def)
  then show ?thesis using AppEvent by (simp add: dialogInv_mount)
qed

lemma dialogInit_inv: "dialogInv (dialogInit S)"
  by (simp add: dialogInit_def dialogInv_mount)

lemma mountDialog_dsys [simp]: "dsys (mountDialog D) = dsys D"
  by (simp add: mountDialog_def Let_def split: option.splits)

lemma dialogStep_sys:
  "dsys (dialogStep btoa now D e) = dsys D \<or> (\<exists>e'. dsys (dialogStep btoa now D e) = sysStep btoa now (dsys D) e')"
  by (cases e) (auto split: option.splits prod.splits)

text \<open>With the dialog mounted and unmounted by the layout, the application still only reaches
  orchestrator-reachable states, the dialog is mounted exactly while \<open>isSettingsOpen\<close>
  holds, and its saved message always has a timer pending that will hide it.\<close>

lemma dialogReachable_inv: "dialogReachable atob btoa D \<Longrightarrow> reachable atob btoa (dsys D) \<and> dialogInv D"
proof (induction rule: dialogReachable.induct)
  case (mount S)
  then show ?case using dialogInit_inv [of S] by (simp add: dialogInit_def)
next
  case (step D now e)
  have "reachable atob btoa (dsys (dialogStep btoa now D e))"
    using dialogStep_sys [of btoa now D e] step.IH reachable.step by metis
  then show ?case using step.IH dialogStep_inv by blast
qed

text \<open>The dialog only passes a key it trimmed, so \<open>initializeAiClient\<close> accepts it; the
  dialog stays open exactly when \<open>btoa\<close> throws.\<close>

lemma saveApiKey_settings:
  "k \<noteq> [] \<Longrightarrow> js_trim k = k \<Longrightarrow>
   isSettingsOpen (st (handleSaveApiKey now btoa (Some k) w)) = (isSettingsOpen (st w) \<and> isl (btoa k))"
  by (auto simp: handleSaveApiKey_def initializeAiClient_def js_truthy_def dispatch_frame removeApiKey_def
                 Let_def addToast_def split: sum.splits)

text \<open>A save whose \<open>btoa\<close> succeeds stores the key and closes (unmounts) the dialog.\<close>

lemma successful_save_closes:
  assumes "dialog D = Some ss" "js_trim (apiKeyInput ss) \<noteq> []" "btoa (js_trim (apiKeyInput ss)) = Inr enc"
  shows "dialog (dialogStep btoa now D (DialogInput SaveClick)) = None \<and>
         apiKey (st (world (dsys (dialogStep btoa now D (DialogInput SaveClick))))) = Some (js_trim (apiKeyInput ss))"
  using assms saveApiKey_settings [of "js_trim (apiKeyInput ss)" now btoa "world (dsys D)"]
  by (auto simp: withTimer_def handleSaveClick_def sysStep_def mountDialog_def js_trim_idem Let_def
                 handleSaveApiKey_def initializeAiClient_def js_truthy_def dispatch_frame addToast_def)

text \<open>
  C5. A save whose \<open>btoa\<close> throws (a key with a character outside Latin-1) leaves the
  dialog open showing its success message, \<open>API Key saved successfully!\<close>, while the
  key has been removed from the state and from storage and the last notification is the
  error: the dialog sets \<open>isSaved\<close> without waiting for the outcome of
  \<open>handleSaveApiKey\<close>.
\<close>

theorem failed_save_reports_success:
  assumes "isSettingsOpen (st (world (dsys D)))" "dialog D = Some ss" "js_trim (apiKeyInput ss) \<noteq> []"
    "btoa (js_trim (apiKeyInput ss)) = Inl m"
  shows "(\<exists>ss'. dialog (dialogStep btoa now D (DialogInput SaveClick)) = Some ss' \<and>
            savedMessage (settingsView (st (world (dsys (dialogStep btoa now D (DialogInput SaveClick))))) ss')) \<and>
         apiKey (st (world (dsys (dialogStep btoa now D (DialogInput SaveClick))))) = None \<and>
         gemini_api_key (storage (world (dsys (dialogStep btoa now D (DialogInput SaveClick))))) = None \<and>
         last (toasts (st (world (dsys (dialogStep btoa now D (DialogInput SaveClick)))))) =
           \<lparr>toast_id = nat_to_string now, message = m, toast_type = Error\<rparr>"
  using assms saveApiKey_settings [of "js_trim (apiKeyInput ss)" now btoa "world (dsys D)"]
  by (auto simp: withTimer_def handleSaveClick_def sysStep_def mountDialog_def js_trim_idem Let_def
                 settingsView_def handleSaveApiKey_def initializeAiClient_def js_truthy_def dispatch_frame
                 removeApiKey_def addToast_def)

theorem failed_save_reports_success_witness:
  "(\<exists>ss'. dialog (dialogStep (\<lambda>_. Inl ''InvalidCharacterError'') 3 exDialog (DialogInput SaveClick)) = Some ss' \<and>
     savedMessage (settingsView (st (world (dsys (dialogStep (\<lambda>_. Inl ''InvalidCharacterError'') 3 exDialog
                                                   (DialogInput SaveClick))))) ss')) \<and>
   apiKey (st (world (dsys (dialogStep (\<lambda>_. Inl ''InvalidCharacterError'') 3 exDialog (DialogInput SaveClick))))) = None \<and>
   gemini_api_key (storage (world (dsys (dialogStep (\<lambda>_. Inl ''InvalidCharacterError'') 3 exDialog
                                          (DialogInput SaveClick))))) = None \<and>
   last (toasts (st (world (dsys (dialogStep (\<lambda>_. Inl ''InvalidCharacterError'') 3 exDialog (DialogInput SaveClick)))))) =
     \<lparr>toast_id = nat_to_string 3, message = ''InvalidCharacterError'', toast_type = Error\<rparr>"
proof -
  have k: "js_trim ''k2'' = ''k2''" by code_simp
  show ?thesis
    using failed_save_reports_success [of exDialog "\<lparr>apiKeyInput = ''k2'', showKey = False, isSaved = False\<rparr>"
            "\<lambda>_. Inl ''InvalidCharacterError''" "''InvalidCharacterError''" 3]
    by (simp add: exDialog_def k)
qed

end
