(* ===== verification/MainView.thy ===== *)
theory MainView
  imports Panels
begin

text \<open>
  The main panel of \<^verbatim>\<open>src/components/MainContent.tsx\<close>: its local state (the
  active tab and the preview width), the built-in inspiration examples, the choice of
  what the panel shows (\<open>renderInnerContent\<close>) and the calls its buttons make on the
  provider, as orchestrator \<open>Event\<close>s. The view is a value of \<open>MainView\<close> that records
  every part of the rendered output that depends on state: which screen is shown, which
  tab and device button are highlighted, whether the device controls and the
  \<open>Updating...\<close> indicator appear, and what the preview or code panel receives.
  The code panel is the component \<open>CodePreview\<close>, which \<^verbatim>\<open>MainContent.tsx\<close> imports
  from \<^verbatim>\<open>./CodePreview.tsx\<close>; that file is not in the repository, so only the props
  it is given are modelled.
\<close>

definition inspirationExamples :: "ExampleItem list" where
  "inspirationExamples =
    [\<lparr>ex_prompt = ''A sleek, modern '' @ [CHR 0x22] @ ''Product of the Day'' @ [CHR 0x22] @ '' card, dark theme, suitable for a tech launch website.'',
      ex_htmlCode =
       ''<div class='' @ [CHR 0x22] @ ''p-8 bg-slate-900 rounded-2xl shadow-2xl shadow-cyan-500/10 border border-slate-800 flex items-center gap-8 max-w-2xl mx-auto'' @ [CHR 0x22] @ ''>'' @
       nl @
       ''      <img src='' @ [CHR 0x22] @ ''https://picsum.photos/seed/producthunt/120/120'' @ [CHR 0x22] @ '' alt='' @ [CHR 0x22] @ ''Product Logo'' @ [CHR 0x22] @ '' class='' @ [CHR 0x22] @ ''w-28 h-28 rounded-xl object-cover flex-shrink-0'' @ [CHR 0x22] @ '' />'' @
       nl @
       ''      <div class='' @ [CHR 0x22] @ ''flex-grow'' @ [CHR 0x22] @ ''>'' @
       nl @
       ''        <h3 class='' @ [CHR 0x22] @ ''text-2xl font-bold text-white'' @ [CHR 0x22] @ ''>QuantumLeap AI</h3>'' @
       nl @
       ''        <p class='' @ [CHR 0x22] @ ''text-slate-400 mt-1 mb-4'' @ [CHR 0x22] @ ''>The new standard for AI-powered analytics.</p>'' @
       nl @
       ''        <div class='' @ [CHR 0x22] @ ''flex items-center gap-2'' @ [CHR 0x22] @ ''>'' @
       nl @
       ''          <button class='' @ [CHR 0x22] @ ''bg-cyan-500 text-slate-900 font-bold py-2 px-5 rounded-lg text-sm hover:bg-cyan-400 transition-colors'' @ [CHR 0x22] @ ''>Upvote (1.2k)</button>'' @
       nl @
       ''          <button class='' @ [CHR 0x22] @ ''border border-slate-700 text-slate-300 font-medium py-2 px-5 rounded-lg text-sm hover:bg-slate-800 transition-colors'' @ [CHR 0x22] @ ''>Visit Website</button>'' @
       nl @
       ''        </div>'' @
       nl @
       ''      </div>'' @
       nl @
       ''    </div>''\<rparr>,
    \<lparr>ex_prompt = ''A clean hero section for a minimalist SaaS application, light theme.'',
      ex_htmlCode =
       ''<div class='' @ [CHR 0x22] @ ''text-center py-24 px-6 bg-slate-50'' @ [CHR 0x22] @ ''>'' @
       nl @
       ''      <h1 class='' @ [CHR 0x22] @ ''text-5xl md:text-7xl font-extrabold text-slate-900 tracking-tighter'' @ [CHR 0x22] @ ''>Simplicity Meets Power</h1>'' @
       nl @
       ''      <p class='' @ [CHR 0x22] @ ''max-w-2xl mx-auto mt-6 text-lg text-slate-600'' @ [CHR 0x22] @ ''>The last project management tool you'' @ [CHR 0x27] @ ''ll ever need. Streamline your workflow and boost your team'' @ [CHR 0x27] @ ''s productivity overnight.</p>'' @
       nl @
       ''      <div class='' @ [CHR 0x22] @ ''mt-8 flex justify-center gap-4'' @ [CHR 0x22] @ ''>'' @
       nl @
       ''        <button class='' @ [CHR 0x22] @ ''bg-slate-900 text-white font-semibold py-3 px-8 rounded-lg hover:bg-slate-700 transition-transform active:scale-95'' @ [CHR 0x22] @ ''>Get Started Free</button>'' @
       nl @
       ''        <button class='' @ [CHR 0x22] @ ''border border-slate-300 text-slate-700 font-semibold py-3 px-8 rounded-lg hover:bg-slate-200 transition-transform active:scale-95'' @ [CHR 0x22] @ ''>Learn More</button>'' @
       nl @
       ''      </div>'' @
       nl @
       ''    </div>''\<rparr>,
    \<lparr>ex_prompt = ''A single, impactful testimonial card with a rating.'',
      ex_htmlCode =
       ''<div class='' @ [CHR 0x22] @ ''p-8 bg-white rounded-2xl shadow-xl max-w-md mx-auto'' @ [CHR 0x22] @ ''>'' @
       nl @
       ''      <div class='' @ [CHR 0x22] @ ''flex items-center mb-4'' @ [CHR 0x22] @ ''>'' @
       nl @
       ''        <img src='' @ [CHR 0x22] @ ''https://picsum.photos/seed/testimonial/48/48'' @ [CHR 0x22] @ '' alt='' @ [CHR 0x22] @ ''Reviewer'' @ [CHR 0x22] @ '' class='' @ [CHR 0x22] @ ''w-12 h-12 rounded-full object-cover'' @ [CHR 0x22] @ '' />'' @
       nl @
       ''        <div class='' @ [CHR 0x22] @ ''ml-4'' @ [CHR 0x22] @ ''>'' @
       nl @
       ''          <p class='' @ [CHR 0x22] @ ''font-bold text-slate-800'' @ [CHR 0x22] @ ''>Sarah J.</p>'' @
       nl @
       ''          <p class='' @ [CHR 0x22] @ ''text-sm text-slate-500'' @ [CHR 0x22] @ ''>CEO, Tech Innovators</p>'' @
       nl @
       ''        </div>'' @
       nl @
       ''        <div class='' @ [CHR 0x22] @ ''ml-auto flex items-center gap-1 text-amber-400'' @ [CHR 0x22] @ ''>'' @
       nl @
       ''          <svg class='' @ [CHR 0x22] @ ''w-5 h-5'' @ [CHR 0x22] @ '' fill='' @ [CHR 0x22] @ ''currentColor'' @ [CHR 0x22] @ '' viewBox='' @ [CHR 0x22] @ ''0 0 20 20'' @ [CHR 0x22] @ ''><path d='' @ [CHR 0x22] @ ''M9.049 2.927c.3-.921 1.603-.921 1.902 0l1.07 3.292a1 1 0 00.95.69h3.462c.969 0 1.371 1.24.588 1.81l-2.8 2.034a1 1 0 00-.364 1.118l1.07 3.292c.3.921-.755 1.688-1.54 1.118l-2.8-2.034a1 1 0 00-1.175 0l-2.8 2.034c-.784.57-1.838-.197-1.539-1.118l1.07-3.292a1 1 0 00-.364-1.118L2.98 8.72c-.783-.57-.38-1.81.588-1.81h3.461a1 1 0 00.951-.69l1.07-3.292z'' @ [CHR 0x22] @ ''></path></svg>'' @
       nl @
       ''          <span class='' @ [CHR 0x22] @ ''font-bold text-slate-600 text-lg'' @ [CHR 0x22] @ ''>5.0</span>'' @
       nl @
       ''        </div>'' @
       nl @
       ''      </div>'' @
       nl @
       ''      <p class='' @ [CHR 0x22] @ ''text-slate-600 italic'' @ [CHR 0x22] @ ''>'' @ [CHR 0x22] @ ''This tool has completely revolutionized our design process. We'' @ [CHR 0x27] @ ''re delivering better results, faster than ever before. Highly recommended!'' @ [CHR 0x22] @ ''</p>'' @
       nl @
       ''    </div>''\<rparr>]"

datatype Tab = VisualTab | CodeTab

record MainState =
  activeTab :: Tab
  previewWidth :: string

definition initialMain :: MainState where
  "initialMain = \<lparr>activeTab = VisualTab, previewWidth = ''100%''\<rparr>"

text \<open>The three \<open>DeviceButton\<close>s: width and device name.\<close>

definition deviceButtons :: "(string \<times> string) list" where
  "deviceButtons = [(''375px'', ''Mobile''), (''768px'', ''Tablet''), (''100%'', ''Desktop'')]"

datatype MainEvent = SelectTab Tab | SelectDevice string

fun mainStep :: "MainState \<Rightarrow> MainEvent \<Rightarrow> MainState" where
  "mainStep m (SelectTab t) = m\<lparr>activeTab := t\<rparr>"
| "mainStep m (SelectDevice w) = m\<lparr>previewWidth := w\<rparr>"

text \<open>What the content area receives: \<open>VisualPreview\<close> with the markup and the width, or
  \<open>CodePreview\<close> with the markup, the conversion flag and the cache.\<close>

datatype Panel = VisualPanel string string | CodePanel string bool js_record

text \<open>
  \<open>WelcomeView k\<close>: the welcome screen, with the settings prompt shown and the example
  cards disabled when \<open>k\<close> (a key is set) is false. \<open>Workspace\<close>: the highlighted tab,
  the device buttons (each with whether it is highlighted) when the visual tab is active,
  whether \<open>Updating...\<close> is shown, and the panel.
\<close>

datatype MainView =
    LoadingView
  | WelcomeView bool
  | Workspace Tab "(string \<times> bool) list option" bool Panel

definition renderInnerContent :: "AppState \<Rightarrow> MainState \<Rightarrow> MainView" where
  "renderInnerContent s m =
     (case activeDesign s of
        None \<Rightarrow> (if isLoading s then LoadingView else WelcomeView (isApiKeySet s))
      | Some d \<Rightarrow>
          Workspace (activeTab m)
            (if activeTab m = VisualTab
             then Some (map (\<lambda>(w, _). (w, previewWidth m = w)) deviceButtons) else None)
            (isLoading s)
            (if activeTab m = VisualTab then VisualPanel (htmlCode d) (previewWidth m)
             else CodePanel (htmlCode d) (isConvertingCode s) (convertedCodeCache s)))"

text \<open>The buttons of the welcome screen and of the header; the example cards ignore clicks
  while no key is set (\<open>pointer-events-none\<close>).\<close>

definition welcomeExampleClick :: "AppState \<Rightarrow> ExampleItem \<Rightarrow> Event option" where
  "welcomeExampleClick s ex = (if isApiKeySet s then Some (LoadExample ex) else None)"

definition onOpenSettings :: Event where
  "onOpenSettings = Ui (SET_IS_SETTINGS_OPEN True)"

definition headerMenuClick :: "AppState \<Rightarrow> Event" where
  "headerMenuClick s = Ui (SET_IS_SIDEBAR_OPEN (\<not> isSidebarOpen s))"

text \<open>
  The rendered inputs of the panel. The tab buttons exist on the workspace, the device
  buttons on its visual tab, the example cards and the \<open>Configure API Key\<close> button on
  the welcome screen (the button only without a key), the header's menu and settings buttons
  always. The conversion request is the \<open>onConvertCode\<close> prop of the code tab's
  \<open>CodePreview\<close>, whose own guards are unknown (its file is missing), so any framework may
  be requested while the code tab shows.
\<close>

datatype MainInput =
    TabClick Tab | DeviceClick string | ExampleCardClick nat | ConfigureKeyClick
  | HeaderSettingsClick | HeaderMenuButton | ConvertRequest string

fun mainInput :: "AppState \<Rightarrow> MainState \<Rightarrow> MainInput \<Rightarrow> MainState \<times> Event option" where
  "mainInput s m (TabClick t) =
     (if activeDesign s \<noteq> None then (mainStep m (SelectTab t), None) else (m, None))"
| "mainInput s m (DeviceClick w) =
     (if activeDesign s \<noteq> None \<and> activeTab m = VisualTab \<and> w \<in> set (map fst deviceButtons)
      then (mainStep m (SelectDevice w), None) else (m, None))"
| "mainInput s m (ExampleCardClick i) =
     (if activeDesign s = None \<and> \<not> isLoading s \<and> i < length inspirationExamples
      then (m, welcomeExampleClick s (inspirationExamples ! i)) else (m, None))"
| "mainInput s m ConfigureKeyClick =
     (if activeDesign s = None \<and> \<not> isLoading s \<and> \<not> isApiKeySet s then (m, Some onOpenSettings)
      else (m, None))"
| "mainInput s m HeaderSettingsClick = (m, Some onOpenSettings)"
| "mainInput s m HeaderMenuButton = (m, Some (headerMenuClick s))"
| "mainInput s m (ConvertRequest fw) =
     (if activeDesign s \<noteq> None \<and> activeTab m = CodeTab then (m, Some (ConvertCode fw)) else (m, None))"

text \<open>\<open>WelcomeState\<close>: the settings prompt, the classes of the example grid, and the cards
  with their number and quoted prompt.\<close>

record WelcomeContent =
  settingsPrompt :: bool
  examplesClass :: string
  exampleCards :: "(nat \<times> string) list"

definition welcomeContent :: "bool \<Rightarrow> WelcomeContent" where
  "welcomeContent k =
     \<lparr>settingsPrompt = (\<not> k),
      examplesClass = (if \<not> k then ''opacity-50 pointer-events-none scale-95'' else ''opacity-100 scale-100''),
      exampleCards = map (\<lambda>(i, ex). (i + 1, [CHR 0x22] @ ex_prompt ex @ [CHR 0x22])) (enumerate 0 inspirationExamples)\<rparr>"

definition headerMenuLabel :: "AppState \<Rightarrow> string" where
  "headerMenuLabel s = (if isSidebarOpen s then ''Close menu'' else ''Open menu'')"

subsection \<open>Lemmas\<close>

text \<open>An active design is always what the panel shows, on either tab.\<close>

lemma render_shows_active_design:
  "activeDesign s = Some d \<Longrightarrow>
   (\<exists>ds. renderInnerContent s m = Workspace (activeTab m) ds (isLoading s)
          (if activeTab m = VisualTab then VisualPanel (htmlCode d) (previewWidth m)
           else CodePanel (htmlCode d) (isConvertingCode s) (convertedCodeCache s)))"
  by (simp add: renderInnerContent_def)

text \<open>Exactly one device button is highlighted when the width is one of theirs, none otherwise.\<close>

lemma device_highlight:
  "activeDesign s = Some d \<Longrightarrow> activeTab m = VisualTab \<Longrightarrow>
   renderInnerContent s m = Workspace VisualTab (Some hs) l pn \<Longrightarrow>
   length (filter snd hs) = (if previewWidth m \<in> fst ` set deviceButtons then 1 else 0)"
  by (auto simp: renderInnerContent_def deviceButtons_def)

text \<open>After any sequence of tab and device clicks the width is one of the device widths.\<close>

lemma mainStep_width:
  "previewWidth m \<in> fst ` set deviceButtons \<Longrightarrow> (\<And>w. SelectDevice w \<in> set es \<Longrightarrow> w \<in> fst ` set deviceButtons) \<Longrightarrow>
   previewWidth (foldl mainStep m es) \<in> fst ` set deviceButtons"
proof (induction es arbitrary: m)
  case (Cons e es)
  have "previewWidth (mainStep m e) \<in> fst ` set deviceButtons"
    using Cons.prems by (cases e) auto
  with Cons show ?case by simp
qed simp

text \<open>The welcome screen is shown exactly when there is no design and no request runs.\<close>

lemma render_welcome_iff:
  "(\<exists>k. renderInnerContent s m = WelcomeView k) \<longleftrightarrow> activeDesign s = None \<and> \<not> isLoading s"
  by (simp add: renderInnerContent_def split: option.splits)

text \<open>A click on an example card (accepted only with a key) replaces the session by the
  example: on a fresh panel the visual tab shows the example's markup at full width.\<close>

lemma st_handleLoadExample:
  "st (handleLoadExample now ex w) = appReducer now (st w) (LOAD_EXAMPLE ex (newProjectId now))"
  by (simp add: handleLoadExample_def setCurrentProjectId_def dispatch_frame)

lemma example_click_renders:
  "welcomeExampleClick (st (world S)) ex = Some e \<Longrightarrow>
   renderInnerContent (st (world (sysStep btoa now S e))) initialMain =
     Workspace VisualTab (Some [(''375px'', False), (''768px'', False), (''100%'', True)]) False
       (VisualPanel (ex_htmlCode ex) ''100%'')"
  by (auto simp: welcomeExampleClick_def sysStep_def st_handleLoadExample Let_def
        renderInnerContent_def initialMain_def deviceButtons_def initialState_def
        split: if_splits)

text \<open>The header's menu button toggles the sidebar.\<close>

lemma headerMenuClick_toggles:
  "isSidebarOpen (st (world (sysStep btoa now S (headerMenuClick (st (world S)))))) =
   (\<not> isSidebarOpen (st (world S)))"
  by (simp add: headerMenuClick_def sysStep_def dispatch_frame Let_def)

text \<open>The built-in examples bypass the generation pipeline; they are nevertheless markup
  that \<open>isValidHtml\<close> accepts.\<close>

lemma inspirationExamples_valid:
  "list_all (\<lambda>ex. isValidHtml (ex_htmlCode ex)) inspirationExamples"
  by code_simp

text \<open>The panel's inputs keep the preview width one of the device widths.\<close>

lemma mainInput_width:
  "previewWidth m \<in> fst ` set deviceButtons \<Longrightarrow> previewWidth (fst (mainInput s m x)) \<in> fst ` set deviceButtons"
  by (cases x) auto

text \<open>An example is loaded from the welcome screen only with a key and no request running, and
  the panel converts only from the code tab.\<close>

lemma mainInput_events:
  "snd (mainInput s m x) = Some (LoadExample ex) \<Longrightarrow>
     isApiKeySet s \<and> activeDesign s = None \<and> \<not> isLoading s \<and> ex \<in> set inspirationExamples"
  "snd (mainInput s m x) = Some (ConvertCode fw) \<Longrightarrow> activeDesign s \<noteq> None \<and> activeTab m = CodeTab"
  by (cases x; auto simp: welcomeExampleClick_def onOpenSettings_def headerMenuClick_def split: if_splits)+

lemma welcomeContent_cards:
  "map fst (exampleCards (welcomeContent k)) = [1, 2, 3] \<and> settingsPrompt (welcomeContent k) = (\<not> k)"
  by (simp add: welcomeContent_def inspirationExamples_def)

end
