(* ===== verification/AppUI.thy ===== *)
theory AppUI
  imports SidebarUI AppLayout MainView
begin

text \<open>
  The whole rendered application of \<^verbatim>\<open>src/App.tsx\<close>: \<open>AppLayout\<close> mounts the side
  panel, the main panel and, while \<open>isSettingsOpen\<close> holds, the settings dialog, all
  reading and changing the one provider state. \<open>AppUi\<close> holds the side panel's
  composition \<open>UiSys\<close> (which contains the orchestrator's \<open>Sys\<close>), the dialog's state
  and timers and the main panel's state. A step is an input on one component, a settlement
  of a component's own request or timer, the backdrop of the open side panel, or any other
  orchestrator event; after it the application re-renders: the side panel's effects run
  against the state before the step (\<open>sidebarEffects\<close>) and the dialog is mounted or
  unmounted (\<open>mountDialog\<close>).
\<close>

record AppUi =
  ui :: UiSys
  settings :: "SettingsState option"
  settingsTimers :: nat
  mainState :: MainState

datatype AppUiEvent =
    SidebarIn SidebarEvent
  | EnhanceDone Reply
  | ExamplesDone nat InspirationReply
  | DialogIn SettingsEvent
  | SavedTimer
  | MainIn MainInput
  | OverlayClick
  | CoreEvent Event

definition dialogOf :: "AppUi \<Rightarrow> DialogSys" where
  "dialogOf A = \<lparr>dsys = sys (ui A), dialog = settings A, savedTimers = settingsTimers A\<rparr>"

definition coreCall :: "(string \<Rightarrow> string + string) \<Rightarrow> nat \<Rightarrow> Event option \<Rightarrow> AppUi \<Rightarrow> AppUi" where
  "coreCall btoa now c A =
     (case c of None \<Rightarrow> A | Some ev \<Rightarrow> A\<lparr>ui := (ui A)\<lparr>sys := sysStep btoa now (sys (ui A)) ev\<rparr>\<rparr>)"

text \<open>The re-render after a step whose previous application state was \<open>s0\<close>.\<close>

definition rerender :: "AppState \<Rightarrow> AppUi \<Rightarrow> AppUi" where
  "rerender s0 A =
     (let U = sidebarEffects s0 (ui A);
          D = mountDialog \<lparr>dsys = sys U, dialog = settings A, savedTimers = settingsTimers A\<rparr>
      in A\<lparr>ui := U, settings := dialog D, settingsTimers := savedTimers D\<rparr>)"

fun appStep :: "(string \<Rightarrow> string + string) \<Rightarrow> nat \<Rightarrow> AppUi \<Rightarrow> AppUiEvent \<Rightarrow> AppUi" where
  "appStep btoa now A (SidebarIn x) =
     (let s0 = st (world (sys (ui A)))
      in case sidebarEvent s0 (projects (world (sys (ui A)))) (sbar (ui A)) x of
           (sb', c) \<Rightarrow> rerender s0 (A\<lparr>ui := runCall btoa now ((ui A)\<lparr>sbar := sb'\<rparr>) c\<rparr>))"
| "appStep btoa now A (EnhanceDone r) = A\<lparr>ui := uiStep btoa now (ui A) (EnhanceSettles r)\<rparr>"
| "appStep btoa now A (ExamplesDone i r) = A\<lparr>ui := uiStep btoa now (ui A) (ExamplesSettle i r)\<rparr>"
| "appStep btoa now A (DialogIn x) =
     (case settings A of
        None \<Rightarrow> A
      | Some ss \<Rightarrow>
          (let s0 = st (world (sys (ui A)))
           in case settingsEvent s0 ss x of
                (ss', tm, c) \<Rightarrow>
                  rerender s0 (coreCall btoa now c
                    (A\<lparr>settings := Some ss', settingsTimers := settingsTimers A + (if tm then 1 else 0)\<rparr>))))"
| "appStep btoa now A SavedTimer =
     (let D = dialogStep btoa now (dialogOf A) SavedTimerFires
      in A\<lparr>settings := dialog D, settingsTimers := savedTimers D\<rparr>)"
| "appStep btoa now A (MainIn x) =
     (let s0 = st (world (sys (ui A)))
      in case mainInput s0 (mainState A) x of
           (m', c) \<Rightarrow> rerender s0 (coreCall btoa now c (A\<lparr>mainState := m'\<rparr>)))"
| "appStep btoa now A OverlayClick =
     (let s0 = st (world (sys (ui A))) in rerender s0 (coreCall btoa now (overlayClick s0) A))"
| "appStep btoa now A (CoreEvent ev) =
     (let s0 = st (world (sys (ui A))) in rerender s0 (coreCall btoa now (Some ev) A))"

definition appInit :: "Sys \<Rightarrow> AppUi" where
  "appInit S =
     (let D = dialogInit S
      in \<lparr>ui = uiInit S, settings = dialog D, settingsTimers = savedTimers D, mainState = initialMain\<rparr>)"

definition appInv :: "AppUi \<Rightarrow> bool" where
  "appInv A =
     (uiInv (ui A) \<and> dialogInv (dialogOf A) \<and> previewWidth (mainState A) \<in> fst ` set deviceButtons)"

inductive appReachable :: "(string \<Rightarrow> string option) \<Rightarrow> (string \<Rightarrow> string + string) \<Rightarrow> AppUi \<Rightarrow> bool"
  for atob btoa where
  init: "reachable atob btoa S \<Longrightarrow> appReachable atob btoa (appInit S)"
| step: "appReachable atob btoa A \<Longrightarrow> appReachable atob btoa (appStep btoa now A e)"

text \<open>
  \<open>useAppContext\<close>: every component reads the provider through it. The context is either
  the provider's value (the state, the projects and the handlers, i.e. \<open>sysStep\<close>) or,
  outside a provider, \<open>defaultContextValue\<close> (the initial state, no projects, handlers
  that do nothing); the hook compares by reference and throws on the default.
\<close>

datatype ContextRef = DefaultContextRef | ProviderRef Sys

definition defaultContextValue :: "AppState \<times> Project list \<times> (Event \<Rightarrow> Sys \<Rightarrow> Sys)" where
  "defaultContextValue = (initialState, [], \<lambda>_ S. S)"

definition useAppContext ::
  "(string \<Rightarrow> string + string) \<Rightarrow> nat \<Rightarrow> ContextRef \<Rightarrow> string + (AppState \<times> Project list \<times> (Event \<Rightarrow> Sys \<Rightarrow> Sys))" where
  "useAppContext btoa now r =
     (case r of
        DefaultContextRef \<Rightarrow> Inl ''useAppContext must be used within an AppContextProvider''
      | ProviderRef S \<Rightarrow> Inr (st (world S), projects (world S), \<lambda>e S'. sysStep btoa now S' e))"

subsection \<open>Lemmas\<close>

text \<open>The composition agrees with each component's own model: a side-panel input is a step
  of \<open>UiSys\<close>, a dialog input a step of \<open>DialogSys\<close>.\<close>

lemma appStep_sidebar: "ui (appStep btoa now A (SidebarIn x)) = uiStep btoa now (ui A) (Input x)"
  by (simp add: rerender_def Let_def split: prod.splits)

lemma appStep_dialog: "dialogOf (appStep btoa now A (DialogIn x)) = dialogStep btoa now (dialogOf A) (DialogInput x)"
  by (simp add: rerender_def dialogOf_def coreCall_def Let_def split: prod.splits option.splits)

lemma rerender_inv:
  assumes "uiInv (ui A)" and "\<forall>ss. settings A = Some ss \<longrightarrow> isSaved ss \<longrightarrow> 0 < settingsTimers A"
  shows "uiInv (ui (rerender s0 A)) \<and> dialogInv (dialogOf (rerender s0 A)) \<and>
         sys (ui (rerender s0 A)) = sys (ui A) \<and> mainState (rerender s0 A) = mainState A"
proof -
  define D where "D = mountDialog \<lparr>dsys = sys (sidebarEffects s0 (ui A)), dialog = settings A,
                                   savedTimers = settingsTimers A\<rparr>"
  have inv: "dialogInv D" using assms(2) by (simp add: D_def dialogInv_mount)
  have "dialogOf (rerender s0 A) = \<lparr>dsys = dsys D, dialog = dialog D, savedTimers = savedTimers D\<rparr>"
    by (simp add: D_def rerender_def dialogOf_def Let_def)
  also have "\<dots> = D" by (cases D) simp
  finally show ?thesis using inv assms(1)
    by (simp add: rerender_def Let_def sidebarEffects_inv)
qed

lemma coreCall_frame [simp]:
  "uiInv (ui (coreCall btoa now c A)) = uiInv (ui A) \<and> settings (coreCall btoa now c A) = settings A \<and>
   settingsTimers (coreCall btoa now c A) = settingsTimers A \<and> mainState (coreCall btoa now c A) = mainState A"
  by (simp add: coreCall_def split: option.splits)

lemma coreCall_sys:
  "sys (ui (coreCall btoa now c A)) = sys (ui A) \<or> (\<exists>e. sys (ui (coreCall btoa now c A)) = sysStep btoa now (sys (ui A)) e)"
  by (auto simp: coreCall_def split: option.splits)

lemma uiStep_settle_sys [simp]:
  "sys (uiStep btoa now U (EnhanceSettles r)) = sys U"
  "sys (uiStep btoa now U (ExamplesSettle i r')) = sys U"
  by (simp_all split: option.splits)

lemma timers_ok: "dialogInv D \<Longrightarrow> \<forall>ss. dialog D = Some ss \<longrightarrow> isSaved ss \<longrightarrow> 0 < savedTimers D"
  by (simp add: dialogInv_def)

lemma rerender_frame [simp]:
  "sys (ui (rerender s0 A)) = sys (ui A) \<and> mainState (rerender s0 A) = mainState A"
  by (simp add: rerender_def Let_def)

lemma dialogOf_ui_same: "sys U = sys (ui A) \<Longrightarrow> dialogOf (A\<lparr>ui := U\<rparr>) = dialogOf A"
  by (simp add: dialogOf_def)

lemma appStep_timer: "dialogOf (appStep btoa now A SavedTimer) = dialogStep btoa now (dialogOf A) SavedTimerFires"
  by (simp add: dialogOf_def Let_def)

text \<open>A step of the application moves the orchestrator by at most one of its events.\<close>

lemma appStep_sys:
  "sys (ui (appStep btoa now A e)) = sys (ui A) \<or> (\<exists>e'. sys (ui (appStep btoa now A e)) = sysStep btoa now (sys (ui A)) e')"
proof (cases e)
  case (SidebarIn x)
  then show ?thesis using uiStep_sys [of btoa now "ui A" "Input x"] by (simp only: appStep_sidebar)
next
  case (DialogIn x)
  show ?thesis
  proof (cases "settings A")
    case (Some ss)
    obtain ss' tm c where ev: "settingsEvent (st (world (sys (ui A)))) ss x = (ss', tm, c)"
      by (cases "settingsEvent (st (world (sys (ui A)))) ss x")
    show ?thesis
      using coreCall_sys [of btoa now c "A\<lparr>settings := Some ss', settingsTimers := settingsTimers A + (if tm then 1 else 0)\<rparr>"]
      by (simp add: DialogIn Some ev Let_def)
  qed (simp add: DialogIn)
next
  case (MainIn x)
  obtain m' c where ev: "mainInput (st (world (sys (ui A)))) (mainState A) x = (m', c)"
    by (cases "mainInput (st (world (sys (ui A)))) (mainState A) x")
  show ?thesis using coreCall_sys [of btoa now c "A\<lparr>mainState := m'\<rparr>"] by (simp add: MainIn ev Let_def)
next
  case OverlayClick
  then show ?thesis using coreCall_sys [of btoa now "overlayClick (st (world (sys (ui A))))" A] by (simp add: Let_def)
next
  case (CoreEvent ev)
  then show ?thesis using coreCall_sys [of btoa now "Some ev" A] by (simp add: Let_def)
qed (simp_all add: Let_def del: uiStep.simps)

lemma appStep_inv:
  assumes inv: "appInv A" shows "appInv (appStep btoa now A e)"
proof -
  have ui: "uiInv (ui A)" and dl: "dialogInv (dialogOf A)"
    and w: "previewWidth (mainState A) \<in> fst ` set deviceButtons"
    using inv by (simp_all add: appInv_def)
  have tm: "\<forall>ss. settings A = Some ss \<longrightarrow> isSaved ss \<longrightarrow> 0 < settingsTimers A"
    using timers_ok [OF dl] by (simp add: dialogOf_def)
  show ?thesis
  proof (cases e)
    case (SidebarIn x)
    obtain sb' c where ev: "sidebarEvent (st (world (sys (ui A)))) (projects (world (sys (ui A)))) (sbar (ui A)) x = (sb', c)"
      by (cases "sidebarEvent (st (world (sys (ui A)))) (projects (world (sys (ui A)))) (sbar (ui A)) x")
    have "uiInv (ui (A\<lparr>ui := runCall btoa now ((ui A)\<lparr>sbar := sb'\<rparr>) c\<rparr>))"
      using input_call_inv [OF ui ev] by simp
    then show ?thesis
      using rerender_inv [of "A\<lparr>ui := runCall btoa now ((ui A)\<lparr>sbar := sb'\<rparr>) c\<rparr>" "st (world (sys (ui A)))"] tm w
      by (simp add: SidebarIn ev appInv_def)
  next
    case (DialogIn x)
    show ?thesis
    proof (cases "settings A")
      case None
      then show ?thesis using inv by (simp add: DialogIn)
    next
      case (Some ss)
      obtain ss' t c where ev: "settingsEvent (st (world (sys (ui A)))) ss x = (ss', t, c)"
        by (cases "settingsEvent (st (world (sys (ui A)))) ss x")
      have "isSaved ss' \<longrightarrow> 0 < settingsTimers A + (if t then 1 else 0)"
        using settingsEvent_saved [of "st (world (sys (ui A)))" ss x] tm Some ev by auto
      then show ?thesis
        using rerender_inv [of "coreCall btoa now c (A\<lparr>settings := Some ss', settingsTimers := settingsTimers A + (if t then 1 else 0)\<rparr>)"
                               "st (world (sys (ui A)))"] ui w
        by (simp add: DialogIn Some ev appInv_def Let_def)
    qed
  next
    case SavedTimer
    have "dialogInv (dialogOf (appStep btoa now A e))"
      using dialogStep_inv [OF dl] by (simp only: SavedTimer appStep_timer)
    then show ?thesis using ui w by (simp add: SavedTimer appInv_def Let_def)
  next
    case (MainIn x)
    obtain m' c where ev: "mainInput (st (world (sys (ui A)))) (mainState A) x = (m', c)"
      by (cases "mainInput (st (world (sys (ui A)))) (mainState A) x")
    have "previewWidth m' \<in> fst ` set deviceButtons"
      using mainInput_width [OF w, of "st (world (sys (ui A)))" x] ev by simp
    then show ?thesis
      using rerender_inv [of "coreCall btoa now c (A\<lparr>mainState := m'\<rparr>)" "st (world (sys (ui A)))"] ui tm
      by (simp add: MainIn ev appInv_def)
  next
    case OverlayClick
    then show ?thesis
      using rerender_inv [of "coreCall btoa now (overlayClick (st (world (sys (ui A))))) A" "st (world (sys (ui A)))"] ui tm w
      by (simp add: appInv_def Let_def)
  next
    case (CoreEvent ev)
    then show ?thesis
      using rerender_inv [of "coreCall btoa now (Some ev) A" "st (world (sys (ui A)))"] ui tm w
      by (simp add: appInv_def Let_def)
  next
    case (EnhanceDone r)
    then show ?thesis using uiStep_inv [OF ui, of btoa now "EnhanceSettles r"] dl w
      by (simp add: appInv_def dialogOf_ui_same del: uiStep.simps)
  next
    case (ExamplesDone i r)
    then show ?thesis using uiStep_inv [OF ui, of btoa now "ExamplesSettle i r"] dl w
      by (simp add: appInv_def dialogOf_ui_same del: uiStep.simps)
  qed
qed

lemma appInit_inv: "appInv (appInit S)"
proof -
  have "dialogOf (appInit S) =
        \<lparr>dsys = dsys (dialogInit S), dialog = dialog (dialogInit S), savedTimers = savedTimers (dialogInit S)\<rparr>"
    by (simp add: appInit_def dialogOf_def Let_def uiInit_def dialogInit_def split: prod.splits)
  also have "\<dots> = dialogInit S" by (cases "dialogInit S") simp
  finally show ?thesis
    using uiInit_inv [of S] dialogInit_inv [of S]
    by (simp add: appInv_def appInit_def Let_def initialMain_def deviceButtons_def)
qed

text \<open>Saving a key in the dialog is seen by the side panel: the dialog closes, and on the
  re-render the panel's effect notices the key and starts fetching inspiration prompts with
  the client built from it.\<close>

lemma key_save_starts_fetch:
  assumes "settings A = Some ss" "js_trim (apiKeyInput ss) = k" "k \<noteq> []" "btoa k = Inr enc"
    "\<not> isApiKeySet (st (world (sys (ui A))))"
  shows "settings (appStep btoa now A (DialogIn SaveClick)) = None \<and>
         apiKey (st (world (sys (ui (appStep btoa now A (DialogIn SaveClick)))))) = Some k \<and>
         examplesReqs (ui (appStep btoa now A (DialogIn SaveClick))) = examplesReqs (ui A) @ [Some k] \<and>
         isLoadingExamples (sbar (ui (appStep btoa now A (DialogIn SaveClick))))"
proof -
  have kt: "js_trim k = k" using assms(2) js_trim_idem by metis
  have save: "st (handleSaveApiKey now btoa (Some k) w) =
                appReducer now (appReducer now (appReducer now (st w) (SET_API_KEY (Some k)))
                  (SET_IS_SETTINGS_OPEN False)) (addToast now ''API Key saved successfully!'' Success) \<and>
              ai (handleSaveApiKey now btoa (Some k) w) = Some k" for w
    using assms(3,4) kt
    by (simp add: handleSaveApiKey_def initializeAiClient_def js_truthy_def dispatch_frame Let_def)
  show ?thesis
    using assms(1,3,5) kt save [of "world (sys (ui A))"]
    by (simp add: assms(2) withTimer_def handleSaveClick_def coreCall_def sysStep_def rerender_def
                  sidebarEffects_def mountDialog_def fetchExamplesStart_def syncLocalTitle_def
                  isApiKeySet_def js_truthy_def addToast_def Let_def)
qed

text \<open>A change of the title while the user edits it (a late first generation names the
  project) replaces the edit field's text by the synchronising effect, with the editor still
  open: what the user typed is lost, and the next blur saves the new title.\<close>

lemma title_sync_overwrites_edit:
  assumes "isEditingTitle (sbar (ui A))"
    and "chatTitle (st (world (sys (ui (appStep btoa now A (CoreEvent ev)))))) \<noteq> chatTitle (st (world (sys (ui A))))"
  shows "localTitle (sbar (ui (appStep btoa now A (CoreEvent ev)))) =
           chatTitle (st (world (sys (ui (appStep btoa now A (CoreEvent ev)))))) \<and>
         isEditingTitle (sbar (ui (appStep btoa now A (CoreEvent ev))))"
  using assms
  by (auto simp: rerender_def sidebarEffects_def coreCall_def syncLocalTitle_def fetchExamplesStart_def Let_def
           split: prod.splits if_splits)

text \<open>
  C40. Whatever the interleaving of inputs on the side panel, the settings dialog and the
  main panel, of settlements of the components' own requests and timers and of the
  orchestrator's events, the application only reaches orchestrator-reachable states and its
  components stay consistent with the shared state: the Enhance spinner shows exactly while
  an enhancement is pending, the delete dialog has a target, the inspiration placeholders
  show only while a fetch is pending, the settings dialog is mounted exactly while
  \<open>isSettingsOpen\<close> holds and its saved message always has a timer that will hide it,
  and the preview width is one of the device widths.
\<close>

theorem appReachable_inv:
  "appReachable atob btoa A \<Longrightarrow> reachable atob btoa (sys (ui A)) \<and> appInv A"
proof (induction rule: appReachable.induct)
  case (init S)
  have "sys (ui (appInit S)) = S" by (simp add: appInit_def uiInit_def Let_def split: prod.splits)
  then show ?case using init appInit_inv by simp
next
  case (step A now e)
  have "reachable atob btoa (sys (ui (appStep btoa now A e)))"
    using appStep_sys [of btoa now A e] step.IH reachable.step by metis
  then show ?case using step.IH appStep_inv by blast
qed

theorem appReachable_inv_witness:
  "reachable (\<lambda>s. Some s) (\<lambda>s. Inr s)
     (sys (ui (appStep (\<lambda>s. Inr s) 2 (appInit \<lparr>world = initApp (\<lambda>s. Some s) 1 exStorage, pending = []\<rparr>)
                 (MainIn HeaderSettingsClick)))) \<and>
   appInv (appStep (\<lambda>s. Inr s) 2 (appInit \<lparr>world = initApp (\<lambda>s. Some s) 1 exStorage, pending = []\<rparr>)
             (MainIn HeaderSettingsClick))"
proof -
  have "reachable (\<lambda>s. Some s) (\<lambda>s. Inr s) \<lparr>world = initApp (\<lambda>s. Some s) 1 exStorage, pending = []\<rparr>"
    using exStorage_start by (blast intro: reachable.start)
  then have "appReachable (\<lambda>s. Some s) (\<lambda>s. Inr s) (appInit \<lparr>world = initApp (\<lambda>s. Some s) 1 exStorage, pending = []\<rparr>)"
    by (rule appReachable.init)
  then have "appReachable (\<lambda>s. Some s) (\<lambda>s. Inr s)
               (appStep (\<lambda>s. Inr s) 2 (appInit \<lparr>world = initApp (\<lambda>s. Some s) 1 exStorage, pending = []\<rparr>)
                  (MainIn HeaderSettingsClick))"
    by (rule appReachable.step)
  then show ?thesis by (rule appReachable_inv)
qed

text \<open>The handlers of \<open>defaultContextValue\<close>, meant to let a component run outside a
  provider, are never handed out: the hook rejects exactly that value, and inside a provider
  every handler is a step of the orchestrator.\<close>

lemma useAppContext_default:
  "(\<exists>v. useAppContext btoa now r = Inr v) \<longleftrightarrow> r \<noteq> DefaultContextRef"
  "useAppContext btoa now (ProviderRef S) = Inr (s, ps, h) \<Longrightarrow> h e S = sysStep btoa now S e \<and> s = st (world S)"
  by (auto simp: useAppContext_def split: ContextRef.splits)

end
