(* ===== verification/Toast.thy ===== *)
theory Toast
  imports Reducer
begin

text \<open>
  The notification timer of \<^verbatim>\<open>src/components/Toast.tsx\<close>. A \<open>ToastMessage\<close> keeps
  \<open>isVisible\<close>, \<open>progress\<close> and \<open>isPaused\<close>; while it is not paused an interval of
  50 ms lowers the progress by \<open>(50 / 5000) * 100\<close>, which is exactly 1 in double
  arithmetic, so the progress stays an integer. When the progress would drop to 0 or below
  the updater hides the toast, schedules \<open>onDismiss(toast.id)\<close> after 300 ms and returns 0.
  The interval is not cleared at that point, so every later tick until the component
  unmounts schedules one more dismissal. \<open>scheduled\<close> counts the dismissal timers not yet
  fired; an event \<open>TimerFires\<close> is the oldest one firing, which makes
  \<open>ToastContainer\<close> dispatch \<open>REMOVE_TOAST\<close>. An interval tick exists only while the
  toast is not paused (the effect's cleanup clears it when \<open>isPaused\<close> changes).
\<close>

record ToastView =
  isVisible :: bool
  progress :: int
  isPaused :: bool
  scheduled :: nat

datatype ToastEvent = Tick | TimerFires | MouseEnter | MouseLeave | CloseClick

definition toastDuration :: int where
  "toastDuration = 5000"

definition toastInterval :: int where
  "toastInterval = 50"

definition decrement :: int where
  "decrement = toastInterval * 100 div toastDuration"

definition initialToastView :: ToastView where
  "initialToastView = \<lparr>isVisible = True, progress = 100, isPaused = False, scheduled = 0\<rparr>"

text \<open>One event; the second component tells whether \<open>onDismiss\<close> is called.\<close>

fun toastStep :: "ToastView \<Rightarrow> ToastEvent \<Rightarrow> ToastView \<times> bool" where
  "toastStep v Tick =
     (if isPaused v then (v, False)
      else
        (let np = progress v - decrement
         in if np \<le> 0 then (v\<lparr>isVisible := False, progress := 0, scheduled := scheduled v + 1\<rparr>, False)
            else (v\<lparr>progress := np\<rparr>, False)))"
| "toastStep v TimerFires =
     (if scheduled v > 0 then (v\<lparr>scheduled := scheduled v - 1\<rparr>, True) else (v, False))"
| "toastStep v MouseEnter = (v\<lparr>isPaused := True\<rparr>, False)"
| "toastStep v MouseLeave = (v\<lparr>isPaused := False\<rparr>, False)"
| "toastStep v CloseClick = (v\<lparr>isVisible := False, scheduled := scheduled v + 1\<rparr>, False)"

text \<open>
  \<open>ToastContainer\<close>'s \<open>onDismiss\<close>: the toast view of toast \<open>t\<close> and the reducer state
  evolve together; a fired dismissal dispatches \<open>REMOVE_TOAST t.id\<close>.
\<close>

definition onDismiss :: "nat \<Rightarrow> Toast \<Rightarrow> bool \<Rightarrow> AppState \<Rightarrow> AppState" where
  "onDismiss now t fired s = (if fired then appReducer now s (REMOVE_TOAST (toast_id t)) else s)"

fun toastRun :: "nat \<Rightarrow> Toast \<Rightarrow> ToastView \<times> AppState \<Rightarrow> ToastEvent list \<Rightarrow> ToastView \<times> AppState" where
  "toastRun now t (v, s) [] = (v, s)"
| "toastRun now t (v, s) (e # es) =
     (let (v', fired) = toastStep v e in toastRun now t (v', onDismiss now t fired s) es)"

text \<open>
  \<open>getToastStyles\<close>: the class names and the icon of each toast type; the
  \<open>default\<close> branch serves \<open>success\<close>. \<open>toastClasses\<close> is the part of the
  outer \<open>className\<close> that depends on state, \<open>toastContainer\<close> the toasts
  \<open>ToastContainer\<close> renders, in order, or nothing for an empty list.
\<close>

datatype ToastIcon = InformationCircleIcon | CheckIcon

record ToastStyles =
  ts_bg :: string
  ts_text :: string
  ts_icon :: string
  ts_progress :: string
  ts_Icon :: ToastIcon

fun getToastStyles :: "ToastType \<Rightarrow> ToastStyles" where
  "getToastStyles Error =
     \<lparr>ts_bg = ''bg-red-50 dark:bg-red-900/20 border-red-200 dark:border-red-800/50'',
      ts_text = ''text-red-800 dark:text-red-200'', ts_icon = ''text-red-500 dark:text-red-400'',
      ts_progress = ''bg-red-500 dark:bg-red-400'', ts_Icon = InformationCircleIcon\<rparr>"
| "getToastStyles Warning =
     \<lparr>ts_bg = ''bg-yellow-50 dark:bg-yellow-900/20 border-yellow-200 dark:border-yellow-800/50'',
      ts_text = ''text-yellow-800 dark:text-yellow-200'', ts_icon = ''text-yellow-500 dark:text-yellow-400'',
      ts_progress = ''bg-yellow-500 dark:bg-yellow-400'', ts_Icon = InformationCircleIcon\<rparr>"
| "getToastStyles Info =
     \<lparr>ts_bg = ''bg-blue-50 dark:bg-blue-900/20 border-blue-200 dark:border-blue-800/50'',
      ts_text = ''text-blue-800 dark:text-blue-200'', ts_icon = ''text-blue-500 dark:text-blue-400'',
      ts_progress = ''bg-blue-500 dark:bg-blue-400'', ts_Icon = InformationCircleIcon\<rparr>"
| "getToastStyles Success =
     \<lparr>ts_bg = ''bg-green-50 dark:bg-green-900/20 border-green-200 dark:border-green-800/50'',
      ts_text = ''text-green-800 dark:text-green-200'', ts_icon = ''text-green-500 dark:text-green-400'',
      ts_progress = ''bg-green-500 dark:bg-green-400'', ts_Icon = CheckIcon\<rparr>"

definition toastClasses :: "ToastType \<Rightarrow> ToastView \<Rightarrow> string list" where
  "toastClasses ty v =
     [ts_bg (getToastStyles ty), ts_text (getToastStyles ty),
      if isVisible v then ''translate-x-0 opacity-100'' else ''translate-x-full opacity-0'']"

definition toastContainer :: "AppState \<Rightarrow> string list option" where
  "toastContainer s = (if toasts s = [] then None else Some (map toast_id (toasts s)))"

text \<open>
  The rendered \<open>ToastMessage\<close>: the outer classes, the progress bar's class and its
  width \<open>`${progress}%`\<close>, the icon and its class, the message, and the close button's
  text class; the hover handlers are the events \<open>MouseEnter\<close>/\<open>MouseLeave\<close> and the
  close button is \<open>CloseClick\<close>.
\<close>

record ToastRender =
  tr_classes :: "string list"
  tr_barClass :: string
  tr_barWidth :: string
  tr_icon :: ToastIcon
  tr_iconClass :: string
  tr_message :: string
  tr_closeClass :: string

definition toastRender :: "Toast \<Rightarrow> ToastView \<Rightarrow> ToastRender" where
  "toastRender t v =
     (let styles = getToastStyles (toast_type t)
      in \<lparr>tr_classes = toastClasses (toast_type t) v,
          tr_barClass = ''h-full '' @ ts_progress styles,
          tr_barWidth = nat_to_string (nat (progress v)) @ ''%'',
          tr_icon = ts_Icon styles, tr_iconClass = ''w-5 h-5 '' @ ts_icon styles,
          tr_message = message t, tr_closeClass = ts_text styles\<rparr>)"

subsection \<open>Lemmas\<close>

lemma decrement_one [simp]: "decrement = 1"
  by (simp add: decrement_def toastInterval_def toastDuration_def)

lemma toastRun_append:
  "toastRun now t vs (es @ es') = toastRun now t (toastRun now t vs es) es'"
  by (induction now t vs es rule: toastRun.induct) (simp_all split: prod.splits)

lemma ticks_before_zero:
  "n < 100 \<Longrightarrow> toastRun now t (initialToastView, s) (replicate n Tick) =
                (initialToastView\<lparr>progress := 100 - int n\<rparr>, s)"
proof (induction n)
  case (Suc n)
  have "replicate (Suc n) Tick = replicate n Tick @ [Tick]" by (simp add: replicate_append_same)
  with Suc show ?case by (simp add: toastRun_append initialToastView_def onDismiss_def)
qed (simp add: initialToastView_def)

lemma ticks_after_zero:
  "toastRun now t (initialToastView, s) (replicate (100 + k) Tick) =
   (\<lparr>isVisible = False, progress = 0, isPaused = False, scheduled = Suc k\<rparr>, s)"
proof (induction k)
  case 0
  have "replicate 100 Tick = replicate 99 Tick @ [Tick]" using replicate_add [of 99 1 Tick] by simp
  then show ?case
    using ticks_before_zero [of 99 now t s] by (simp add: toastRun_append initialToastView_def onDismiss_def)
next
  case (Suc k)
  have "replicate (100 + Suc k) Tick = replicate (100 + k) Tick @ [Tick]"
    using replicate_add [of "100 + k" 1 Tick] by simp
  with Suc show ?case by (simp add: toastRun_append onDismiss_def)
qed

lemma toastStep_progress:
  "0 \<le> progress v \<Longrightarrow> 0 \<le> progress (fst (toastStep v e)) \<and> progress (fst (toastStep v e)) \<le> progress v"
  by (cases e) (auto simp: Let_def)

lemma toastRun_progress:
  "0 \<le> progress v \<Longrightarrow>
   0 \<le> progress (fst (toastRun now t (v, s) es)) \<and> progress (fst (toastRun now t (v, s) es)) \<le> progress v"
proof (induction es arbitrary: v s)
  case (Cons e es)
  obtain v' f where st: "toastStep v e = (v', f)" by (cases "toastStep v e")
  with Cons.prems toastStep_progress [of v e] have "0 \<le> progress v'" "progress v' \<le> progress v" by simp_all
  moreover have "0 \<le> progress (fst (toastRun now t (v', onDismiss now t f s) es)) \<and>
                 progress (fst (toastRun now t (v', onDismiss now t f s) es)) \<le> progress v'"
    using Cons.IH [of v' "onDismiss now t f s"] \<open>0 \<le> progress v'\<close> by blast
  ultimately show ?case using st by simp
qed simp

text \<open>
  C38. A toast that is never hovered or closed is hidden after exactly 100 interval ticks
  (5 seconds), having shown the progress \<open>100 - n\<close> after \<open>n < 100\<close> ticks; each further
  tick before it unmounts schedules one more dismissal; and when the first dismissal timer
  fires the toast is removed from the application state.
\<close>

theorem toast_auto_dismiss:
  "(n < 100 \<longrightarrow> fst (toastRun now t (initialToastView, s) (replicate n Tick)) =
                 initialToastView\<lparr>progress := 100 - int n\<rparr>) \<and>
   fst (toastRun now t (initialToastView, s) (replicate (100 + k) Tick)) =
     \<lparr>isVisible = False, progress = 0, isPaused = False, scheduled = Suc k\<rparr> \<and>
   t \<notin> set (toasts (snd (toastRun now t (initialToastView, s) (replicate 100 Tick @ [TimerFires]))))"
proof -
  have "toastRun now t (initialToastView, s) (replicate 100 Tick @ [TimerFires]) =
        (\<lparr>isVisible = False, progress = 0, isPaused = False, scheduled = 0\<rparr>,
         appReducer now s (REMOVE_TOAST (toast_id t)))"
    using ticks_after_zero [of now t s 0] by (simp add: toastRun_append onDismiss_def)
  then show ?thesis by (simp add: ticks_before_zero ticks_after_zero)
qed

theorem toast_auto_dismiss_witness:
  "fst (toastRun 0 \<lparr>toast_id = ''1'', message = ''m'', toast_type = Info\<rparr> (initialToastView, initialState)
          (replicate 40 Tick)) = initialToastView\<lparr>progress := 60\<rparr>"
  using toast_auto_dismiss [of 40 0 "\<lparr>toast_id = ''1'', message = ''m'', toast_type = Info\<rparr>" initialState 0]
  by simp

text \<open>
  C39. Whatever the sequence of ticks, hovers, closes and timer firings, the progress of a
  toast stays within 0 and 100.
\<close>

theorem toast_progress_bounds:
  "0 \<le> progress (fst (toastRun now t (initialToastView, s) es)) \<and>
   progress (fst (toastRun now t (initialToastView, s) es)) \<le> 100"
  using toastRun_progress [of initialToastView now t s es] by (simp add: initialToastView_def)

text \<open>Each toast type has its own colours; only a success toast shows the check icon.\<close>

lemma getToastStyles_inj: "inj getToastStyles"
proof (rule injI)
  fix a b assume "getToastStyles a = getToastStyles b"
  then show "a = b" by (cases a; cases b) simp_all
qed

lemma getToastStyles_icon: "ts_Icon (getToastStyles ty) = CheckIcon \<longleftrightarrow> ty = Success"
  by (cases ty) simp_all

text \<open>After its 100 ticks a toast is rendered off screen; a toast
  removed from the state is no longer rendered.\<close>

lemma toast_hidden_after_timer:
  "last (toastClasses ty (fst (toastRun now t (initialToastView, s) (replicate 100 Tick)))) =
   ''translate-x-full opacity-0''"
  using ticks_after_zero [of now t s 0] by (simp add: toastClasses_def)

lemma toastContainer_remove:
  "toastContainer (appReducer now s (REMOVE_TOAST i)) = Some ids \<Longrightarrow> i \<notin> set ids"
  by (auto simp: toastContainer_def split: if_splits)

text \<open>The progress bar's width is the decimal text of the progress followed by \<open>%\<close>: read
  back, it is the progress, and under any events it stays between \<open>0%\<close> and \<open>100%\<close>.\<close>

lemma toast_bar_width:
  "string_to_nat (butlast (tr_barWidth (toastRender t (fst (toastRun now t (initialToastView, s) es))))) =
     nat (progress (fst (toastRun now t (initialToastView, s) es))) \<and>
   string_to_nat (butlast (tr_barWidth (toastRender t (fst (toastRun now t (initialToastView, s) es))))) \<le> 100 \<and>
   last (tr_barWidth (toastRender t v)) = CHR ''%''"
  using toastRun_progress [of initialToastView now t s es]
  by (simp add: toastRender_def Let_def string_to_nat_nat_to_string initialToastView_def nat_le_iff)

end
