(* ===== verification/Preview.thy ===== *)
theory Preview
  imports Prelude
begin

text \<open>
  The preview panel of \<^verbatim>\<open>src/components/VisualPreview.tsx\<close>: the document the
  iframe renders (\<open>iframeSrcDoc\<close>), the file the HTML export writes (\<open>fullHtml\<close>,
  trimmed), and the panel's local state with the events that change it. The image
  rendering (\<open>html2canvas\<close>), the clipboard and the downloads are outcomes given as
  event arguments. \<open>canvas.toBlob\<close> calls its callback after \<open>handleCopyImage\<close> has
  returned, so the \<open>finally\<close> block has already cleared \<open>isCopying\<close> when the blob
  arrives, and an exception thrown in that callback is outside the \<open>try\<close>.
\<close>

subsection \<open>Documents\<close>

definition srcDocHead :: string where
  "srcDocHead =
     nl @
     ''    <html>'' @
     nl @
     ''      <head>'' @
     nl @
     ''        <script src='' @ [CHR 0x22] @ ''https://cdn.tailwindcss.com'' @ [CHR 0x22] @ ''></script>'' @
     nl @
     ''        <link rel='' @ [CHR 0x22] @ ''preconnect'' @ [CHR 0x22] @ '' href='' @ [CHR 0x22] @ ''https://fonts.googleapis.com'' @ [CHR 0x22] @ ''>'' @
     nl @
     ''        <link rel='' @ [CHR 0x22] @ ''preconnect'' @ [CHR 0x22] @ '' href='' @ [CHR 0x22] @ ''https://fonts.gstatic.com'' @ [CHR 0x22] @ '' crossorigin>'' @
     nl @
     ''        <link href='' @ [CHR 0x22] @ ''https://fonts.googleapis.com/css2?family=Poppins:wght@300;400;500;600;700&display=swap'' @ [CHR 0x22] @ '' rel='' @ [CHR 0x22] @ ''stylesheet'' @ [CHR 0x22] @ ''>'' @
     nl @
     ''        <style> '' @
     nl @
     ''          body { '' @
     nl @
     ''            font-family: '' @ [CHR 0x27] @ ''Poppins'' @ [CHR 0x27] @ '', sans-serif; '' @
     nl @
     ''            margin: 0;'' @
     nl @
     ''            padding: 0;'' @
     nl @
     ''          } '' @
     nl @
     ''        </style>'' @
     nl @
     ''      </head>'' @
     nl @
     ''      <body class='' @ [CHR 0x22] @ ''bg-white'' @ [CHR 0x22] @ ''>'' @
     nl @
     ''        ''"

definition srcDocTail :: string where
  "srcDocTail =
     nl @
     ''        <script>'' @
     nl @
     ''          document.addEventListener('' @ [CHR 0x27] @ ''click'' @ [CHR 0x27] @ '', function(e) {'' @
     nl @
     ''            const target = e.target.closest('' @ [CHR 0x27] @ ''a, button, [role='' @ [CHR 0x22] @ ''button'' @ [CHR 0x22] @ ''], input[type='' @ [CHR 0x22] @ ''submit'' @ [CHR 0x22] @ '']'' @ [CHR 0x27] @ '');'' @
     nl @
     ''            if (target) {'' @
     nl @
     ''              e.preventDefault();'' @
     nl @
     ''            }'' @
     nl @
     ''          }, true);'' @
     nl @
     ''          '' @
     nl @
     ''          // Signal when page is loaded'' @
     nl @
     ''          window.addEventListener('' @ [CHR 0x27] @ ''load'' @ [CHR 0x27] @ '', function() {'' @
     nl @
     ''            setTimeout(() => {'' @
     nl @
     ''              parent.postMessage('' @ [CHR 0x27] @ ''iframe-loaded'' @ [CHR 0x27] @ '', '' @ [CHR 0x27] @ ''*'' @ [CHR 0x27] @ '');'' @
     nl @
     ''            }, 100);'' @
     nl @
     ''          });'' @
     nl @
     ''        </script>'' @
     nl @
     ''      </body>'' @
     nl @
     ''    </html>'' @
     nl @
     ''  ''"

definition iframeSrcDoc :: "string \<Rightarrow> string" where
  "iframeSrcDoc htmlCode = srcDocHead @ htmlCode @ srcDocTail"

definition exportHead :: string where
  "exportHead =
     ''<!DOCTYPE html>'' @
     nl @
     ''<html lang='' @ [CHR 0x22] @ ''en'' @ [CHR 0x22] @ ''>'' @
     nl @
     ''<head>'' @
     nl @
     ''  <meta charset='' @ [CHR 0x22] @ ''UTF-8'' @ [CHR 0x22] @ ''>'' @
     nl @
     ''  <meta name='' @ [CHR 0x22] @ ''viewport'' @ [CHR 0x22] @ '' content='' @ [CHR 0x22] @ ''width=device-width, initial-scale=1.0'' @ [CHR 0x22] @ ''>'' @
     nl @
     ''  <script src='' @ [CHR 0x22] @ ''https://cdn.tailwindcss.com'' @ [CHR 0x22] @ ''></script>'' @
     nl @
     ''  <title>DAssigner Ai Design</title>'' @
     nl @
     ''  <!-- Generated with DAssigner AI -->'' @
     nl @
     ''</head>'' @
     nl @
     ''<body class='' @ [CHR 0x22] @ ''bg-white'' @ [CHR 0x22] @ ''>'' @
     nl @
     ''  ''"

definition exportTail :: string where
  "exportTail =
     nl @
     ''</body>'' @
     nl @
     ''</html>''"

definition fullHtml :: "string \<Rightarrow> string" where
  "fullHtml htmlCode = exportHead @ htmlCode @ exportTail"

text \<open>The content of the exported file: \<open>fullHtml.trim()\<close>.\<close>

definition exportedFile :: "string \<Rightarrow> string" where
  "exportedFile htmlCode = js_trim (fullHtml htmlCode)"

subsection \<open>Panel state\<close>

record PreviewState =
  isCopying :: bool
  copySuccess :: bool
  isDownloading :: bool
  isFullscreen :: bool
  pv_isLoading :: bool

definition initialPreview :: PreviewState where
  "initialPreview = \<lparr>isCopying = False, copySuccess = False, isDownloading = False,
                     isFullscreen = False, pv_isLoading = True\<rparr>"

text \<open>
  Events: a message posted to the window, a key press, the fullscreen button, a click on
  copy or download, the settlement of \<open>generateCanvas\<close> (\<open>True\<close> when it resolves), the
  \<open>toBlob\<close> callback (\<open>True\<close> when it gets a blob), the settlement of the clipboard
  write, the 2.5 s timer that resets the copy mark, and the end of a download.
\<close>

datatype PreviewEvent =
    WindowMessage string
  | KeyDown string
  | ToggleFullscreen
  | CopyClick
  | CopyCanvas bool
  | BlobReady bool
  | ClipboardDone bool
  | CopySuccessTimeout
  | DownloadClick
  | DownloadCanvas bool

text \<open>What an event shows the user besides the state: an \<open>alert\<close>, or an uncaught error.\<close>

datatype PreviewOutput = Alert string | Uncaught string

fun previewStep :: "PreviewState \<Rightarrow> PreviewEvent \<Rightarrow> PreviewState \<times> PreviewOutput list" where
  "previewStep p (WindowMessage d) = (if d = ''iframe-loaded'' then (p\<lparr>pv_isLoading := False\<rparr>, []) else (p, []))"
| "previewStep p (KeyDown k) =
     (if k = ''Escape'' \<and> isFullscreen p then (p\<lparr>isFullscreen := False\<rparr>, []) else (p, []))"
| "previewStep p ToggleFullscreen = (p\<lparr>isFullscreen := \<not> isFullscreen p\<rparr>, [])"
| "previewStep p CopyClick = (p\<lparr>isCopying := True, copySuccess := False\<rparr>, [])"
| "previewStep p (CopyCanvas ok) =
     (if ok then (p\<lparr>isCopying := False\<rparr>, [])
      else (p\<lparr>isCopying := False\<rparr>,
            [Alert ''Failed to generate image for copying. Please try downloading instead.'']))"
| "previewStep p (BlobReady b) =
     (if b then (p, []) else (p, [Uncaught ''Canvas to Blob conversion failed.'']))"
| "previewStep p (ClipboardDone ok) =
     (if ok then (p\<lparr>copySuccess := True\<rparr>, [])
      else (p, [Alert ''Failed to copy image. Your browser might have blocked it. Please try again or download instead.'']))"
| "previewStep p CopySuccessTimeout = (p\<lparr>copySuccess := False\<rparr>, [])"
| "previewStep p DownloadClick = (p\<lparr>isDownloading := True\<rparr>, [])"
| "previewStep p (DownloadCanvas ok) =
     (if ok then (p\<lparr>isDownloading := False\<rparr>, [])
      else (p\<lparr>isDownloading := False\<rparr>, [Alert ''Failed to download image. Please try again.'']))"

text \<open>The effect that locks the page scroll while the preview is fullscreen.\<close>

definition bodyOverflow :: "PreviewState \<Rightarrow> string" where
  "bodyOverflow p = (if isFullscreen p then ''hidden'' else ''auto'')"

fun previewRun :: "PreviewState \<Rightarrow> PreviewEvent list \<Rightarrow> PreviewState \<times> PreviewOutput list" where
  "previewRun p [] = (p, [])"
| "previewRun p (e # es) =
     (let (p1, o1) = previewStep p e; (p2, o2) = previewRun p1 es in (p2, o1 @ o2))"

subsection \<open>Rendered panel\<close>

text \<open>
  The panel renders the action bar below the preview and, while fullscreen, a second bar in
  the fullscreen modal; each bar has the four \<open>ActionButton\<close>s. A click reaches the
  handler only on a rendered bar and an enabled button; the export button starts the
  download of the file \<open>exportedFile\<close> with its file name.
\<close>

datatype PreviewBar = MainBar | FullscreenBar

datatype PreviewButton = CopyButton | DownloadButton | ExportButton | FullscreenButton

definition barRendered :: "PreviewState \<Rightarrow> PreviewBar \<Rightarrow> bool" where
  "barRendered p bar = (case bar of MainBar \<Rightarrow> True | FullscreenBar \<Rightarrow> isFullscreen p)"

definition buttonDisabled :: "PreviewState \<Rightarrow> PreviewButton \<Rightarrow> bool" where
  "buttonDisabled p b =
     (case b of CopyButton \<Rightarrow> isCopying p \<or> copySuccess p | DownloadButton \<Rightarrow> isDownloading p | _ \<Rightarrow> False)"

definition previewClick ::
  "string \<Rightarrow> PreviewState \<Rightarrow> PreviewBar \<Rightarrow> PreviewButton \<Rightarrow> PreviewState \<times> PreviewOutput list \<times> (string \<times> string) option" where
  "previewClick htmlCode p bar b =
     (if \<not> barRendered p bar \<or> buttonDisabled p b then (p, [], None)
      else (case b of
              CopyButton \<Rightarrow> (fst (previewStep p CopyClick), snd (previewStep p CopyClick), None)
            | DownloadButton \<Rightarrow> (fst (previewStep p DownloadClick), snd (previewStep p DownloadClick), None)
            | ExportButton \<Rightarrow> (p, [], Some (''dassigner-ai-design.html'', exportedFile htmlCode))
            | FullscreenButton \<Rightarrow> (fst (previewStep p ToggleFullscreen), snd (previewStep p ToggleFullscreen), None)))"

text \<open>\<open>ActionButton\<close>'s state-dependent classes.\<close>

definition actionButtonClasses :: "bool \<Rightarrow> bool \<Rightarrow> string list" where
  "actionButtonClasses disabled primary =
     [if disabled then ''opacity-50 cursor-not-allowed'' else ''hover:scale-105 active:scale-95'',
      if primary then ''bg-blue-500 hover:bg-blue-600 text-white shadow-lg hover:shadow-xl''
      else ''bg-white/90 hover:bg-white text-gray-700 shadow-md hover:shadow-lg'']"

record PreviewFrame =
  frame_srcDoc :: string
  frame_title :: string
  frame_sandbox :: string

record PreviewView =
  loadingOverlay :: bool
  copyIcon :: string
  downloadIcon :: string
  frames :: "PreviewFrame list"
  containerWidth :: string
  fullscreenModal :: bool

definition previewView :: "string \<Rightarrow> string \<Rightarrow> PreviewState \<Rightarrow> PreviewView" where
  "previewView htmlCode previewWidth p =
     \<lparr>loadingOverlay = pv_isLoading p,
      copyIcon = (if copySuccess p then ''CheckIcon'' else ''CopyIcon''),
      downloadIcon = (if isDownloading p then ''LoadingSpinner'' else ''ImageIcon''),
      frames = \<lparr>frame_srcDoc = iframeSrcDoc htmlCode, frame_title = ''Live HTML Preview'',
                frame_sandbox = ''allow-scripts''\<rparr> #
               (if isFullscreen p
                then [\<lparr>frame_srcDoc = iframeSrcDoc htmlCode, frame_title = ''Fullscreen HTML Preview'',
                        frame_sandbox = ''allow-scripts''\<rparr>] else []),
      containerWidth = previewWidth, fullscreenModal = isFullscreen p\<rparr>"

subsection \<open>Render containers\<close>

text \<open>
  \<open>generateCanvas\<close> builds an off-screen container holding the design, appends it to
  \<open>document.body\<close>, waits for its images (each image promise resolves on load and on
  error alike), 100 ms and \<open>html2canvas\<close>, and in its \<open>finally\<close> removes the container
  if the body still contains it. Copy and download each run it, so their containers are in
  the body together when both run. \<open>PreviewDom\<close> adds to the panel's state the containers
  attached (numbered per call) and the call each of copy and download is waiting for.
\<close>

record RenderContainer =
  rc_id :: string
  rc_position :: string
  rc_width :: string
  rc_background :: string
  rc_innerHTML :: string

definition renderContainer :: "string \<Rightarrow> RenderContainer" where
  "renderContainer htmlCode =
     \<lparr>rc_id = ''dassigner-render-container'', rc_position = ''absolute'', rc_width = ''1280px'',
      rc_background = ''white'', rc_innerHTML = htmlCode\<rparr>"

definition detachContainer :: "nat \<Rightarrow> nat list \<Rightarrow> nat list" where
  "detachContainer k body = (if k \<in> set body then remove1 k body else body)"

record PreviewDom =
  pv :: PreviewState
  containers :: "nat list"
  nextCanvas :: nat
  copyJob :: "nat option"
  downloadJob :: "nat option"

definition initialDom :: PreviewDom where
  "initialDom = \<lparr>pv = initialPreview, containers = [], nextCanvas = 0, copyJob = None, downloadJob = None\<rparr>"

fun domStep :: "PreviewDom \<Rightarrow> PreviewEvent \<Rightarrow> PreviewDom" where
  "domStep D CopyClick =
     (if buttonDisabled (pv D) CopyButton then D
      else D\<lparr>pv := fst (previewStep (pv D) CopyClick), containers := containers D @ [nextCanvas D],
             copyJob := Some (nextCanvas D), nextCanvas := Suc (nextCanvas D)\<rparr>)"
| "domStep D (CopyCanvas ok) =
     (case copyJob D of
        None \<Rightarrow> D
      | Some k \<Rightarrow> D\<lparr>pv := fst (previewStep (pv D) (CopyCanvas ok)),
                    containers := detachContainer k (containers D), copyJob := None\<rparr>)"
| "domStep D DownloadClick =
     (if buttonDisabled (pv D) DownloadButton then D
      else D\<lparr>pv := fst (previewStep (pv D) DownloadClick), containers := containers D @ [nextCanvas D],
             downloadJob := Some (nextCanvas D), nextCanvas := Suc (nextCanvas D)\<rparr>)"
| "domStep D (DownloadCanvas ok) =
     (case downloadJob D of
        None \<Rightarrow> D
      | Some k \<Rightarrow> D\<lparr>pv := fst (previewStep (pv D) (DownloadCanvas ok)),
                    containers := detachContainer k (containers D), downloadJob := None\<rparr>)"
| "domStep D e = D\<lparr>pv := fst (previewStep (pv D) e)\<rparr>"

definition domInv :: "PreviewDom \<Rightarrow> bool" where
  "domInv D =
     (distinct (containers D) \<and>
      set (containers D) = set_option (copyJob D) \<union> set_option (downloadJob D) \<and>
      (\<forall>k \<in> set (containers D). k < nextCanvas D) \<and>
      (copyJob D = None \<or> copyJob D \<noteq> downloadJob D) \<and>
      (copyJob D \<noteq> None \<longleftrightarrow> isCopying (pv D)) \<and> (downloadJob D \<noteq> None \<longleftrightarrow> isDownloading (pv D)))"

subsection \<open>Lemmas\<close>

lemma previewRun_append:
  "previewRun p (es @ es') =
   (let (p1, o1) = previewRun p es; (p2, o2) = previewRun p1 es' in (p2, o1 @ o2))"
  by (induction p es rule: previewRun.induct) (simp_all split: prod.splits)

text \<open>The exported file is the document untouched by the trim, and the design is found in it at a fixed offset.\<close>

lemma exportedFile_design:
  "exportedFile h = fullHtml h \<and> take (length h) (drop (length exportHead) (exportedFile h)) = h"
proof -
  have "js_trim (fullHtml h) = fullHtml h"
    by (rule js_trim_id) (simp_all add: fullHtml_def exportHead_def exportTail_def nl_def is_js_space_def)
  then show ?thesis by (simp add: exportedFile_def fullHtml_def)
qed

text \<open>Once the first document has signalled its load, the loading overlay never comes back.\<close>

lemma previewStep_loading: "\<not> pv_isLoading p \<Longrightarrow> \<not> pv_isLoading (fst (previewStep p e))"
  by (cases e) simp_all

lemma preview_loading_once:
  "\<not> pv_isLoading p \<Longrightarrow> \<not> pv_isLoading (fst (previewRun p es))"
proof (induction es arbitrary: p)
  case (Cons e es)
  obtain p1 o1 where s: "previewStep p e = (p1, o1)" by (cases "previewStep p e")
  with Cons.prems previewStep_loading [of p e] have "\<not> pv_isLoading p1" by simp
  with Cons.IH [of p1] s show ?case by (cases "previewRun p1 es") simp
qed simp

text \<open>Every copy attempt ends with \<open>isCopying\<close> cleared once the canvas settles, whatever its outcome.\<close>

lemma copy_clears_flag:
  "\<not> isCopying (fst (previewRun p [CopyClick, CopyCanvas ok]))"
  by simp

text \<open>A copy or download cannot be restarted from either bar while it runs: the button is
  disabled, and a copy stays disabled while its success mark shows.\<close>

lemma click_while_busy:
  "isCopying p \<or> copySuccess p \<Longrightarrow> previewClick h p bar CopyButton = (p, [], None)"
  "isDownloading p \<Longrightarrow> previewClick h p bar DownloadButton = (p, [], None)"
  by (simp_all add: previewClick_def buttonDisabled_def)

text \<open>Both frames render the same document in a sandbox that allows scripts but not the
  parent's origin, and the export button of either rendered bar downloads the exported file.\<close>

lemma preview_frames:
  "fr \<in> set (frames (previewView h w p)) \<Longrightarrow> frame_srcDoc fr = iframeSrcDoc h \<and> frame_sandbox fr = ''allow-scripts''"
  by (auto simp: previewView_def split: if_splits)

lemma export_click:
  "barRendered p bar \<Longrightarrow> previewClick h p bar ExportButton = (p, [], Some (''dassigner-ai-design.html'', exportedFile h))"
  by (simp add: previewClick_def buttonDisabled_def)

text \<open>The fullscreen button opens the modal with its own bar and a second frame; Escape or the
  modal's button closes it and unlocks the page scroll.\<close>

lemma fullscreen_round:
  "\<not> isFullscreen p \<Longrightarrow>
   (let p1 = fst (previewClick h p MainBar FullscreenButton)
    in fullscreenModal (previewView h w p1) \<and> length (frames (previewView h w p1)) = 2 \<and>
       barRendered p1 FullscreenBar \<and> bodyOverflow p1 = ''hidden'' \<and>
       fst (previewStep p1 (KeyDown ''Escape'')) = p \<and>
       fst (previewClick h p1 FullscreenBar FullscreenButton) = p \<and> bodyOverflow p = ''auto'')"
  by (simp add: previewClick_def buttonDisabled_def barRendered_def previewView_def bodyOverflow_def)

lemma domStep_inv: "domInv D \<Longrightarrow> domInv (domStep D e)"
  by (cases e)
     (auto simp: domInv_def detachContainer_def buttonDisabled_def split: option.splits if_splits)

lemma initialDom_inv: "domInv initialDom"
  by (simp add: domInv_def initialDom_def initialPreview_def)

text \<open>Whatever the order of clicks and settlements, every attached render container belongs
  to a copy or download still waiting for its canvas: once neither runs, the page body holds
  none of them, and at most two are attached at once.\<close>

lemma preview_containers_cleaned:
  "domInv (foldl domStep initialDom es) \<and>
   (\<not> isCopying (pv (foldl domStep initialDom es)) \<and> \<not> isDownloading (pv (foldl domStep initialDom es)) \<longrightarrow>
      containers (foldl domStep initialDom es) = []) \<and>
   length (containers (foldl domStep initialDom es)) \<le> 2"
proof -
  have inv: "domInv (foldl domStep D es)" if "domInv D" for D
    using that by (induction es arbitrary: D) (simp_all add: domStep_inv)
  then have i: "domInv (foldl domStep initialDom es)" using initialDom_inv by blast
  moreover have "length (containers (foldl domStep initialDom es)) \<le> 2"
  proof -
    let ?D = "foldl domStep initialDom es"
    have "length (containers ?D) = card (set_option (copyJob ?D) \<union> set_option (downloadJob ?D))"
      using i by (simp add: domInv_def distinct_card [symmetric])
    also have "\<dots> \<le> card (set_option (copyJob ?D)) + card (set_option (downloadJob ?D))"
      by (rule card_Un_le)
    also have "\<dots> \<le> 2" by (cases "copyJob ?D"; cases "downloadJob ?D") simp_all
    finally show ?thesis .
  qed
  ultimately show ?thesis by (auto simp: domInv_def)
qed

text \<open>Copy and download started together attach two containers with the same element id.\<close>

lemma copy_download_two_containers:
  "containers (foldl domStep initialDom [CopyClick, DownloadClick]) = [0, 1] \<and>
   rc_id (renderContainer h) = ''dassigner-render-container''"
  by (simp add: initialDom_def initialPreview_def buttonDisabled_def renderContainer_def)

end
