(* ===== verification/Spec2Isabelle.thy ===== *)
theory Spec2Isabelle
  imports AppUI Toast Preview
begin

text \<open>
  A verification development of DAssigner-AI, a React front end in which a user
  describes a web page, a Gemini model returns HTML, and the application keeps the
  designs of each project as a restorable history in \<open>localStorage\<close>.

  \<^bold>\<open>Parts of the program and how they interact.\<close>
  \<^verbatim>\<open>src/App.tsx\<close> holds the application state in a reducer (\<open>appReducer\<close>), the
  list of saved projects, the effects that restore and save them, and the handlers the
  components call. The handlers call the service module
  \<^verbatim>\<open>src/services/geminiService.ts\<close>, which keeps the client in a module variable,
  validates requests and extracts and sanitizes the markup of the model's replies. The
  components (\<^verbatim>\<open>src/components/\<close>) render the state and call the handlers or
  dispatch actions directly.

  \<^bold>\<open>Theories.\<close>
  \<^item> \<open>Prelude\<close>: the JavaScript primitives the sources rely on (\<open>trim\<close>,
    \<open>substring\<close>, \<open>indexOf\<close>, \<open>lastIndexOf\<close>, \<open>findIndex\<close>, truthiness,
    \<open>Number.toString\<close> with its inverse) and their lemmas.
  \<^item> \<open>Types\<close>: the interfaces of \<^verbatim>\<open>src/types.ts\<close> as records, with the
    well-formedness of a project (its active design is one of its history's designs).
  \<^item> \<open>Reducer\<close>: \<open>AppState\<close>, \<open>AppAction\<close>, \<open>initialState\<close> and \<open>appReducer\<close>
    of \<^verbatim>\<open>src/App.tsx\<close>, one equation per case; the clock read by \<open>Date.now()\<close> is
    an argument. C1--C4, C6, C7, C9--C11: the session invariant, generation, restore, new
    project and example loading, history ids, the conversion cache.
  \<^item> \<open>Markup\<close>: \<open>isValidHtml\<close>, \<open>sanitizeHtml\<close> (each regular expression of the
    source as a matcher, a global \<open>replace\<close> as the scanner \<open>js_replace_all\<close>) and the
    fallbacks of \<open>extractCode\<close>, with lemmas on scans that leave text alone (a prefix no
    match can start in is kept; a string without \<open><\<close>, quotes or colons is fixed by
    the respective pass). C19--C20: no \<open>javascript:\<close> URL survives; for every inner
    body and payload, a script block nested in the letters of a script tag is rebuilt by
    the single pass into a live element.
  \<^item> \<open>Service\<close>: every function of \<^verbatim>\<open>geminiService.ts\<close>. The client variable
    \<open>ai\<close> is the trimmed key it was built with; errors are \<open>Inl\<close> values of
    \<open>ServiceError\<close>; the outcome of each SDK request is an input (\<open>Reply\<close>,
    \<open>InspirationReply\<close>); the system instruction as UTF-16 code units, since one of
    its lines holds three code units outside Latin-1 that \<open>char\<close> cannot hold.
    C21--C23, C25: accepted markup is validated and sanitized; for every design body, a
    reply in the instruction's output protocol is returned whole with its start marker,
    since the protocol's closing tag is not the one extracted; the full characterization
    of the inspiration prompts and the contract of the conversion request.
  \<^item> \<open>Repository\<close>: the provider's \<open>World\<close> (reducer state, project list, the four
    storage keys, the client), the start-up effect \<open>initApp\<close>, the save effect run by
    \<open>dispatch\<close> when its dependencies change, and the project handlers. C12--C18:
    upsert and reload round trips, deletion and start-up always leave an active project,
    migration is idempotent; C8: the sort-then-head choice of the most recent project
    equals a linear scan (\<open>pickLatest\<close>).
  \<^item> \<open>Orchestrator\<close>: the async handlers split at their \<open>await\<close>s, pending
    continuations as \<open>Task\<close>s, and \<open>sysStep\<close>/\<open>sysRun\<close> over events (handler calls,
    direct dispatches, promise settlements) so that any interleaving is a run;
    \<open>find_dispatch\<close> says which stored project a dispatch rewrites. C24, C26--C32: a
    complete generation into a new project, the credential precondition, the
    component-mode prompt with or without an existing conversation, complete successful
    and failed rounds, and, for arbitrary states, the races the source leaves open (a late
    result saved into whichever project is open, a stale conversion cached under a restored
    design, a cleared key that still converts).
  \<^item> \<open>Panels\<close>: the handlers of \<^verbatim>\<open>Sidebar.tsx\<close> and \<^verbatim>\<open>SettingsModal.tsx\<close>
    over their local state, each returning the orchestrator \<open>Event\<close> it triggers; the
    \<open>disabled\<close> attributes of the prompt form as the guard \<open>submitReachable\<close>.
    C34, C35, C37: the dialog's guards, a failing \<open>btoa\<close> that keeps the client, and
    from any state with a key, a second request in flight after a project switch; lemma:
    the Enhance round.
  \<^item> \<open>Toast\<close>: the progress timer of \<open>ToastMessage\<close> in
    \<^verbatim>\<open>Toast.tsx\<close> as a step function over ticks, hovers, closes and dismissal timers,
    composed with the reducer's \<open>REMOVE_TOAST\<close>. C38--C39: dismissal after exactly
    100 ticks (with one extra dismissal per later tick), progress bounds; the styles of
    each toast type (\<open>getToastStyles\<close>), the rendered toast (\<open>toastRender\<close>, whose bar
    width reads back as the progress) and the list \<open>ToastContainer\<close> renders.
  \<^item> \<open>Preview\<close>: the document the preview iframe renders and the file the HTML
    export writes (transcribed from \<^verbatim>\<open>VisualPreview.tsx\<close>), the panel's local
    state under messages, keys, copy and download outcomes, the rendered panel (action
    bars with their \<open>disabled\<close> attributes, fullscreen modal, sandboxed frames), and the
    render containers \<open>generateCanvas\<close> attaches to the page (\<open>domStep\<close>); lemmas: a
    container is attached exactly while its copy or download waits for the canvas.
  \<^item> \<open>MainView\<close>: \<^verbatim>\<open>MainContent.tsx\<close>: the built-in inspiration examples,
    the tab and preview-width state, \<open>renderInnerContent\<close> as the choice of screen
    (loading, welcome, workspace) and of what the visual or code panel receives, the
    welcome screen's content, and the rendered inputs (\<open>mainInput\<close>) with the orchestrator
    events they raise; lemmas: an active design is always shown, the
    welcome screen appears exactly without design and request, an example click renders
    the example, the built-in examples pass \<open>isValidHtml\<close>.
  \<^item> \<open>Invariants\<close>: well-formed worlds, distinct project ids, the start-up storage
    conditions and the inductive set \<open>reachable\<close> of states reached from start-up by any
    events; \<open>sysStep_preserves\<close> reduces preservation of a world predicate by every event
    to six facts about the updates the handlers perform.
  \<^item> \<open>SidebarUI\<close>: the rendered side panel composed with the orchestrator. Each
    input on an element (\<open>sidebarEvent\<close>) takes effect only when the element is rendered
    and enabled, and makes at most one call: an orchestrator \<open>Event\<close> or the start of one
    of the panel's own requests (\<open>fetchExamples\<close>, \<open>handleEnhancePrompt\<close>), which settle
    later (\<open>uiStep\<close>); the panel's effects (title sync, fetch when a key appears) run after
    each step. Lemmas: every state reached from start-up through any interleaving is
    orchestrator-reachable and keeps the panel consistent with its pending requests, the
    guards of the calls the panel makes, the rendered \<open>disabled\<close> attributes (from
    \<open>sidebarView\<close>) are those guards, deletion only by confirmation, dictation lost to a
    running enhancement.
  \<^item> \<open>AppLayout\<close>: the settings dialog of \<^verbatim>\<open>SettingsModal.tsx\<close> as
    \<open>AppLayout\<close> renders it: mounted with fresh state while \<open>isSettingsOpen\<close> holds,
    each input guarded by its element's condition, the saved-message timer, the rendered
    parts that depend on state. C5: a save whose \<open>btoa\<close> throws leaves the dialog
    claiming success; lemmas: a successful save closes it, the dialog is mounted exactly
    while \<open>isSettingsOpen\<close> holds and its saved message always has a pending timer.
  \<^item> \<open>AppUI\<close>: \<open>AppLayout\<close> of \<^verbatim>\<open>App.tsx\<close> with its three components over the
    one provider: any input on the side panel, the settings dialog or the main panel
    (\<open>mainInput\<close>: tabs, device, example, settings and header buttons), the settlements of
    their own requests and timers and any orchestrator event, each followed by the re-render
    (side-panel effects, dialog mount). The composition agrees with each component's model
    (\<open>appStep_sidebar\<close>, \<open>appStep_dialog\<close>). C40: every reachable state is
    orchestrator-reachable and all components stay consistent; lemmas: a key saved in the
    dialog starts the side panel's inspiration fetch with the new client, a title change
    during a title edit overwrites the edit, and \<open>useAppContext\<close> rejects the default
    context whose no-op handlers were meant for use outside a provider.
  \<^item> This theory: the invariants of every reachable state, well-formedness (C33) and
    distinct project ids (C36); and the components together (\<open>submit_shows_progress\<close>):
    an enabled submit in the side panel goes through the orchestrator and the next render
    of the side panel and of the main panel shows the request in progress.

  \<^bold>\<open>Modelling choices.\<close> Strings are \<open>char\<close> lists, case folding and white space are
  the ASCII ones. Objects used as maps are association lists updated as the spread
  operator does. JSON encoding followed by decoding is the identity on the values written;
  an unparseable stored value is the constructor \<open>Unparseable\<close>. React's reference
  comparison of effect dependencies is value comparison. All clock reads inside one
  synchronous handler see the same value. \<open>atob\<close> and \<open>btoa\<close> are parameters.
  Every definition is total and executable: the two recursions that are not structural,
  \<open>nat_to_string\<close> and \<open>js_replace_all\<close>, terminate by the measures of the number and of
  the remaining string, so no fuel bound is needed. An async handler is finished after at
  most two settlements by construction of \<open>resume\<close> (a chat creation, then a reply), so
  no termination measure is stated for it.

  \<^bold>\<open>Not modelled.\<close> The JSX layout and CSS classes of the components beyond the
  parts named above, and \<^verbatim>\<open>Icons.tsx\<close> (stateless SVG); \<^verbatim>\<open>CodePreview.tsx\<close>,
  which \<^verbatim>\<open>MainContent.tsx\<close> imports but the repository does not contain, so only the
  props it receives are modelled; the image rendering of \<^verbatim>\<open>VisualPreview.tsx\<close>
  (\<open>html2canvas\<close>), the voice input (its hook \<^verbatim>\<open>hooks/useVoiceRecognition.ts\<close> is
  not in the repository either) and the network itself, whose outcomes are inputs; the
  deferral of the load after a deletion (\<open>setTimeout(0)\<close>), which is taken as immediate.
\<close>

text \<open>
  C33. Every state the application reaches from a well-formed storage keeps the session
  invariant, and every project in its list is well formed: whatever the order of user
  events and promise settlements, the active design is one of the history's designs.
\<close>

theorem reachable_wf:
  "reachable atob btoa S \<Longrightarrow> wf_world (world S)"
  by (induction rule: reachable.induct) (simp_all add: initApp_wf sysStep_wf)

theorem reachable_wf_witness:
  "wf_world (world (sysStep (\<lambda>s. Inr s) 2 \<lparr>world = initApp (\<lambda>s. Some s) 1 exStorage, pending = []\<rparr>
                      (LoadProject ''p2'')))"
proof -
  have "reachable (\<lambda>s. Some s) (\<lambda>s. Inr s) \<lparr>world = initApp (\<lambda>s. Some s) 1 exStorage, pending = []\<rparr>"
    using exStorage_start by (blast intro: reachable.start)
  then have "reachable (\<lambda>s. Some s) (\<lambda>s. Inr s)
               (sysStep (\<lambda>s. Inr s) 2 \<lparr>world = initApp (\<lambda>s. Some s) 1 exStorage, pending = []\<rparr> (LoadProject ''p2''))"
    by (rule reachable.step)
  then show ?thesis by (rule reachable_wf)
qed

text \<open>
  C36. In every reachable state the saved projects have pairwise distinct ids: the save
  effect replaces the entry with the current id or adds a new one, deletion filters, and
  the migrated project gets a fresh id, so a lookup by id never has two candidates.
\<close>

theorem reachable_ids_distinct:
  "reachable atob btoa S \<Longrightarrow> distinct (map proj_id (projects (world S)))"
proof (induction rule: reachable.induct)
  case (start ls now)
  then show ?case using initApp_ids [of ls now atob] by (simp add: ids_distinct_def)
next
  case (step S now e)
  then show ?case using sysStep_ids [of S btoa now e] by (simp add: ids_distinct_def)
qed

theorem reachable_ids_distinct_witness:
  "distinct (map proj_id (projects (world (sysStep (\<lambda>s. Inr s) 2
      \<lparr>world = initApp (\<lambda>s. Some s) 1 exStorage, pending = []\<rparr> (DeleteProject ''p1'')))))"
proof -
  have "reachable (\<lambda>s. Some s) (\<lambda>s. Inr s) \<lparr>world = initApp (\<lambda>s. Some s) 1 exStorage, pending = []\<rparr>"
    using exStorage_start by (blast intro: reachable.start)
  then have "reachable (\<lambda>s. Some s) (\<lambda>s. Inr s)
               (sysStep (\<lambda>s. Inr s) 2 \<lparr>world = initApp (\<lambda>s. Some s) 1 exStorage, pending = []\<rparr> (DeleteProject ''p1''))"
    by (rule reachable.step)
  then show ?thesis by (rule reachable_ids_distinct)
qed

text \<open>
  The components together: an enabled submit button in the side panel clears the field,
  sends the prompt through the orchestrator, which leaves one continuation pending, and on
  the next render the submit button reads \<open>Generating...\<close> and the main panel keeps the
  design with its \<open>Updating...\<close> indicator.
\<close>

lemma submit_shows_progress:
  assumes "\<not> submitDisabled (sidebarView (st (world (sys U))) (sbar U) l v)"
    and "activeDesign (st (world (sys U))) = Some d"
  shows "(\<exists>ds pn. renderInnerContent (st (world (sys (uiStep btoa now U (Input SubmitClick))))) m =
                  Workspace (activeTab m) ds True pn) \<and>
         submitLabel (sidebarView (st (world (sys (uiStep btoa now U (Input SubmitClick)))))
                        (sbar (uiStep btoa now U (Input SubmitClick))) l v) = ''Generating...'' \<and>
         sb_prompt (sbar (uiStep btoa now U (Input SubmitClick))) = [] \<and>
         length (pending (sys (uiStep btoa now U (Input SubmitClick)))) = Suc (length (pending (sys U)))"
proof -
  have key: "isApiKeySet (st (world (sys U)))"
    using assms(1) by (simp add: sidebarView_def)
  have ev: "sidebarEvent (st (world (sys U))) (projects (world (sys U))) (sbar U) SubmitClick =
            ((sbar U)\<lparr>sb_prompt := []\<rparr>, Some (Provider (SendMessage (sb_prompt (sbar U)))))"
    using sidebarView_guards(1) [OF assms(1)] .
  define S1 where "S1 = sysStep btoa now (sys U) (SendMessage (sb_prompt (sbar U)))"
  have u: "uiStep btoa now U (Input SubmitClick) =
           sidebarEffects (st (world (sys U))) (U\<lparr>sbar := (sbar U)\<lparr>sb_prompt := []\<rparr>, sys := S1\<rparr>)"
    by (simp only: uiStep.simps Let_def ev prod.case runCall_def option.case SidebarCall.case S1_def)
       simp
  have s1: "st (world S1) = appReducer now (st (world (sys U))) START_GENERATION \<and>
            length (pending S1) = Suc (length (pending (sys U)))"
    using key by (auto simp: S1_def sysStep_def handleSendMessage_def spawn_def dispatch_frame Let_def
                             isApiKeySet_def split: option.splits)
  have eff: "sidebarEffects (st (world (sys U))) (U\<lparr>sbar := (sbar U)\<lparr>sb_prompt := []\<rparr>, sys := S1\<rparr>) =
             U\<lparr>sbar := (sbar U)\<lparr>sb_prompt := []\<rparr>, sys := S1\<rparr>"
    using s1 by (simp add: sidebarEffects_def isApiKeySet_def)
  show ?thesis
    unfolding u eff using s1 assms(2) by (auto simp: renderInnerContent_def sidebarView_def)
qed

end
